theory Spec2Isabelle
  imports Main "HOL-Library.Sublist"
begin

section \<open>JavaScript strings\<close>

text \<open>
  A JavaScript string is a list of characters and \<open>null\<close> is \<open>None\<close>. The functions
  below are the string methods that \<open>extension.js\<close> calls, with the arguments it
  passes.
\<close>

text \<open>\<open>String.prototype.startsWith\<close> and \<open>endsWith\<close>.\<close>

fun startsWith :: "string \<Rightarrow> string \<Rightarrow> bool" where
  "startsWith s [] = True"
| "startsWith [] (p # ps) = False"
| "startsWith (c # cs) (p # ps) = (c = p \<and> startsWith cs ps)"

definition endsWith :: "string \<Rightarrow> string \<Rightarrow> bool" where
  "endsWith s p = startsWith (rev s) (rev p)"

text \<open>\<open>String.prototype.includes\<close>: the pattern occurs at some position.\<close>

fun includes_str :: "string \<Rightarrow> string \<Rightarrow> bool" where
  "includes_str [] p = (p = [])"
| "includes_str (c # cs) p = (startsWith (c # cs) p \<or> includes_str cs p)"

text \<open>
  \<open>s.replace(pat, rep)\<close> with a string pattern: only the first occurrence of
  \<open>pat\<close> is replaced, wherever it stands.
\<close>

fun replace :: "string \<Rightarrow> string \<Rightarrow> string \<Rightarrow> string" where
  "replace [] pat rep = (if pat = [] then rep else [])"
| "replace (c # cs) pat rep =
     (if startsWith (c # cs) pat then rep @ drop (length pat) (c # cs)
      else c # replace cs pat rep)"

text \<open>\<open>s.split(sep)\<close> for a one-character separator; the result is never empty.\<close>

fun split :: "string \<Rightarrow> char \<Rightarrow> string list" where
  "split [] sep = [[]]"
| "split (c # cs) sep =
     (if c = sep then [] # split cs sep
      else (case split cs sep of
              [] \<Rightarrow> [[c]]
            | seg # segs \<Rightarrow> (c # seg) # segs))"

text \<open>\<open>Array.prototype.pop\<close>: the last element, \<open>undefined\<close> on an empty array.\<close>

definition pop :: "'a list \<Rightarrow> 'a option" where
  "pop xs = (if xs = [] then None else Some (last xs))"

text \<open>
  \<open>String.prototype.trim\<close>: white space is removed at both ends. The white-space
  characters of the 8-bit range are tab, line feed, vertical tab, form feed,
  carriage return, space and the no-break space.
\<close>

definition isSpace :: "char \<Rightarrow> bool" where
  "isSpace c = (c \<in> set [CHR 0x09, CHR 0x0A, CHR 0x0B, CHR 0x0C, CHR 0x0D, CHR 0x20, CHR 0xA0])"

definition trim :: "string \<Rightarrow> string" where
  "trim s = rev (dropWhile isSpace (rev (dropWhile isSpace s)))"

text \<open>\<open>value.slice(1, -1)\<close>: the string without its first and its last character.\<close>

definition slice_1_m1 :: "string \<Rightarrow> string" where
  "slice_1_m1 s = butlast (tl s)"

text \<open>The character class \<open>[a-zA-Z0-9]\<close>.\<close>

definition alnum :: "char \<Rightarrow> bool" where
  "alnum c =
     (let n = (of_char c :: nat)
      in (97 \<le> n \<and> n \<le> 122) \<or> (65 \<le> n \<and> n \<le> 90) \<or> (48 \<le> n \<and> n \<le> 57))"

text \<open>
  The regular expressions \<open>/-l\.[a-zA-Z0-9]+$/\<close> and \<open>/-d\.[a-zA-Z0-9]+$/\<close>.
  \<open>match_here x s\<close> is a match that starts at the first character of \<open>s\<close>: a
  hyphen, the letter \<open>x\<close>, a dot, then one or more characters of the class up to
  the end of the input. \<open>regex_test x s\<close> is \<open>RegExp.prototype.test\<close>, which tries
  every start position from left to right.
\<close>

fun match_here :: "char \<Rightarrow> string \<Rightarrow> bool" where
  "match_here x (a # b # c # ext) =
     (a = CHR ''-'' \<and> b = x \<and> c = CHR ''.'' \<and> ext \<noteq> [] \<and> list_all alnum ext)"
| "match_here x s = False"

fun regex_test :: "char \<Rightarrow> string \<Rightarrow> bool" where
  "regex_test x [] = False"
| "regex_test x (c # cs) = (match_here x (c # cs) \<or> regex_test x cs)"

section \<open>Pairing classification\<close>

text \<open>
  \<open>_isPairedWallpaper(uri)\<close>: \<open>!uri\<close> holds for \<open>null\<close> and for the empty
  string; \<open>pop() || ''\<close> turns \<open>undefined\<close> into the empty string.
\<close>

definition isPairedWallpaper :: "string option \<Rightarrow> bool" where
  "isPairedWallpaper uri =
     (case uri of
        None \<Rightarrow> False
      | Some u \<Rightarrow>
          if u = [] then False
          else
            (let filename = (case pop (split (replace u ''file://'' []) CHR ''/'') of
                               None \<Rightarrow> []
                             | Some seg \<Rightarrow> seg)
             in regex_test CHR ''l'' filename \<or> regex_test CHR ''d'' filename))"

text \<open>
  The classification in the words of the specification: the file-scheme prefix is
  dropped when the value starts with it, the file name is what follows the last
  slash, and the name ends with \<open>-l.ext\<close> or \<open>-d.ext\<close>, where \<open>ext\<close> is
  the non-empty run of alphanumeric characters at the end of the name.
\<close>

definition ignore_file_scheme :: "string \<Rightarrow> string" where
  "ignore_file_scheme u = (if startsWith u ''file://'' then drop 7 u else u)"

definition final_segment :: "string \<Rightarrow> string" where
  "final_segment u = rev (takeWhile (\<lambda>c. c \<noteq> CHR ''/'') (rev u))"

definition has_pair_suffix :: "string \<Rightarrow> bool" where
  "has_pair_suffix name =
     (let ext = rev (takeWhile alnum (rev name));
          stem = rev (dropWhile alnum (rev name))
      in ext \<noteq> [] \<and> (endsWith stem ''-l.'' \<or> endsWith stem ''-d.''))"

definition paired_spec :: "string option \<Rightarrow> bool" where
  "paired_spec uri =
     (case uri of
        None \<Rightarrow> False
      | Some u \<Rightarrow> has_pair_suffix (final_segment (ignore_file_scheme u)))"

section \<open>Command lines\<close>

text \<open>
  The extension hands every command to GLib as one line of text, and GLib cuts
  the line into arguments by the quoting rules of a shell: \<open>g_shell_parse_argv\<close>,
  called by \<open>spawn_command_line_sync\<close> and by \<open>_executeCommand\<close>. The functions
  of this section follow \<open>gshell.c\<close>. \<open>None\<close> is the error that GLib reports.

  \<open>tokenize_command_line\<close> cuts the line into tokens that still carry their
  quotes and backslashes. Its state is the open quote (\<open>Escape\<close> after a
  backslash outside quotes, \<open>Comment_start\<close> and \<open>Comment\<close> after a \<open>#\<close> that
  begins a word), the flag \<open>escaped\<close> that an odd number of backslashes
  precedes, the token being built, and the character before. Blanks and line
  feeds outside quotes end a token; a quote stays open up to the same quote
  character, which for a double quote must not follow an odd number of
  backslashes. A line that ends inside a quote or after a backslash is an
  error.
\<close>

datatype quoting = Unquoted | Escape | Comment_start | Comment | Quote char

fun delimit_token :: "string option \<Rightarrow> string list option \<Rightarrow> string list option" where
  "delimit_token None r = r"
| "delimit_token (Some t) r = map_option ((#) t) r"

fun append_c :: "string option \<Rightarrow> string \<Rightarrow> string option" where
  "append_c None s = Some s"
| "append_c (Some t) s = Some (t @ s)"

fun tokenize_command_line :: "quoting \<Rightarrow> bool \<Rightarrow> string option \<Rightarrow> char option \<Rightarrow> string \<Rightarrow> string list option" where
  "tokenize_command_line cq escaped tok prev [] =
     (if cq = Unquoted \<or> cq = Comment then delimit_token tok (Some []) else None)"
| "tokenize_command_line Escape escaped tok prev (c # cs) =
     tokenize_command_line Unquoted (c = CHR 0x5C \<and> \<not> escaped)
       (if c = CHR 0x0A then tok else append_c tok [CHR 0x5C, c]) (Some c) cs"
| "tokenize_command_line Comment_start escaped tok prev (c # cs) =
     tokenize_command_line (if c = CHR 0x0A then Unquoted else Comment) (c = CHR 0x5C \<and> \<not> escaped)
       tok (Some c) cs"
| "tokenize_command_line Comment escaped tok prev (c # cs) =
     tokenize_command_line (if c = CHR 0x0A then Unquoted else Comment) (c = CHR 0x5C \<and> \<not> escaped)
       tok (Some c) cs"
| "tokenize_command_line (Quote q) escaped tok prev (c # cs) =
     tokenize_command_line (if c = q \<and> \<not> (q = CHR 0x22 \<and> escaped) then Unquoted else Quote q)
       (c = CHR 0x5C \<and> \<not> escaped) (append_c tok [c]) (Some c) cs"
| "tokenize_command_line Unquoted escaped tok prev (c # cs) =
     (if c = CHR 0x0A \<or> c = CHR 0x20 \<or> c = CHR 0x09 then
        delimit_token tok (tokenize_command_line Unquoted False None (Some c) cs)
      else if c = CHR 0x27 \<or> c = CHR 0x22 then
        tokenize_command_line (Quote c) False (append_c tok [c]) (Some c) cs
      else if c = CHR 0x5C then
        tokenize_command_line Escape (\<not> escaped) tok (Some c) cs
      else if c = CHR 0x23 \<and> (prev = None \<or> prev = Some (CHR 0x20) \<or> prev = Some (CHR 0x0A)) then
        tokenize_command_line Comment_start False tok (Some c) cs
      else tokenize_command_line Unquoted False (append_c tok [c]) (Some c) cs)"

text \<open>
  \<open>g_shell_unquote\<close> on one token: outside quotes a backslash makes the next
  character literal (a line feed after it is dropped); between single quotes
  everything is literal; between double quotes a backslash is removed before
  \<open>"\<close>, \<open>\\<close>, \<open>`\<close>, \<open>$\<close> and a line feed, and kept otherwise. \<open>q\<close> is the open
  quote.
\<close>

fun unquote_string :: "char option \<Rightarrow> string \<Rightarrow> string option" where
  "unquote_string q [] = (if q = None then Some [] else None)"
| "unquote_string None (c # cs) =
     (if c = CHR 0x22 \<or> c = CHR 0x27 then unquote_string (Some c) cs
      else if c = CHR 0x5C then
        (case cs of
           [] \<Rightarrow> Some []
         | d # ds \<Rightarrow>
             if d = CHR 0x0A then unquote_string None ds
             else map_option ((#) d) (unquote_string None ds))
      else map_option ((#) c) (unquote_string None cs))"
| "unquote_string (Some q) (c # cs) =
     (if c = q then unquote_string None cs
      else if q = CHR 0x22 \<and> c = CHR 0x5C then
        (case cs of
           [] \<Rightarrow> None
         | d # ds \<Rightarrow>
             if d \<in> set [CHR 0x22, CHR 0x5C, CHR 0x60, CHR 0x24, CHR 0x0A]
             then map_option ((#) d) (unquote_string (Some q) ds)
             else map_option ((#) (CHR 0x5C)) (unquote_string (Some q) cs))
      else map_option ((#) c) (unquote_string (Some q) cs))"

definition g_shell_unquote :: "string \<Rightarrow> string option" where
  "g_shell_unquote token = unquote_string None token"

text \<open>\<open>g_shell_parse_argv\<close>: a line without any token is an error as well.\<close>

definition shell_parse_argv :: "string \<Rightarrow> string list option" where
  "shell_parse_argv command_line =
     (case tokenize_command_line Unquoted False None None command_line of
        None \<Rightarrow> None
      | Some tokens \<Rightarrow> if tokens = [] then None else those (map g_shell_unquote tokens))"

text \<open>
  The string writes of the extension are built by the template
  \<open>dconf write PATH "'${value}'"\<close>: the value is spliced between \<open>"'\<close> and \<open>'"\<close>
  as it is. \<open>spliced t\<close> is what the command receives for the text \<open>"t"\<close> of
  its line: one argument \<open>t\<close> when \<open>t\<close> has no double quote and no backslash,
  otherwise whatever the rules above make of it.
\<close>

definition spliced :: "string \<Rightarrow> string list option" where
  "spliced t = shell_parse_argv (CHR 0x22 # t @ [CHR 0x22])"

text \<open>
  \<open>dconf write\<close> reads its value argument in the GVariant text format, and
  \<open>dconf read\<close> prints a value in that format. For a string literal between
  single quotes whose characters are printable ASCII other than \<open>'\<close> and \<open>\\<close>
  the text printed is the text written.
\<close>

definition literal_char :: "char \<Rightarrow> bool" where
  "literal_char c = (32 \<le> (of_char c :: nat) \<and> (of_char c :: nat) \<le> 126 \<and> c \<noteq> CHR 0x27 \<and> c \<noteq> CHR 0x5C)"

definition string_literal :: "string \<Rightarrow> bool" where
  "string_literal a =
     (case a of
        [] \<Rightarrow> False
      | c # cs \<Rightarrow> c = CHR 0x27 \<and> cs \<noteq> [] \<and> last cs = CHR 0x27 \<and> list_all literal_char (butlast cs))"

section \<open>The desktop\<close>

text \<open>
  The environment of the extension. \<open>background\<close> and \<open>interface\<close> are the
  live settings of the schemas \<open>org.gnome.desktop.background\<close> and
  \<open>org.gnome.desktop.interface\<close>, read and written through \<open>Gio.Settings\<close>.
  \<open>dconf\<close> is the dconf database as the \<open>dconf\<close> command line sees it: a key
  path is unset or holds the text that \<open>dconf read\<close> prints for it. The
  extension's own keys and the shell-theme key of the user-theme extension are
  reached only this way. \<open>failing\<close> tells which commands fail in this
  environment (the store is unreachable, the process cannot be started).
  \<open>signals\<close> are the handlers connected to the two settings objects and to the
  D-Bus proxy and not disconnected since, each with the object it is connected
  to and its id; \<open>handler_count\<close> is the number of handler ids handed out.
  \<open>trace\<close> is the sequence of calls that leave the extension, in the order
  they are made.

  A command stands for the line that the source builds. The words that are
  fixed in the source are kept as they are: \<open>DconfRead p\<close> is \<open>dconf read p\<close>,
  \<open>DconfReset p\<close> is \<open>dconf reset p\<close>, and every path is a literal of the
  source. \<open>DconfWrite p t\<close> is \<open>dconf write p "t"\<close>, where \<open>t\<close> is the text
  that the source puts between the double quotes; a string write puts
  \<open>'value'\<close> there. What the command receives in that place is \<open>spliced t\<close>.
  The boolean write of the source has the word \<open>true\<close> or \<open>false\<close> without
  the double quotes, which is the same argument. The trace records a command
  as it is built.

  \<open>dconf write\<close> stores the value that its argument denotes. For the words
  \<open>true\<close> and \<open>false\<close> and for a string literal as above, \<open>dconf read\<close> prints
  afterwards the text that was written. For any other arguments \<open>gvariant\<close>
  tells what this environment prints afterwards, or \<open>None\<close> when \<open>dconf write\<close>
  rejects them. \<open>stdout.toString()\<close> is the text that a command prints.

  Notifications are delivered by the environment: a function of this theory is
  one invocation of a handler, and the \<open>changed\<close> signal that a \<open>set_string\<close>
  of the extension raises is a later event, not a part of the invocation. An
  asynchronous function is split where it awaits; \<open>Await\<close> in the trace marks
  the suspension. A subprocess has its effect on the database when it is
  started. The property callback that the extension connects to the D-Bus proxy
  is the function \<open>on_properties_changed\<close> below.
\<close>

datatype schema = Background | Interface

datatype emitter = Settings schema | ColorProxy

datatype command =
    DconfRead string
  | DconfWrite string string
  | DconfReset string

datatype effect =
    SpawnSync command
  | Execute command
  | Await
  | SetString schema string string
  | Disconnect emitter nat

datatype js_error = TypeError | GError

record desktop =
  background :: "string \<Rightarrow> string"
  interface :: "string \<Rightarrow> string"
  dconf :: "string \<Rightarrow> string option"
  NightLightActive :: bool
  failing :: "command \<Rightarrow> bool"
  gvariant :: "string list \<Rightarrow> string option"
  signals :: "(emitter \<times> nat) list"
  handler_count :: nat
  trace :: "effect list"

definition emit :: "effect \<Rightarrow> desktop \<Rightarrow> desktop" where
  "emit x w = w\<lparr>trace := trace w @ [x]\<rparr>"

subsection \<open>Gio.Settings\<close>

text \<open>
  A settings object is known by its schema; a \<open>null\<close> reference is \<open>None\<close>, and
  a method call on it throws. \<open>set_string\<close> takes a string, so a \<open>null\<close> value
  throws as well and writes nothing.
\<close>

definition read_setting :: "schema \<Rightarrow> desktop \<Rightarrow> string \<Rightarrow> string" where
  "read_setting s w key = (case s of Background \<Rightarrow> background w key | Interface \<Rightarrow> interface w key)"

definition write_setting :: "schema \<Rightarrow> string \<Rightarrow> string \<Rightarrow> desktop \<Rightarrow> desktop" where
  "write_setting s key v w =
     (case s of
        Background \<Rightarrow> w\<lparr>background := (background w)(key := v)\<rparr>
      | Interface \<Rightarrow> w\<lparr>interface := (interface w)(key := v)\<rparr>)"

definition get_string :: "schema option \<Rightarrow> string \<Rightarrow> desktop \<Rightarrow> js_error + string" where
  "get_string obj key w =
     (case obj of None \<Rightarrow> Inl TypeError | Some s \<Rightarrow> Inr (read_setting s w key))"

definition set_string :: "schema option \<Rightarrow> string \<Rightarrow> string option \<Rightarrow> desktop \<Rightarrow> js_error + desktop" where
  "set_string obj key val w =
     (case obj of
        None \<Rightarrow> Inl TypeError
      | Some s \<Rightarrow>
          (case val of
             None \<Rightarrow> Inl TypeError
           | Some v \<Rightarrow> Inr (emit (SetString s key v) (write_setting s key v w))))"

text \<open>\<open>connect\<close> returns a fresh handler id, which is never zero.\<close>

definition connect :: "emitter \<Rightarrow> desktop \<Rightarrow> nat \<times> desktop" where
  "connect obj w =
     (let h = Suc (handler_count w)
      in (h, w\<lparr>signals := signals w @ [(obj, h)], handler_count := h\<rparr>))"

definition disconnect :: "emitter \<Rightarrow> nat \<Rightarrow> desktop \<Rightarrow> desktop" where
  "disconnect obj h w = emit (Disconnect obj h) (w\<lparr>signals := removeAll (obj, h) (signals w)\<rparr>)"

subsection \<open>Commands\<close>

text \<open>
  The line that the source builds for a command, and the arguments that the
  command is run with. A word is a text without blanks, quotes, backslashes and
  number signs. For a path that is a word, as every path of the source is,
  \<open>g_shell_parse_argv\<close> makes of the line the arguments \<open>argv\<close>; this is
  shown below, also for the boolean write, whose line has the word \<open>true\<close>
  or \<open>false\<close> without double quotes.
\<close>

definition ordinary :: "char \<Rightarrow> bool" where
  "ordinary c = (c \<notin> set [CHR 0x20, CHR 0x09, CHR 0x0A, CHR 0x27, CHR 0x22, CHR 0x5C, CHR 0x23])"

definition word :: "string \<Rightarrow> bool" where
  "word s = (s \<noteq> [] \<and> list_all ordinary s)"

definition command_line :: "command \<Rightarrow> string" where
  "command_line c =
     (case c of
        DconfRead p \<Rightarrow> ''dconf read '' @ p
      | DconfWrite p t \<Rightarrow> ''dconf write '' @ p @ '' '' @ [CHR 0x22] @ t @ [CHR 0x22]
      | DconfReset p \<Rightarrow> ''dconf reset '' @ p)"

definition argv :: "command \<Rightarrow> string list option" where
  "argv c =
     (case c of
        DconfRead p \<Rightarrow> Some [''dconf'', ''read'', p]
      | DconfWrite p t \<Rightarrow> map_option (\<lambda>args. ''dconf'' # ''write'' # p # args) (spliced t)
      | DconfReset p \<Rightarrow> Some [''dconf'', ''reset'', p])"

text \<open>A line parses when \<open>g_shell_parse_argv\<close> accepts it.\<close>

definition parses :: "command \<Rightarrow> bool" where
  "parses c = (argv c \<noteq> None)"

text \<open>
  \<open>printed w args\<close> is the text that \<open>dconf read\<close> prints for a key after
  \<open>dconf write\<close> of the value arguments \<open>args\<close>, and \<open>written w t\<close> the same
  for the text \<open>t\<close> between the double quotes of the line; \<open>None\<close> when nothing
  is stored.
\<close>

definition printed :: "desktop \<Rightarrow> string list \<Rightarrow> string option" where
  "printed w args =
     (case args of
        [a] \<Rightarrow> if a = ''true'' \<or> a = ''false'' \<or> string_literal a then Some a else gvariant w args
      | _ \<Rightarrow> gvariant w args)"

definition written :: "desktop \<Rightarrow> string \<Rightarrow> string option" where
  "written w t = (case spliced t of None \<Rightarrow> None | Some args \<Rightarrow> printed w args)"

text \<open>
  What a command does when it runs: \<open>dconf read\<close> prints the stored text and a
  line feed, or nothing for an unset key; \<open>dconf write\<close> stores the value of
  its arguments, or fails and stores nothing; \<open>dconf reset\<close> unsets the key.
  The result is the standard output.
\<close>

definition run_command :: "command \<Rightarrow> desktop \<Rightarrow> string \<times> desktop" where
  "run_command c w =
     (case c of
        DconfRead p \<Rightarrow> ((case dconf w p of None \<Rightarrow> [] | Some t \<Rightarrow> t @ [CHR 0x0A]), w)
      | DconfWrite p t \<Rightarrow>
          (case written w t of
             None \<Rightarrow> ([], w)
           | Some text \<Rightarrow> ([], w\<lparr>dconf := (dconf w)(p \<mapsto> text)\<rparr>))
      | DconfReset p \<Rightarrow> ([], w\<lparr>dconf := (dconf w)(p := None)\<rparr>))"

text \<open>
  \<open>GLib.spawn_command_line_sync\<close>: throws when the line does not parse or the
  command cannot be run.
\<close>

definition spawn_command_line_sync :: "command \<Rightarrow> desktop \<Rightarrow> (js_error + string) \<times> desktop" where
  "spawn_command_line_sync c w =
     (let w1 = emit (SpawnSync c) w
      in if failing w c \<or> \<not> parses c then (Inl GError, w1)
         else (case run_command c w1 of (out, w2) \<Rightarrow> (Inr out, w2)))"

section \<open>DConf access\<close>

definition dconfPath :: string where
  "dconfPath = ''/org/gnome/shell/extensions/themekeeper/''"

definition userThemeName :: string where
  "userThemeName = ''/org/gnome/shell/extensions/user-theme/name''"

text \<open>
  The text \<open>'value'\<close> that the template literals build around a value, without
  escaping anything in it.
\<close>

definition quoted :: "string \<Rightarrow> string" where
  "quoted v = CHR 0x27 # v @ [CHR 0x27]"

text \<open>
  In the three readers the test \<open>success && stdout\<close> holds whenever the call
  returns, and an exception is caught and logged, which gives the default.
\<close>

definition getDconfBoolean :: "string \<Rightarrow> bool option \<Rightarrow> desktop \<Rightarrow> bool option \<times> desktop" where
  "getDconfBoolean key defaultValue w =
     (case spawn_command_line_sync (DconfRead (dconfPath @ key)) w of
        (Inl err, w1) \<Rightarrow> (defaultValue, w1)
      | (Inr stdout, w1) \<Rightarrow>
          (let v = trim stdout
           in if v = [] then (defaultValue, w1) else (Some (v = ''true''), w1)))"

definition boolValue :: "bool \<Rightarrow> string" where
  "boolValue val = (if val then ''true'' else ''false'')"

definition setDconfBoolean :: "string \<Rightarrow> bool \<Rightarrow> desktop \<Rightarrow> desktop" where
  "setDconfBoolean key val w =
     snd (spawn_command_line_sync (DconfWrite (dconfPath @ key) (boolValue val)) w)"

definition getDconfString :: "string \<Rightarrow> string option \<Rightarrow> desktop \<Rightarrow> string option \<times> desktop" where
  "getDconfString key defaultValue w =
     (case spawn_command_line_sync (DconfRead (dconfPath @ key)) w of
        (Inl err, w1) \<Rightarrow> (defaultValue, w1)
      | (Inr stdout, w1) \<Rightarrow>
          (let v = trim stdout
           in if v = [] then (defaultValue, w1)
              else if startsWith v [CHR 0x27] \<and> endsWith v [CHR 0x27]
                   then (Some (slice_1_m1 v), w1)
                   else (Some v, w1)))"

text \<open>
  \<open>_setDconfString(key, value)\<close> builds the line
  \<open>dconf write PATH "'value'"\<close> with the value as it is. The line is parsed
  when it is run, so the text stored under the key is \<open>written w (quoted val)\<close>,
  which is \<open>quoted val\<close> for a value without quotes and backslashes and
  can be another text, or none, otherwise.
\<close>

definition setDconfString :: "string \<Rightarrow> string \<Rightarrow> desktop \<Rightarrow> desktop" where
  "setDconfString key val w =
     snd (spawn_command_line_sync (DconfWrite (dconfPath @ key) (quoted val)) w)"

definition getCurrentShellTheme :: "desktop \<Rightarrow> string \<times> desktop" where
  "getCurrentShellTheme w =
     (case spawn_command_line_sync (DconfRead userThemeName) w of
        (Inl err, w1) \<Rightarrow> ([], w1)
      | (Inr stdout, w1) \<Rightarrow>
          (let v = trim stdout
           in if v = [] then ([], w1)
              else if startsWith v [CHR 0x27] \<and> endsWith v [CHR 0x27]
                   then (slice_1_m1 v, w1)
                   else (v, w1)))"

definition getAutomaticMode :: "desktop \<Rightarrow> bool \<times> desktop" where
  "getAutomaticMode w =
     (case getDconfBoolean ''automatic-mode'' None w of
        (None, w1) \<Rightarrow> (True, setDconfBoolean ''automatic-mode'' True w1)
      | (Some automaticMode, w1) \<Rightarrow> (automaticMode, w1))"

section \<open>The extension object\<close>

record wallpapers =
  light :: "string option"
  dark :: "string option"

record extension =
  nightLightProxy :: "unit option"
  settings :: "schema option"
  interfaceSettings :: "schema option"
  lastNightLightState :: "bool option"
  storedWallpapers :: wallpapers
  wallpaperChangeHandler :: "nat option"
  styleChangeHandler :: "nat option"

text \<open>The constructor.\<close>

definition constructor :: extension where
  "constructor =
     \<lparr>nightLightProxy = None, settings = None, interfaceSettings = None,
      lastNightLightState = None,
      storedWallpapers = \<lparr>light = None, dark = None\<rparr>,
      wallpaperChangeHandler = None, styleChangeHandler = None\<rparr>"

text \<open>Truthiness of a string or \<open>null\<close>.\<close>

definition truthy :: "string option \<Rightarrow> bool" where
  "truthy v = (case v of None \<Rightarrow> False | Some s \<Rightarrow> s \<noteq> [])"

subsection \<open>Theme snapshots\<close>

text \<open>
  In both functions an exception (a \<open>null\<close> settings object) is caught before
  anything is written. \<open>currentShell || 'Default'\<close> is the sentinel for an empty
  shell theme.
\<close>

definition saveCurrentThemeToLightKeys :: "extension \<Rightarrow> desktop \<Rightarrow> desktop" where
  "saveCurrentThemeToLightKeys e w =
     (case get_string (interfaceSettings e) ''gtk-theme'' w of Inl err \<Rightarrow> w | Inr currentGtk \<Rightarrow>
      case get_string (interfaceSettings e) ''icon-theme'' w of Inl err \<Rightarrow> w | Inr currentIcon \<Rightarrow>
      case get_string (interfaceSettings e) ''cursor-theme'' w of Inl err \<Rightarrow> w | Inr currentCursor \<Rightarrow>
      case get_string (interfaceSettings e) ''accent-color'' w of Inl err \<Rightarrow> w | Inr currentAccent \<Rightarrow>
      case getCurrentShellTheme w of (currentShell, w1) \<Rightarrow>
        setDconfString ''light-shell-theme'' (if currentShell = [] then ''Default'' else currentShell)
          (setDconfString ''light-accent-color'' currentAccent
            (setDconfString ''light-cursor-theme'' currentCursor
              (setDconfString ''light-icon-theme'' currentIcon
                (setDconfString ''light-gtk-theme'' currentGtk w1)))))"

definition saveCurrentThemeToDarkKeys :: "extension \<Rightarrow> desktop \<Rightarrow> desktop" where
  "saveCurrentThemeToDarkKeys e w =
     (case get_string (interfaceSettings e) ''gtk-theme'' w of Inl err \<Rightarrow> w | Inr currentGtk \<Rightarrow>
      case get_string (interfaceSettings e) ''icon-theme'' w of Inl err \<Rightarrow> w | Inr currentIcon \<Rightarrow>
      case get_string (interfaceSettings e) ''cursor-theme'' w of Inl err \<Rightarrow> w | Inr currentCursor \<Rightarrow>
      case get_string (interfaceSettings e) ''accent-color'' w of Inl err \<Rightarrow> w | Inr currentAccent \<Rightarrow>
      case getCurrentShellTheme w of (currentShell, w1) \<Rightarrow>
        setDconfString ''dark-shell-theme'' (if currentShell = [] then ''Default'' else currentShell)
          (setDconfString ''dark-accent-color'' currentAccent
            (setDconfString ''dark-cursor-theme'' currentCursor
              (setDconfString ''dark-icon-theme'' currentIcon
                (setDconfString ''dark-gtk-theme'' currentGtk w1)))))"

subsection \<open>Wallpaper changes\<close>

text \<open>
  \<open>_handleWallpaperChange(changedKey)\<close>. Nothing has been changed when one of
  its calls throws, so the error alone is the result then.
\<close>

definition remember :: "string \<Rightarrow> string \<Rightarrow> extension \<Rightarrow> extension" where
  "remember changedKey newValue e =
     (if changedKey = ''picture-uri''
      then e\<lparr>storedWallpapers := (storedWallpapers e)\<lparr>light := Some newValue\<rparr>\<rparr>
      else e\<lparr>storedWallpapers := (storedWallpapers e)\<lparr>dark := Some newValue\<rparr>\<rparr>)"

definition handleWallpaperChange :: "string \<Rightarrow> extension \<Rightarrow> desktop \<Rightarrow> js_error + extension \<times> desktop" where
  "handleWallpaperChange changedKey e w =
     (case get_string (settings e) changedKey w of Inl err \<Rightarrow> Inl err | Inr newValue \<Rightarrow>
      case get_string (interfaceSettings e) ''color-scheme'' w of Inl err \<Rightarrow> Inl err | Inr colorScheme \<Rightarrow>
        (let isDark = includes_str colorScheme ''dark'';
             isPaired = isPairedWallpaper (Some newValue)
         in if isPaired then Inr (remember changedKey newValue e, w)
            else if changedKey = ''picture-uri'' \<and> isDark then
              (case set_string (settings e) ''picture-uri'' (light (storedWallpapers e)) w of
                 Inl err \<Rightarrow> Inl err
               | Inr w1 \<Rightarrow> Inr (e, w1))
            else if changedKey = ''picture-uri-dark'' \<and> \<not> isDark then
              (case set_string (settings e) ''picture-uri-dark'' (dark (storedWallpapers e)) w of
                 Inl err \<Rightarrow> Inl err
               | Inr w1 \<Rightarrow> Inr (e, w1))
            else Inr (remember changedKey newValue e, w)))"

text \<open>The callback connected to \<open>changed\<close> of the background settings.\<close>

definition on_background_changed :: "string \<Rightarrow> extension \<Rightarrow> desktop \<Rightarrow> js_error + extension \<times> desktop" where
  "on_background_changed key e w =
     (if key = ''picture-uri'' \<or> key = ''picture-uri-dark''
      then handleWallpaperChange key e w
      else Inr (e, w))"

subsection \<open>Applying a snapshot\<close>

text \<open>
  \<open>_executeCommand(command)\<close>: the call is recorded, the line is parsed, the
  subprocess is started and the function suspends until it has finished. A
  failure, of \<open>GLib.shell_parse_argv\<close> or of the subprocess, is caught and
  logged.
\<close>

definition executeCommand :: "command \<Rightarrow> desktop \<Rightarrow> desktop" where
  "executeCommand c w =
     (let w1 = emit (Execute c) w
      in if failing w c \<or> \<not> parses c then w1 else emit Await (snd (run_command c w1)))"

text \<open>The statement \<open>if (v) this._interfaceSettings.set_string(key, v)\<close>.\<close>

definition set_if_truthy :: "schema option \<Rightarrow> string \<Rightarrow> string option \<Rightarrow> desktop \<Rightarrow> js_error + desktop" where
  "set_if_truthy obj key v w = (if truthy v then set_string obj key v w else Inr w)"

text \<open>
  The command of the \<open>if (shell && shell !== 'Default') ... else ...\<close> statement
  of both appliers. The write is built like the one of \<open>_setDconfString\<close>, with
  the stored value spliced between \<open>"'\<close> and \<open>'"\<close>.
\<close>

definition shell_command :: "string option \<Rightarrow> command" where
  "shell_command shell =
     (case shell of
        None \<Rightarrow> DconfReset userThemeName
      | Some s \<Rightarrow>
          if s \<noteq> [] \<and> s \<noteq> ''Default'' then DconfWrite userThemeName (quoted s)
          else DconfReset userThemeName)"

text \<open>
  \<open>_applyLightTheme\<close> and \<open>_applyDarkTheme\<close> are asynchronous. The \<open>begin\<close>
  part runs in the caller up to \<open>await this._executeCommand(...)\<close>; it returns
  the local variables that the rest of the body still needs, or \<open>None\<close> when an
  exception ended the function before. The \<open>resume\<close> part is the rest of the
  body, run when the awaited command has completed; an exception in it is caught
  and ends it.
\<close>

type_synonym continuation = "string option \<times> string option \<times> string option"

definition applyLightTheme_begin :: "extension \<Rightarrow> desktop \<Rightarrow> continuation option \<times> desktop" where
  "applyLightTheme_begin e w =
     (case getDconfString ''light-gtk-theme'' None w of (lightGtk, w1) \<Rightarrow>
      case getDconfString ''light-shell-theme'' None w1 of (lightShell, w2) \<Rightarrow>
      case getDconfString ''light-icon-theme'' None w2 of (lightIcon, w3) \<Rightarrow>
      case getDconfString ''light-cursor-theme'' None w3 of (lightCursor, w4) \<Rightarrow>
      case getDconfString ''light-accent-color'' None w4 of (lightAccent, w5) \<Rightarrow>
      case set_if_truthy (interfaceSettings e) ''gtk-theme'' lightGtk w5 of
        Inl err \<Rightarrow> (None, w5)
      | Inr w6 \<Rightarrow>
          (Some (lightIcon, lightCursor, lightAccent),
           emit Await (executeCommand (shell_command lightShell) w6)))"

definition applyLightTheme_resume :: "extension \<Rightarrow> continuation \<Rightarrow> desktop \<Rightarrow> desktop" where
  "applyLightTheme_resume e k w =
     (case k of (lightIcon, lightCursor, lightAccent) \<Rightarrow>
      case set_if_truthy (interfaceSettings e) ''icon-theme'' lightIcon w of Inl err \<Rightarrow> w | Inr w1 \<Rightarrow>
      case set_if_truthy (interfaceSettings e) ''cursor-theme'' lightCursor w1 of Inl err \<Rightarrow> w1 | Inr w2 \<Rightarrow>
      case set_if_truthy (interfaceSettings e) ''accent-color'' lightAccent w2 of Inl err \<Rightarrow> w2 | Inr w3 \<Rightarrow> w3)"

definition applyLightTheme :: "extension \<Rightarrow> desktop \<Rightarrow> desktop" where
  "applyLightTheme e w =
     (case applyLightTheme_begin e w of
        (None, w1) \<Rightarrow> w1
      | (Some k, w1) \<Rightarrow> applyLightTheme_resume e k w1)"

definition applyDarkTheme_begin :: "extension \<Rightarrow> desktop \<Rightarrow> continuation option \<times> desktop" where
  "applyDarkTheme_begin e w =
     (case getDconfString ''dark-gtk-theme'' None w of (darkGtk, w1) \<Rightarrow>
      case getDconfString ''dark-shell-theme'' None w1 of (darkShell, w2) \<Rightarrow>
      case getDconfString ''dark-icon-theme'' None w2 of (darkIcon, w3) \<Rightarrow>
      case getDconfString ''dark-cursor-theme'' None w3 of (darkCursor, w4) \<Rightarrow>
      case getDconfString ''dark-accent-color'' None w4 of (darkAccent, w5) \<Rightarrow>
      case set_if_truthy (interfaceSettings e) ''gtk-theme'' darkGtk w5 of
        Inl err \<Rightarrow> (None, w5)
      | Inr w6 \<Rightarrow>
          (Some (darkIcon, darkCursor, darkAccent),
           emit Await (executeCommand (shell_command darkShell) w6)))"

definition applyDarkTheme_resume :: "extension \<Rightarrow> continuation \<Rightarrow> desktop \<Rightarrow> desktop" where
  "applyDarkTheme_resume e k w =
     (case k of (darkIcon, darkCursor, darkAccent) \<Rightarrow>
      case set_if_truthy (interfaceSettings e) ''icon-theme'' darkIcon w of Inl err \<Rightarrow> w | Inr w1 \<Rightarrow>
      case set_if_truthy (interfaceSettings e) ''cursor-theme'' darkCursor w1 of Inl err \<Rightarrow> w1 | Inr w2 \<Rightarrow>
      case set_if_truthy (interfaceSettings e) ''accent-color'' darkAccent w2 of Inl err \<Rightarrow> w2 | Inr w3 \<Rightarrow> w3)"

definition applyDarkTheme :: "extension \<Rightarrow> desktop \<Rightarrow> desktop" where
  "applyDarkTheme e w =
     (case applyDarkTheme_begin e w of
        (None, w1) \<Rightarrow> w1
      | (Some k, w1) \<Rightarrow> applyDarkTheme_resume e k w1)"

subsection \<open>Style changes\<close>

text \<open>
  \<open>_handleStyleChange\<close>. The handler returns when the applier suspends;
  \<open>handleStyleChange_begin\<close> is that part and gives the continuation left
  behind. \<open>handleStyleChange\<close> is the handler with its continuation run to the
  end, before any other notification is delivered.
\<close>

definition handleStyleChange_begin :: "extension \<Rightarrow> desktop \<Rightarrow> js_error + continuation option \<times> desktop" where
  "handleStyleChange_begin e w =
     (case get_string (interfaceSettings e) ''color-scheme'' w of
        Inl err \<Rightarrow> Inl err
      | Inr colorScheme \<Rightarrow>
          (let isDark = includes_str colorScheme ''dark''
           in if isDark then Inr (applyDarkTheme_begin e (saveCurrentThemeToLightKeys e w))
              else Inr (applyLightTheme_begin e (saveCurrentThemeToDarkKeys e w))))"

definition handleStyleChange :: "extension \<Rightarrow> desktop \<Rightarrow> js_error + desktop" where
  "handleStyleChange e w =
     (case get_string (interfaceSettings e) ''color-scheme'' w of
        Inl err \<Rightarrow> Inl err
      | Inr colorScheme \<Rightarrow>
          (let isDark = includes_str colorScheme ''dark''
           in if isDark then Inr (applyDarkTheme e (saveCurrentThemeToLightKeys e w))
              else Inr (applyLightTheme e (saveCurrentThemeToDarkKeys e w))))"

subsection \<open>Night Light changes\<close>

text \<open>
  \<open>_handleNightLightChange(nightLightActive)\<close>. An exception leaves the handler
  with the desktop as it is at that point, which the error carries.
\<close>

definition handleNightLightChange :: "bool \<Rightarrow> extension \<Rightarrow> desktop \<Rightarrow> js_error \<times> desktop + desktop" where
  "handleNightLightChange nightLightActive e w =
     (case getAutomaticMode w of (automaticMode, w1) \<Rightarrow>
      if \<not> automaticMode then Inr w1
      else if nightLightActive then
        (case set_string (interfaceSettings e) ''color-scheme'' (Some ''prefer-dark'') w1 of
           Inl err \<Rightarrow> Inl (err, w1)
         | Inr w2 \<Rightarrow>
             (case get_string (settings e) ''picture-uri-dark'' w2 of
                Inl err \<Rightarrow> Inl (err, w2)
              | Inr currentDark \<Rightarrow>
                  if Some currentDark \<noteq> dark (storedWallpapers e) then
                    (case set_string (settings e) ''picture-uri-dark'' (dark (storedWallpapers e)) w2 of
                       Inl err \<Rightarrow> Inl (err, w2)
                     | Inr w3 \<Rightarrow> Inr w3)
                  else Inr w2))
      else
        (case set_string (interfaceSettings e) ''color-scheme'' (Some ''default'') w1 of
           Inl err \<Rightarrow> Inl (err, w1)
         | Inr w2 \<Rightarrow>
             (case get_string (settings e) ''picture-uri'' w2 of
                Inl err \<Rightarrow> Inl (err, w2)
              | Inr currentLight \<Rightarrow>
                  if Some currentLight \<noteq> light (storedWallpapers e) then
                    (case set_string (settings e) ''picture-uri'' (light (storedWallpapers e)) w2 of
                       Inl err \<Rightarrow> Inl (err, w2)
                     | Inr w3 \<Rightarrow> Inr w3)
                  else Inr w2)))"

text \<open>
  The callback connected to \<open>g-properties-changed\<close> of the proxy; its argument
  is the looked-up \<open>NightLightActive\<close>, \<open>None\<close> when the notification does not
  carry it.
\<close>

definition on_properties_changed :: "bool option \<Rightarrow> extension \<Rightarrow> desktop \<Rightarrow> js_error \<times> extension \<times> desktop + extension \<times> desktop" where
  "on_properties_changed nightLight e w =
     (case nightLight of
        None \<Rightarrow> Inr (e, w)
      | Some newState \<Rightarrow>
          if lastNightLightState e \<noteq> Some newState then
            (let e1 = e\<lparr>lastNightLightState := Some newState\<rparr>
             in case handleNightLightChange newState e1 w of
                  Inl (err, w1) \<Rightarrow> Inl (err, e1, w1)
                | Inr w1 \<Rightarrow> Inr (e1, w1))
          else Inr (e, w))"

subsection \<open>Life cycle\<close>


definition initNightLightMonitoring_resume :: "extension \<Rightarrow> desktop \<Rightarrow> extension \<times> desktop" where
  "initNightLightMonitoring_resume e w =
     (case nightLightProxy e of
        None \<Rightarrow> (e, w)
      | Some proxy \<Rightarrow>
          (let initial = NightLightActive w;
               e1 = e\<lparr>lastNightLightState := Some initial\<rparr>
           in case handleNightLightChange initial e1 w of
                Inl (err, w1) \<Rightarrow> (e1, w1)
              | Inr w1 \<Rightarrow> (e1, snd (connect ColorProxy w1))))"



text \<open>The statement \<open>if (id) obj.disconnect(id)\<close>.\<close>

definition disconnect_if :: "emitter \<Rightarrow> nat option \<Rightarrow> desktop \<Rightarrow> desktop" where
  "disconnect_if obj h w =
     (case h of
        None \<Rightarrow> w
      | Some n \<Rightarrow> if n \<noteq> 0 then disconnect obj n w else w)"


section \<open>Notions used in the statements\<close>

text \<open>
  The definitions of this section are not part of the extension. They name what
  the specification talks about, so that the theorems can say it.
\<close>

subsection \<open>Values on the command line\<close>

text \<open>
  A value is plain when it consists of printable ASCII characters other than
  the two quotes and the backslash. Such a value passes through the command
  line and the database unchanged.
\<close>

definition plain :: "string \<Rightarrow> bool" where
  "plain v = list_all (\<lambda>c. literal_char c \<and> c \<noteq> CHR 0x22) v"

subsection \<open>Snapshots\<close>

text \<open>
  The value of a persisted key as \<open>_getDconfString(key)\<close> returns it, and the
  value \<open>currentShell || 'Default'\<close> that a snapshot stores for the shell theme.
\<close>

definition snapshot_value :: "desktop \<Rightarrow> string \<Rightarrow> string option" where
  "snapshot_value w key = fst (getDconfString key None w)"

definition shell_or_default :: "desktop \<Rightarrow> string" where
  "shell_or_default w =
     (let currentShell = fst (getCurrentShellTheme w)
      in if currentShell = [] then ''Default'' else currentShell)"

text \<open>The text under a key after \<open>_setDconfString(key, v)\<close>.\<close>

definition persisted :: "desktop \<Rightarrow> string \<Rightarrow> string \<Rightarrow> string option" where
  "persisted w key v = dconf (setDconfString key v w) (dconfPath @ key)"

text \<open>
  The snapshot step of the specification: the live shell theme is read, then the
  five live attributes are written under the keys of \<open>mode\<close>.
\<close>

definition snapshot_effects :: "string \<Rightarrow> schema \<Rightarrow> desktop \<Rightarrow> effect list" where
  "snapshot_effects mode s w =
     [SpawnSync (DconfRead userThemeName),
      SpawnSync (DconfWrite (dconfPath @ mode @ ''-gtk-theme'') (quoted (read_setting s w ''gtk-theme''))),
      SpawnSync (DconfWrite (dconfPath @ mode @ ''-icon-theme'') (quoted (read_setting s w ''icon-theme''))),
      SpawnSync (DconfWrite (dconfPath @ mode @ ''-cursor-theme'') (quoted (read_setting s w ''cursor-theme''))),
      SpawnSync (DconfWrite (dconfPath @ mode @ ''-accent-color'') (quoted (read_setting s w ''accent-color''))),
      SpawnSync (DconfWrite (dconfPath @ mode @ ''-shell-theme'') (quoted (shell_or_default w)))]"

subsection \<open>Applying\<close>

text \<open>
  What \<open>if (v) settings.set_string(key, v)\<close> does on an existing settings
  object: to the desktop (\<open>assign\<close>), to the trace (\<open>set_effect\<close>) and to the
  value of the key (\<open>override\<close>).
\<close>

definition assign :: "schema \<Rightarrow> string \<Rightarrow> string option \<Rightarrow> desktop \<Rightarrow> desktop" where
  "assign s key v w =
     (case v of
        None \<Rightarrow> w
      | Some x \<Rightarrow> if x = [] then w else emit (SetString s key x) (write_setting s key x w))"

definition set_effect :: "schema \<Rightarrow> string \<Rightarrow> string option \<Rightarrow> effect list" where
  "set_effect s key v =
     (case v of
        None \<Rightarrow> []
      | Some x \<Rightarrow> if x = [] then [] else [SetString s key x])"

definition override :: "string option \<Rightarrow> string \<Rightarrow> string" where
  "override v old = (case v of None \<Rightarrow> old | Some x \<Rightarrow> if x = [] then old else x)"

text \<open>
  The calls of \<open>apply(mode)\<close>, in order: up to the suspension at the shell-theme
  command, and after it.
\<close>

definition apply_begin_effects :: "string \<Rightarrow> schema \<Rightarrow> desktop \<Rightarrow> effect list" where
  "apply_begin_effects mode s w =
     [SpawnSync (DconfRead (dconfPath @ mode @ ''-gtk-theme'')),
      SpawnSync (DconfRead (dconfPath @ mode @ ''-shell-theme'')),
      SpawnSync (DconfRead (dconfPath @ mode @ ''-icon-theme'')),
      SpawnSync (DconfRead (dconfPath @ mode @ ''-cursor-theme'')),
      SpawnSync (DconfRead (dconfPath @ mode @ ''-accent-color''))]
     @ set_effect s ''gtk-theme'' (snapshot_value w (mode @ ''-gtk-theme''))
     @ [Execute (shell_command (snapshot_value w (mode @ ''-shell-theme'')))]
     @ (if failing w (shell_command (snapshot_value w (mode @ ''-shell-theme'')))
           \<or> \<not> parses (shell_command (snapshot_value w (mode @ ''-shell-theme''))) then [] else [Await])
     @ [Await]"

definition apply_resume_effects :: "string \<Rightarrow> schema \<Rightarrow> desktop \<Rightarrow> effect list" where
  "apply_resume_effects mode s w =
     set_effect s ''icon-theme'' (snapshot_value w (mode @ ''-icon-theme''))
     @ set_effect s ''cursor-theme'' (snapshot_value w (mode @ ''-cursor-theme''))
     @ set_effect s ''accent-color'' (snapshot_value w (mode @ ''-accent-color''))"

text \<open>
  The mode that a style change enters and the mode it leaves, from the
  color-scheme that the handler reads.
\<close>

definition entered :: "schema \<Rightarrow> desktop \<Rightarrow> string" where
  "entered s w = (if includes_str (read_setting s w ''color-scheme'') ''dark'' then ''dark'' else ''light'')"

definition left :: "schema \<Rightarrow> desktop \<Rightarrow> string" where
  "left s w = (if includes_str (read_setting s w ''color-scheme'') ''dark'' then ''light'' else ''dark'')"

text \<open>
  A live-setting write, and a trace in which no live-setting write follows the
  first suspension.
\<close>

definition is_live_write :: "effect \<Rightarrow> bool" where
  "is_live_write x = (case x of SetString s key v \<Rightarrow> True | _ \<Rightarrow> False)"

definition eager :: "effect list \<Rightarrow> bool" where
  "eager tr = list_all (\<lambda>x. \<not> is_live_write x) (dropWhile (\<lambda>x. x \<noteq> Await) tr)"

subsection \<open>The user\<close>

text \<open>
  What the user or another program does between two notifications: the
  color-scheme is switched, a wallpaper key is set.
\<close>

definition switch_scheme :: "string \<Rightarrow> desktop \<Rightarrow> desktop" where
  "switch_scheme c w = w\<lparr>interface := (interface w)(''color-scheme'' := c)\<rparr>"

definition set_wallpaper :: "string \<Rightarrow> string \<Rightarrow> desktop \<Rightarrow> desktop" where
  "set_wallpaper key v w = w\<lparr>background := (background w)(key := v)\<rparr>"

text \<open>
  The five live theme attributes (gtk, icon, cursor, accent, shell), the shell
  theme being what \<open>_getCurrentShellTheme\<close> returns.
\<close>

definition live_theme :: "desktop \<Rightarrow> string \<times> string \<times> string \<times> string \<times> string" where
  "live_theme w =
     (interface w ''gtk-theme'', interface w ''icon-theme'', interface w ''cursor-theme'',
      interface w ''accent-color'', fst (getCurrentShellTheme w))"

text \<open>
  A switch to a dark color-scheme and back to a light one, each followed by the
  style handler.
\<close>

definition round_trip :: "extension \<Rightarrow> string \<Rightarrow> string \<Rightarrow> desktop \<Rightarrow> js_error + desktop" where
  "round_trip e darkScheme lightScheme w =
     (case handleStyleChange e (switch_scheme darkScheme w) of
        Inl err \<Rightarrow> Inl err
      | Inr w2 \<Rightarrow> handleStyleChange e (switch_scheme lightScheme w2))"

text \<open>
  The same two switches when the second notification is delivered while the
  first handler is still suspended at its command, and the command of the
  second handler is the first to complete: both handlers run up to their
  suspension, then the second one resumes, then the first.
\<close>

definition round_trip_overlapped :: "extension \<Rightarrow> string \<Rightarrow> string \<Rightarrow> desktop \<Rightarrow> js_error + desktop" where
  "round_trip_overlapped e darkScheme lightScheme w =
     (case handleStyleChange_begin e (switch_scheme darkScheme w) of
        Inl err \<Rightarrow> Inl err
      | Inr (k1, w1) \<Rightarrow>
          (case handleStyleChange_begin e (switch_scheme lightScheme w1) of
             Inl err \<Rightarrow> Inl err
           | Inr (k2, w2) \<Rightarrow>
               Inr ((case k1 of None \<Rightarrow> (\<lambda>w. w) | Some k \<Rightarrow> applyDarkTheme_resume e k)
                     ((case k2 of None \<Rightarrow> (\<lambda>w. w) | Some k \<Rightarrow> applyLightTheme_resume e k) w2))))"

subsection \<open>Handlers\<close>


subsection \<open>Mode Memory\<close>

text \<open>
  The slot of Mode Memory that matches a wallpaper key, the other slot, and the
  case that the policy calls an unwanted overwrite: the light key changed while
  the color-scheme is dark, or the dark key while it is light.
\<close>

definition slot :: "string \<Rightarrow> extension \<Rightarrow> string option" where
  "slot key e = (if key = ''picture-uri'' then light (storedWallpapers e) else dark (storedWallpapers e))"

definition other_slot :: "string \<Rightarrow> extension \<Rightarrow> string option" where
  "other_slot key e = (if key = ''picture-uri'' then dark (storedWallpapers e) else light (storedWallpapers e))"

definition unwanted :: "string \<Rightarrow> desktop \<Rightarrow> bool" where
  "unwanted key w =
     (let isDark = includes_str (interface w ''color-scheme'') ''dark''
      in (key = ''picture-uri'' \<and> isDark) \<or> (key = ''picture-uri-dark'' \<and> \<not> isDark))"

subsection \<open>Example states\<close>

text \<open>
  \<open>desktop0\<close> is an empty desktop on which every command succeeds and
  \<open>dconf write\<close> rejects every argument that is not a boolean or a string
  literal as described above; the other desktops take this over.
  \<open>desktop1\<close> is a desktop in light mode with a stored dark GTK theme and a
  stored light icon theme. The others differ from it in one place: an empty
  live GTK theme (\<open>desktop2\<close>), stored shell themes (\<open>desktop3\<close>), automatic
  mode switched off (\<open>desktop4\<close>), a live shell theme named \<open>Default\<close>
  (\<open>desktop5\<close>). \<open>extension1\<close> is the extension as \<open>enable\<close> leaves it on
  \<open>desktop1\<close>, without the proxy.
\<close>

definition desktop0 :: desktop where
  "desktop0 = \<lparr>background = (\<lambda>k. []), interface = (\<lambda>k. []), dconf = (\<lambda>p. None),
      NightLightActive = False, failing = (\<lambda>c. False), gvariant = (\<lambda>args. None),
      signals = [], handler_count = 0, trace = []\<rparr>"

definition desktop1 :: desktop where
  "desktop1 = desktop0
     \<lparr>background := (\<lambda>k. [])(''picture-uri'' := ''file:///home/u/day.jpg'',
          ''picture-uri-dark'' := ''file:///home/u/night.jpg''),
      interface := (\<lambda>k. [])(''color-scheme'' := ''default'', ''gtk-theme'' := ''Adwaita'',
          ''icon-theme'' := ''Adwaita'', ''cursor-theme'' := ''Adwaita'', ''accent-color'' := ''blue''),
      dconf := [dconfPath @ ''dark-gtk-theme'' \<mapsto> quoted ''Adwaita-dark'',
                dconfPath @ ''light-icon-theme'' \<mapsto> quoted ''Papirus'']\<rparr>"

definition desktop2 :: desktop where
  "desktop2 = desktop1\<lparr>interface := (interface desktop1)(''gtk-theme'' := [])\<rparr>"


definition desktop4 :: desktop where
  "desktop4 = desktop1\<lparr>dconf := (dconf desktop1)(dconfPath @ ''automatic-mode'' \<mapsto> ''false'')\<rparr>"

definition desktop5 :: desktop where
  "desktop5 = desktop1\<lparr>dconf := (dconf desktop1)(userThemeName \<mapsto> quoted ''Default'')\<rparr>"

definition extension1 :: extension where
  "extension1 = constructor\<lparr>settings := Some Background, interfaceSettings := Some Interface,
      storedWallpapers := \<lparr>light = Some ''file:///home/u/day.jpg'', dark = Some ''file:///home/u/night.jpg''\<rparr>\<rparr>"

text \<open>
  Further variants of \<open>desktop1\<close>: a live GTK theme \<open>A"B"C\<close> with two double
  quotes (\<open>desktop6\<close>) and one named \<open>it's\<close> (\<open>desktop7\<close>); a desktop on which
  the write of the light GTK key fails (\<open>desktop8\<close>); a stored dark icon theme
  (\<open>desktop9\<close>); a live shell theme whose name is two double quotes
  (\<open>desktop10\<close>).
\<close>

definition desktop6 :: desktop where
  "desktop6 = desktop1\<lparr>interface := (interface desktop1)
      (''gtk-theme'' := [CHR ''A'', CHR 0x22, CHR ''B'', CHR 0x22, CHR ''C''])\<rparr>"

definition desktop7 :: desktop where
  "desktop7 = desktop1\<lparr>interface := (interface desktop1)
      (''gtk-theme'' := [CHR ''i'', CHR ''t'', CHR 0x27, CHR ''s''])\<rparr>"

definition desktop8 :: desktop where
  "desktop8 = desktop1\<lparr>failing := (\<lambda>c. c = DconfWrite (dconfPath @ ''light-gtk-theme'') (quoted ''Adwaita''))\<rparr>"

definition desktop9 :: desktop where
  "desktop9 = desktop1\<lparr>dconf := (dconf desktop1)(dconfPath @ ''dark-icon-theme'' \<mapsto> quoted ''Papirus-Dark'')\<rparr>"

definition desktop10 :: desktop where
  "desktop10 = desktop1\<lparr>dconf := (dconf desktop1)(userThemeName \<mapsto> quoted [CHR 0x22, CHR 0x22])\<rparr>"



section \<open>Verification\<close>

subsection \<open>Strings\<close>

lemma startsWith_iff: "startsWith s p \<longleftrightarrow> (\<exists>t. s = p @ t)"
  by (induction s p rule: startsWith.induct) auto

lemma endsWith_iff: "endsWith s p \<longleftrightarrow> (\<exists>t. s = t @ p)"
proof -
  have "endsWith s p \<longleftrightarrow> (\<exists>t. rev s = rev p @ t)"
    by (simp add: endsWith_def startsWith_iff)
  also have "\<dots> \<longleftrightarrow> (\<exists>t. s = t @ p)"
  proof
    assume "\<exists>t. rev s = rev p @ t"
    then obtain t where "rev s = rev p @ t" ..
    then have "s = rev t @ p" by (metis rev_append rev_rev_ident)
    then show "\<exists>t. s = t @ p" ..
  next
    assume "\<exists>t. s = t @ p"
    then obtain t where "s = t @ p" ..
    then have "rev s = rev p @ rev t" by simp
    then show "\<exists>t. rev s = rev p @ t" ..
  qed
  finally show ?thesis .
qed

lemma split_no_sep: "sep \<notin> set s \<Longrightarrow> split s sep = [s]"
  by (induction s) auto

lemma split_not_Nil: "split s sep \<noteq> []"
  by (induction s) (auto split: list.splits)

lemma split_sep_two: "sep \<in> set s \<Longrightarrow> \<exists>a b rest. split s sep = a # b # rest"
proof (induction s)
  case Nil
  then show ?case by simp
next
  case (Cons c cs)
  show ?case
  proof (cases "c = sep")
    case True
    then show ?thesis using split_not_Nil [of cs sep] by (cases "split cs sep") auto
  next
    case False
    with Cons show ?thesis by (auto split: list.splits)
  qed
qed

lemma final_segment_Cons:
  "final_segment (c # cs) = (if CHR ''/'' \<in> set cs then final_segment cs else if c = CHR ''/'' then cs else c # cs)"
  by (auto simp: final_segment_def takeWhile_append takeWhile_eq_all_conv[THEN iffD2])

lemma last_split: "last (split s CHR ''/'') = final_segment s"
proof (induction s)
  case Nil
  then show ?case by (simp add: final_segment_def)
next
  case (Cons c cs)
  show ?case
  proof (cases "CHR ''/'' \<in> set cs")
    case True
    then obtain a b rest where ab: "split cs CHR ''/'' = a # b # rest"
      using split_sep_two by blast
    with Cons True show ?thesis by (simp add: final_segment_Cons)
  next
    case False
    then have "split cs CHR ''/'' = [cs]" by (rule split_no_sep)
    with False show ?thesis by (simp add: final_segment_Cons)
  qed
qed

lemma match_here_iff:
  "match_here x s \<longleftrightarrow> (\<exists>ext. s = [CHR ''-'', x, CHR ''.''] @ ext \<and> ext \<noteq> [] \<and> list_all alnum ext)"
  by (induction x s rule: match_here.induct) auto

lemma regex_test_iff:
  "regex_test x s \<longleftrightarrow>
     (\<exists>stem ext. s = stem @ [CHR ''-'', x, CHR ''.''] @ ext \<and> ext \<noteq> [] \<and> list_all alnum ext)"
proof (induction s)
  case Nil
  then show ?case by simp
next
  case (Cons c cs)
  show ?case
  proof
    assume "regex_test x (c # cs)"
    then consider "match_here x (c # cs)" | "regex_test x cs" by auto
    then show "\<exists>stem ext. c # cs = stem @ [CHR ''-'', x, CHR ''.''] @ ext \<and> ext \<noteq> [] \<and> list_all alnum ext"
    proof cases
      case 1
      then obtain ext where "c # cs = [] @ [CHR ''-'', x, CHR ''.''] @ ext" "ext \<noteq> []" "list_all alnum ext"
        unfolding match_here_iff by auto
      then show ?thesis by blast
    next
      case 2
      then obtain stem ext where "cs = stem @ [CHR ''-'', x, CHR ''.''] @ ext" "ext \<noteq> []" "list_all alnum ext"
        using Cons by auto
      then have "c # cs = (c # stem) @ [CHR ''-'', x, CHR ''.''] @ ext" by simp
      then show ?thesis using \<open>ext \<noteq> []\<close> \<open>list_all alnum ext\<close> by blast
    qed
  next
    assume "\<exists>stem ext. c # cs = stem @ [CHR ''-'', x, CHR ''.''] @ ext \<and> ext \<noteq> [] \<and> list_all alnum ext"
    then obtain stem ext where h: "c # cs = stem @ [CHR ''-'', x, CHR ''.''] @ ext" "ext \<noteq> []" "list_all alnum ext"
      by blast
    show "regex_test x (c # cs)"
    proof (cases stem)
      case Nil
      with h have "match_here x (c # cs)" unfolding match_here_iff by auto
      then show ?thesis by simp
    next
      case (Cons a stem')
      with h have "cs = stem' @ [CHR ''-'', x, CHR ''.''] @ ext" by simp
      with h have "regex_test x cs" using Cons.IH by blast
      then show ?thesis by simp
    qed
  qed
qed

lemma dot_not_alnum: "\<not> alnum CHR ''.''"
  by (simp add: alnum_def)

lemma takeWhile_alnum_ext:
  assumes "list_all alnum ext"
  shows "takeWhile alnum (rev ext @ (CHR ''.'' # x # CHR ''-'' # rev stem)) = rev ext"
proof -
  have a: "\<And>c. c \<in> set (rev ext) \<Longrightarrow> alnum c"
    using assms by (simp add: list_all_iff)
  have "takeWhile alnum (rev ext @ (CHR ''.'' # x # CHR ''-'' # rev stem))
          = rev ext @ takeWhile alnum (CHR ''.'' # x # CHR ''-'' # rev stem)"
    using a by (rule takeWhile_append2)
  then show ?thesis by (simp add: dot_not_alnum)
qed

lemma dropWhile_alnum_ext:
  assumes "list_all alnum ext"
  shows "dropWhile alnum (rev ext @ (CHR ''.'' # x # CHR ''-'' # rev stem))
           = CHR ''.'' # x # CHR ''-'' # rev stem"
proof -
  have a: "\<And>c. c \<in> set (rev ext) \<Longrightarrow> alnum c"
    using assms by (simp add: list_all_iff)
  have "dropWhile alnum (rev ext @ (CHR ''.'' # x # CHR ''-'' # rev stem))
          = dropWhile alnum (CHR ''.'' # x # CHR ''-'' # rev stem)"
    using a by (rule dropWhile_append2)
  then show ?thesis by (simp add: dot_not_alnum)
qed

lemma regex_test_suffix:
  "regex_test x name \<longleftrightarrow>
     rev (takeWhile alnum (rev name)) \<noteq> [] \<and> endsWith (rev (dropWhile alnum (rev name))) [CHR ''-'', x, CHR ''.'']"
proof
  assume "regex_test x name"
  then obtain stem ext where h: "name = stem @ [CHR ''-'', x, CHR ''.''] @ ext" "ext \<noteq> []" "list_all alnum ext"
    unfolding regex_test_iff by blast
  show "rev (takeWhile alnum (rev name)) \<noteq> [] \<and> endsWith (rev (dropWhile alnum (rev name))) [CHR ''-'', x, CHR ''.'']"
    using h(2) by (simp add: h(1) takeWhile_alnum_ext [OF h(3)] dropWhile_alnum_ext [OF h(3)] endsWith_iff)
next
  assume a: "rev (takeWhile alnum (rev name)) \<noteq> [] \<and> endsWith (rev (dropWhile alnum (rev name))) [CHR ''-'', x, CHR ''.'']"
  then obtain t where t: "rev (dropWhile alnum (rev name)) = t @ [CHR ''-'', x, CHR ''.'']"
    unfolding endsWith_iff by blast
  have "rev name = takeWhile alnum (rev name) @ dropWhile alnum (rev name)" by simp
  then have "name = rev (dropWhile alnum (rev name)) @ rev (takeWhile alnum (rev name))"
    by (metis rev_append rev_rev_ident)
  then have "name = t @ [CHR ''-'', x, CHR ''.''] @ rev (takeWhile alnum (rev name))"
    using t by simp
  moreover have "list_all alnum (rev (takeWhile alnum (rev name)))"
    by (simp add: list_all_iff) (meson set_takeWhileD)
  ultimately show "regex_test x name" unfolding regex_test_iff using a by blast
qed

lemma has_pair_suffix_regex:
  "has_pair_suffix name \<longleftrightarrow> regex_test CHR ''l'' name \<or> regex_test CHR ''d'' name"
  unfolding regex_test_suffix has_pair_suffix_def Let_def by auto

lemma replace_prefix: "startsWith u pat \<Longrightarrow> replace u pat rep = rep @ drop (length pat) u"
  by (cases u; cases pat) auto

lemma replace_absent: "\<not> includes_str u pat \<Longrightarrow> replace u pat rep = u"
  by (induction u) auto


lemma startsWith_includes: "startsWith u pat \<Longrightarrow> includes_str u pat"
  by (cases u; cases pat) auto

lemma filename_final_segment:
  "(case pop (split s CHR ''/'') of None \<Rightarrow> [] | Some seg \<Rightarrow> seg) = final_segment s"
  by (simp add: pop_def split_not_Nil last_split)

lemma has_pair_suffix_Nil: "\<not> has_pair_suffix []"
  by (simp add: has_pair_suffix_def)

lemma isPairedWallpaper_Some:
  "isPairedWallpaper (Some u) = has_pair_suffix (final_segment (replace u ''file://'' []))"
proof (cases "u = []")
  case True
  then show ?thesis
    by (simp add: isPairedWallpaper_def has_pair_suffix_Nil final_segment_def)
next
  case False
  then show ?thesis
    by (simp add: isPairedWallpaper_def filename_final_segment has_pair_suffix_regex Let_def)
qed

lemma isPairedWallpaper_prefix_reading:
  assumes "startsWith u ''file://'' \<or> \<not> includes_str u ''file://''"
  shows "isPairedWallpaper (Some u) = paired_spec (Some u)"
proof -
  have "replace u ''file://'' [] = ignore_file_scheme u"
  proof (cases "startsWith u ''file://''")
    case True
    then show ?thesis by (simp add: replace_prefix ignore_file_scheme_def eval_nat_numeral)
  next
    case False
    with assms have "\<not> includes_str u ''file://''" by simp
    then have "replace u ''file://'' [] = u" by (rule replace_absent)
    with False show ?thesis by (simp add: ignore_file_scheme_def)
  qed
  then show ?thesis by (simp add: isPairedWallpaper_Some paired_spec_def)
qed

lemma no_slash_no_scheme: "CHR ''/'' \<notin> set t \<Longrightarrow> \<not> includes_str t ''file://''"
proof (induction t)
  case Nil
  then show ?case by simp
next
  case (Cons c t)
  have "\<not> startsWith (c # t) ''file://''"
  proof
    assume "startsWith (c # t) ''file://''"
    then obtain r where "c # t = ''file://'' @ r" unfolding startsWith_iff ..
    then have "CHR ''/'' \<in> set (c # t)" by simp
    with Cons.prems show False by simp
  qed
  with Cons show ?case by simp
qed

lemma replace_skip:
  "\<not> startsWith (c # cs) pat \<Longrightarrow> replace (c # cs) pat rep = c # replace cs pat rep"
  by simp

lemma scheme_inside:
  assumes "startsWith (a @ CHR ''/'' # t) ''file://''" and "CHR ''/'' \<notin> set t"
  shows "6 \<le> length a"
proof (rule ccontr)
  assume "\<not> 6 \<le> length a"
  then have len: "length a \<le> 5" by simp
  from assms(1) obtain r where eq: "a @ CHR ''/'' # t = ''file://'' @ r"
    unfolding startsWith_iff ..
  then have "length (a @ CHR ''/'' # t) = length (''file://'' @ r)" by simp
  then have lt: "6 - length a - 1 < length t" using len by simp
  have "(a @ CHR ''/'' # t) ! 6 = CHR ''/''" unfolding eq by (simp add: eval_nat_numeral)
  then have "(CHR ''/'' # t) ! (6 - length a) = CHR ''/''" using len by (simp add: nth_append)
  then have "t ! (6 - length a - 1) = CHR ''/''" using len by (simp add: nth_Cons')
  with lt have "CHR ''/'' \<in> set t" by (metis nth_mem)
  with assms(2) show False by simp
qed

lemma replace_keeps_name:
  assumes "CHR ''/'' \<notin> set t"
  shows "\<exists>q. replace (a @ CHR ''/'' # t) ''file://'' [] = q @ t"
proof (induction a)
  case Nil
  have "replace t ''file://'' [] = t"
    using assms by (simp add: replace_absent no_slash_no_scheme)
  then have "replace ([] @ CHR ''/'' # t) ''file://'' [] = [CHR ''/''] @ t" by simp
  then show ?case by blast
next
  case (Cons c a)
  show ?case
  proof (cases "startsWith ((c # a) @ CHR ''/'' # t) ''file://''")
    case True
    then have "6 \<le> length (c # a)" using assms by (rule scheme_inside)
    then have "7 - length ((c # a) @ [CHR ''/'']) = 0" by simp
    then have "drop 7 (((c # a) @ [CHR ''/'']) @ t) = drop 7 ((c # a) @ [CHR ''/'']) @ t"
      unfolding drop_append by simp
    then have "drop 7 ((c # a) @ CHR ''/'' # t) = drop 7 ((c # a) @ [CHR ''/'']) @ t"
      by simp
    moreover have "replace ((c # a) @ CHR ''/'' # t) ''file://'' [] = drop 7 ((c # a) @ CHR ''/'' # t)"
      using True by (simp add: replace_prefix eval_nat_numeral)
    ultimately show ?thesis by metis
  next
    case False
    from Cons obtain q where "replace (a @ CHR ''/'' # t) ''file://'' [] = q @ t" ..
    moreover from False have "\<not> startsWith (c # (a @ CHR ''/'' # t)) ''file://''"
      unfolding append_Cons .
    then have "replace (c # (a @ CHR ''/'' # t)) ''file://'' [] = c # replace (a @ CHR ''/'' # t) ''file://'' []"
      by (rule replace_skip)
    ultimately have "replace ((c # a) @ CHR ''/'' # t) ''file://'' [] = (c # q) @ t"
      by (simp only: append_Cons)
    then show ?thesis by blast
  qed
qed

lemma final_segment_name:
  assumes "CHR ''/'' \<notin> set t"
  shows "final_segment (q @ t) = final_segment q @ t"
proof -
  have "\<And>c. c \<in> set (rev t) \<Longrightarrow> c \<noteq> CHR ''/''" using assms by auto
  then have "takeWhile (\<lambda>c. c \<noteq> CHR ''/'') (rev t @ rev q) = rev t @ takeWhile (\<lambda>c. c \<noteq> CHR ''/'') (rev q)"
    by (rule takeWhile_append2)
  then show ?thesis by (simp add: final_segment_def)
qed

lemma filename_of_uri:
  assumes "CHR ''/'' \<notin> set t"
  shows "\<exists>s. final_segment (replace (a @ CHR ''/'' # t) ''file://'' []) = s @ t"
proof -
  from replace_keeps_name [OF assms] obtain q
    where "replace (a @ CHR ''/'' # t) ''file://'' [] = q @ t" ..
  then show ?thesis using final_segment_name [OF assms] by simp
qed

lemma paired_examples:
  "isPairedWallpaper (Some (a @ ''/sunset-l.jpg''))"
  "isPairedWallpaper (Some (a @ ''/sunset-d.png''))"
  "\<not> isPairedWallpaper (Some (a @ ''/random.jpg''))"
proof -
  obtain s1 where "final_segment (replace (a @ CHR ''/'' # ''sunset-l.jpg'') ''file://'' []) = s1 @ ''sunset-l.jpg''"
    using filename_of_uri [of "''sunset-l.jpg''" a] by auto
  then show "isPairedWallpaper (Some (a @ ''/sunset-l.jpg''))"
    by (simp add: isPairedWallpaper_Some has_pair_suffix_def alnum_def endsWith_def)
  obtain s2 where "final_segment (replace (a @ CHR ''/'' # ''sunset-d.png'') ''file://'' []) = s2 @ ''sunset-d.png''"
    using filename_of_uri [of "''sunset-d.png''" a] by auto
  then show "isPairedWallpaper (Some (a @ ''/sunset-d.png''))"
    by (simp add: isPairedWallpaper_Some has_pair_suffix_def alnum_def endsWith_def)
  obtain s3 where "final_segment (replace (a @ CHR ''/'' # ''random.jpg'') ''file://'' []) = s3 @ ''random.jpg''"
    using filename_of_uri [of "''random.jpg''" a] by auto
  then show "\<not> isPairedWallpaper (Some (a @ ''/random.jpg''))"
    by (simp add: isPairedWallpaper_Some has_pair_suffix_def alnum_def endsWith_def)
qed

subsection \<open>Command lines\<close>

lemma tokenize_double_quoted:
  "CHR 0x22 \<notin> set t \<Longrightarrow> CHR 0x5C \<notin> set t \<Longrightarrow>
   tokenize_command_line (Quote (CHR 0x22)) False (Some tk) pv (t @ CHR 0x22 # rest)
     = tokenize_command_line Unquoted False (Some (tk @ t @ [CHR 0x22])) (Some (CHR 0x22)) rest"
  by (induction t arbitrary: tk pv) auto

lemma unquote_double_quoted:
  "CHR 0x22 \<notin> set t \<Longrightarrow> CHR 0x5C \<notin> set t \<Longrightarrow>
   unquote_string (Some (CHR 0x22)) (t @ [CHR 0x22]) = Some t"
  by (induction t) auto

lemma spliced_one:
  assumes "CHR 0x22 \<notin> set t" "CHR 0x5C \<notin> set t"
  shows "spliced t = Some [t]"
  using tokenize_double_quoted [OF assms, of "[CHR 0x22]" "Some (CHR 0x22)" "[]"]
    unquote_double_quoted [OF assms]
  by (simp add: spliced_def shell_parse_argv_def g_shell_unquote_def)

lemma tokenize_word:
  "list_all ordinary u \<Longrightarrow> u \<noteq> [] \<Longrightarrow>
   tokenize_command_line Unquoted esc tok pv (u @ rest)
     = tokenize_command_line Unquoted False (append_c tok u) (Some (last u)) rest"
proof (induction u arbitrary: esc tok pv)
  case Nil
  then show ?case by simp
next
  case (Cons c cs)
  then have c: "ordinary c" and cs: "list_all ordinary cs" by simp_all
  show ?case
  proof (cases "cs = []")
    case True
    then show ?thesis using c by (simp add: ordinary_def)
  next
    case False
    have "tokenize_command_line Unquoted esc tok pv ((c # cs) @ rest)
        = tokenize_command_line Unquoted False (append_c tok [c]) (Some c) (cs @ rest)"
      using c by (simp add: ordinary_def)
    also have "\<dots> = tokenize_command_line Unquoted False (append_c (append_c tok [c]) cs) (Some (last cs)) rest"
      using Cons.IH [OF cs False] by simp
    finally show ?thesis using False by (cases tok) simp_all
  qed
qed

lemma tokenize_blank:
  "tokenize_command_line Unquoted esc (Some t) pv (CHR 0x20 # rest)
     = map_option ((#) t) (tokenize_command_line Unquoted False None (Some (CHR 0x20)) rest)"
  by simp

lemma tokenize_word_blank:
  assumes "word u"
  shows "tokenize_command_line Unquoted esc None pv (u @ CHR 0x20 # rest)
     = map_option ((#) u) (tokenize_command_line Unquoted False None (Some (CHR 0x20)) rest)"
  using assms tokenize_word [of u esc None pv "CHR 0x20 # rest"] by (simp add: word_def)

lemma tokenize_word_end:
  assumes "word u"
  shows "tokenize_command_line Unquoted esc None pv u = Some [u]"
  using assms tokenize_word [of u esc None pv "[]"] by (simp add: word_def)

lemma unquote_word: "list_all ordinary u \<Longrightarrow> unquote_string None u = Some u"
  by (induction u) (auto simp add: ordinary_def)

lemma tokenize_nonempty:
  "tokenize_command_line cq esc (Some tk) pv xs = Some toks \<Longrightarrow> toks \<noteq> []"
proof (induction xs arbitrary: cq esc tk pv toks)
  case Nil
  then show ?case by (auto split: if_splits)
next
  case (Cons c cs)
  then show ?case by (cases cq) (auto split: if_splits)
qed

lemma word_examples: "word ''dconf''" "word ''write''" "word ''read''" "word ''reset''"
  by (simp_all add: word_def ordinary_def)

lemma command_line_write:
  assumes "word p"
  shows "shell_parse_argv (command_line (DconfWrite p t)) = argv (DconfWrite p t)"
proof -
  define T where "T = tokenize_command_line (Quote (CHR 0x22)) False (Some [CHR 0x22]) (Some (CHR 0x22)) (t @ [CHR 0x22])"
  have 1: "tokenize_command_line Unquoted False None None (command_line (DconfWrite p t))
      = map_option (\<lambda>toks. ''dconf'' # ''write'' # p # toks) T"
    using tokenize_word_blank [OF word_examples(1), of False None "''write '' @ p @ '' '' @ [CHR 0x22] @ t @ [CHR 0x22]"]
      tokenize_word_blank [OF word_examples(2), of False "Some (CHR 0x20)" "p @ '' '' @ [CHR 0x22] @ t @ [CHR 0x22]"]
      tokenize_word_blank [OF assms, of False "Some (CHR 0x20)" "[CHR 0x22] @ t @ [CHR 0x22]"]
    by (simp add: command_line_def T_def option.map_comp comp_def)
  have 2: "spliced t = (case T of None \<Rightarrow> None
      | Some tokens \<Rightarrow> if tokens = [] then None else those (map g_shell_unquote tokens))"
    by (simp add: spliced_def shell_parse_argv_def T_def)
  have u: "g_shell_unquote ''dconf'' = Some ''dconf''" "g_shell_unquote ''write'' = Some ''write''"
    "g_shell_unquote p = Some p"
    using assms by (simp_all add: g_shell_unquote_def unquote_word word_def ordinary_def)
  show ?thesis
  proof (cases T)
    case None
    then show ?thesis by (simp add: shell_parse_argv_def 1 argv_def 2)
  next
    case (Some toks)
    then have "toks \<noteq> []" using tokenize_nonempty by (simp add: T_def)
    then show ?thesis
      using Some by (simp add: shell_parse_argv_def 1 argv_def 2 u option.map_comp comp_def
          split: option.splits)
  qed
qed

lemma command_line_read:
  assumes "word p"
  shows "shell_parse_argv (command_line (DconfRead p)) = argv (DconfRead p)"
    and "shell_parse_argv (command_line (DconfReset p)) = argv (DconfReset p)"
proof -
  have u: "g_shell_unquote ''dconf'' = Some ''dconf''" "g_shell_unquote ''read'' = Some ''read''"
    "g_shell_unquote ''reset'' = Some ''reset''" "g_shell_unquote p = Some p"
    using assms by (simp_all add: g_shell_unquote_def unquote_word word_def ordinary_def)
  show "shell_parse_argv (command_line (DconfRead p)) = argv (DconfRead p)"
    using tokenize_word_blank [OF word_examples(1), of False None "''read '' @ p"]
      tokenize_word_blank [OF word_examples(3), of False "Some (CHR 0x20)" p]
      tokenize_word_end [OF assms, of False "Some (CHR 0x20)"]
    by (simp add: command_line_def shell_parse_argv_def argv_def u)
  show "shell_parse_argv (command_line (DconfReset p)) = argv (DconfReset p)"
    using tokenize_word_blank [OF word_examples(1), of False None "''reset '' @ p"]
      tokenize_word_blank [OF word_examples(4), of False "Some (CHR 0x20)" p]
      tokenize_word_end [OF assms, of False "Some (CHR 0x20)"]
    by (simp add: command_line_def shell_parse_argv_def argv_def u)
qed

lemma boolean_line:
  assumes "word p"
  shows "shell_parse_argv (''dconf write '' @ p @ '' '' @ boolValue b) = argv (DconfWrite p (boolValue b))"
proof -
  have w: "word (boolValue b)" by (cases b) (simp_all add: word_def ordinary_def boolValue_def)
  have u: "g_shell_unquote ''dconf'' = Some ''dconf''" "g_shell_unquote ''write'' = Some ''write''"
    "g_shell_unquote p = Some p" "g_shell_unquote (boolValue b) = Some (boolValue b)"
    using assms w by (simp_all add: g_shell_unquote_def unquote_word word_def ordinary_def)
  have s: "spliced (boolValue b) = Some [boolValue b]"
    by (cases b) (simp_all add: spliced_one boolValue_def)
  show ?thesis
    using tokenize_word_blank [OF word_examples(1), of False None "''write '' @ p @ '' '' @ boolValue b"]
      tokenize_word_blank [OF word_examples(2), of False "Some (CHR 0x20)" "p @ '' '' @ boolValue b"]
      tokenize_word_blank [OF assms, of False "Some (CHR 0x20)" "boolValue b"]
      tokenize_word_end [OF w, of False "Some (CHR 0x20)"] w
    by (simp add: shell_parse_argv_def argv_def u s)
qed

lemma paths_are_words:
  "word userThemeName"
  "word (dconfPath @ ''automatic-mode'')"
  "word (dconfPath @ ''light-gtk-theme'')" "word (dconfPath @ ''light-shell-theme'')"
  "word (dconfPath @ ''light-icon-theme'')" "word (dconfPath @ ''light-cursor-theme'')"
  "word (dconfPath @ ''light-accent-color'')"
  "word (dconfPath @ ''dark-gtk-theme'')" "word (dconfPath @ ''dark-shell-theme'')"
  "word (dconfPath @ ''dark-icon-theme'')" "word (dconfPath @ ''dark-cursor-theme'')"
  "word (dconfPath @ ''dark-accent-color'')"
  by (simp_all add: word_def ordinary_def userThemeName_def dconfPath_def)

lemma plain_quoted:
  assumes "plain v"
  shows "CHR 0x22 \<notin> set (quoted v)" "CHR 0x5C \<notin> set (quoted v)" "string_literal (quoted v)"
  using assms by (auto simp add: plain_def quoted_def list_all_iff literal_char_def string_literal_def)

lemma written_plain: "plain v \<Longrightarrow> written w (quoted v) = Some (quoted v)"
  by (simp add: written_def spliced_one plain_quoted printed_def)

lemma written_boolean [simp]: "written w ''true'' = Some ''true''" "written w ''false'' = Some ''false''"
  by (simp_all add: written_def spliced_one printed_def)

lemma written_cong: "gvariant w' = gvariant w \<Longrightarrow> written w' t = written w t"
  by (simp add: written_def printed_def split: option.splits list.splits)

lemma parses_simps [simp]:
  "parses (DconfRead p)" "parses (DconfReset p)"
  "parses (DconfWrite p ''true'')" "parses (DconfWrite p ''false'')"
  by (simp_all add: parses_def argv_def spliced_one)

lemma parses_plain: "plain v \<Longrightarrow> parses (DconfWrite p (quoted v))"
  by (simp add: parses_def argv_def spliced_one plain_quoted)

lemma not_parses_written: "\<not> parses (DconfWrite p t) \<Longrightarrow> written w t = None"
  by (simp add: parses_def argv_def written_def)

lemma plain_examples [simp]:
  "plain []" "plain ''Default''" "plain ''Adwaita''" "plain ''blue''" "plain ''Adwaita-dark''"
  "plain ''Papirus''" "plain ''Orchis-dark''"
  by (simp_all add: plain_def literal_char_def)

subsection \<open>The desktop and the extension\<close>

lemma emit_fields [simp]:
  "trace (emit x w) = trace w @ [x]"
  "dconf (emit x w) = dconf w"
  "interface (emit x w) = interface w"
  "background (emit x w) = background w"
  "failing (emit x w) = failing w"
  "gvariant (emit x w) = gvariant w"
  "signals (emit x w) = signals w"
  "handler_count (emit x w) = handler_count w"
  "NightLightActive (emit x w) = NightLightActive w"
  by (simp_all add: emit_def)

lemma run_command_fields [simp]:
  "trace (snd (run_command c w)) = trace w"
  "interface (snd (run_command c w)) = interface w"
  "background (snd (run_command c w)) = background w"
  "failing (snd (run_command c w)) = failing w"
  "gvariant (snd (run_command c w)) = gvariant w"
  "signals (snd (run_command c w)) = signals w"
  "handler_count (snd (run_command c w)) = handler_count w"
  "NightLightActive (snd (run_command c w)) = NightLightActive w"
  by (simp_all add: run_command_def split: command.splits option.splits)

lemma run_command_dconf:
  "dconf (snd (run_command c w)) =
     (case c of DconfRead p \<Rightarrow> dconf w
              | DconfWrite p t \<Rightarrow> (case written w t of None \<Rightarrow> dconf w | Some text \<Rightarrow> (dconf w)(p \<mapsto> text))
              | DconfReset p \<Rightarrow> (dconf w)(p := None))"
  by (simp add: run_command_def split: command.splits option.splits)

lemma run_command_unparsed: "\<not> parses c \<Longrightarrow> dconf (snd (run_command c w)) = dconf w"
  by (cases c) (simp_all add: run_command_dconf not_parses_written)

lemma written_emit [simp]: "written (emit x w) t = written w t"
  by (rule written_cong) simp

lemma run_command_emit: "dconf (snd (run_command c (emit x w))) = dconf (snd (run_command c w))"
  by (cases c) (simp_all add: run_command_dconf split: option.splits)

lemma run_command_read:
  "run_command (DconfRead p) w = ((case dconf w p of None \<Rightarrow> [] | Some t \<Rightarrow> t @ [CHR 0x0A]), w)"
  by (simp add: run_command_def)

lemma spawn_fields [simp]:
  "trace (snd (spawn_command_line_sync c w)) = trace w @ [SpawnSync c]"
  "interface (snd (spawn_command_line_sync c w)) = interface w"
  "background (snd (spawn_command_line_sync c w)) = background w"
  "failing (snd (spawn_command_line_sync c w)) = failing w"
  "gvariant (snd (spawn_command_line_sync c w)) = gvariant w"
  "signals (snd (spawn_command_line_sync c w)) = signals w"
  "handler_count (snd (spawn_command_line_sync c w)) = handler_count w"
  "NightLightActive (snd (spawn_command_line_sync c w)) = NightLightActive w"
  by (simp_all add: spawn_command_line_sync_def Let_def split_beta)

lemma spawn_dconf:
  "dconf (snd (spawn_command_line_sync c w)) =
     (if failing w c then dconf w else dconf (snd (run_command c w)))"
  by (simp add: spawn_command_line_sync_def Let_def split_beta run_command_emit run_command_unparsed)

lemma spawn_read:
  "spawn_command_line_sync (DconfRead p) w =
     ((if failing w (DconfRead p) then Inl GError
       else Inr (case dconf w p of None \<Rightarrow> [] | Some t \<Rightarrow> t @ [CHR 0x0A])),
      emit (SpawnSync (DconfRead p)) w)"
  by (simp add: spawn_command_line_sync_def Let_def run_command_read)

lemma getDconfString_snd [simp]:
  "snd (getDconfString key d w) = emit (SpawnSync (DconfRead (dconfPath @ key))) w"
  by (simp add: getDconfString_def spawn_read Let_def)

lemma getDconfBoolean_snd [simp]:
  "snd (getDconfBoolean key d w) = emit (SpawnSync (DconfRead (dconfPath @ key))) w"
  by (simp add: getDconfBoolean_def spawn_read Let_def)

lemma getCurrentShellTheme_snd [simp]:
  "snd (getCurrentShellTheme w) = emit (SpawnSync (DconfRead userThemeName)) w"
  by (simp add: getCurrentShellTheme_def spawn_read Let_def)

lemma getDconfString_cong:
  "dconf w' (dconfPath @ key) = dconf w (dconfPath @ key) \<Longrightarrow> failing w' = failing w
   \<Longrightarrow> fst (getDconfString key d w') = fst (getDconfString key d w)"
  by (simp add: getDconfString_def spawn_read Let_def)

lemma getDconfBoolean_cong:
  "dconf w' (dconfPath @ key) = dconf w (dconfPath @ key) \<Longrightarrow> failing w' = failing w
   \<Longrightarrow> fst (getDconfBoolean key d w') = fst (getDconfBoolean key d w)"
  by (simp add: getDconfBoolean_def spawn_read Let_def)

lemma getCurrentShellTheme_cong:
  "dconf w' userThemeName = dconf w userThemeName \<Longrightarrow> failing w' = failing w
   \<Longrightarrow> fst (getCurrentShellTheme w') = fst (getCurrentShellTheme w)"
  by (simp add: getCurrentShellTheme_def spawn_read Let_def)

lemma setDconfString_fields [simp]:
  "trace (setDconfString key v w) = trace w @ [SpawnSync (DconfWrite (dconfPath @ key) (quoted v))]"
  "interface (setDconfString key v w) = interface w"
  "background (setDconfString key v w) = background w"
  "failing (setDconfString key v w) = failing w"
  "gvariant (setDconfString key v w) = gvariant w"
  "signals (setDconfString key v w) = signals w"
  "handler_count (setDconfString key v w) = handler_count w"
  "NightLightActive (setDconfString key v w) = NightLightActive w"
  by (simp_all add: setDconfString_def)

lemma setDconfString_dconf:
  "dconf (setDconfString key v w) =
     (if failing w (DconfWrite (dconfPath @ key) (quoted v)) then dconf w
      else (case written w (quoted v) of
              None \<Rightarrow> dconf w
            | Some text \<Rightarrow> (dconf w)(dconfPath @ key \<mapsto> text)))"
  by (simp add: setDconfString_def spawn_dconf run_command_dconf)

lemma setDconfString_plain:
  "plain v \<Longrightarrow> dconf (setDconfString key v w) =
     (if failing w (DconfWrite (dconfPath @ key) (quoted v)) then dconf w
      else (dconf w)(dconfPath @ key \<mapsto> quoted v))"
  by (simp add: setDconfString_dconf written_plain)

lemma setDconfString_at:
  "dconf (setDconfString key v w) (dconfPath @ key) =
     (if failing w (DconfWrite (dconfPath @ key) (quoted v)) then dconf w (dconfPath @ key)
      else (case written w (quoted v) of None \<Rightarrow> dconf w (dconfPath @ key) | Some text \<Rightarrow> Some text))"
  by (simp add: setDconfString_dconf split: option.splits)

lemma boolValue_simps [simp]: "boolValue True = ''true''" "boolValue False = ''false''"
  by (simp_all add: boolValue_def)

lemma setDconfBoolean_fields [simp]:
  "trace (setDconfBoolean key b w) = trace w @ [SpawnSync (DconfWrite (dconfPath @ key) (boolValue b))]"
  "interface (setDconfBoolean key b w) = interface w"
  "background (setDconfBoolean key b w) = background w"
  "failing (setDconfBoolean key b w) = failing w"
  "gvariant (setDconfBoolean key b w) = gvariant w"
  "signals (setDconfBoolean key b w) = signals w"
  "handler_count (setDconfBoolean key b w) = handler_count w"
  "NightLightActive (setDconfBoolean key b w) = NightLightActive w"
  by (simp_all add: setDconfBoolean_def Let_def boolValue_def)

lemma setDconfBoolean_dconf:
  "dconf (setDconfBoolean key b w) =
     (if failing w (DconfWrite (dconfPath @ key) (boolValue b)) then dconf w
      else (dconf w)(dconfPath @ key \<mapsto> boolValue b))"
  by (simp add: setDconfBoolean_def Let_def spawn_dconf run_command_dconf boolValue_def)

lemma trim_keep:
  assumes "s \<noteq> []" "\<not> isSpace (hd s)" "\<not> isSpace (last s)" "list_all isSpace ws"
  shows "trim (s @ ws) = s"
proof -
  have 1: "dropWhile isSpace (s @ ws) = s @ ws"
    using assms(1,2) by (cases s) auto
  have "\<And>c. c \<in> set (rev ws) \<Longrightarrow> isSpace c" using assms(4) by (simp add: list_all_iff)
  then have "dropWhile isSpace (rev ws @ rev s) = dropWhile isSpace (rev s)"
    by (rule dropWhile_append2)
  moreover have "dropWhile isSpace (rev s) = rev s"
    using assms(1,3) by (cases s rule: rev_cases) auto
  ultimately show ?thesis by (simp add: trim_def 1)
qed

lemma quote_not_space: "\<not> isSpace (CHR 0x27)"
  by (simp add: isSpace_def)

lemma trim_quoted: "trim (quoted v @ [CHR 0x0A]) = quoted v"
  by (rule trim_keep) (simp_all add: quoted_def quote_not_space isSpace_def)

lemma trim_true: "trim (''true'' @ [CHR 0x0A]) = ''true''"
  by (rule trim_keep) (simp_all add: isSpace_def)

lemma unquote_quoted:
  "startsWith (quoted v) [CHR 0x27]" "endsWith (quoted v) [CHR 0x27]" "slice_1_m1 (quoted v) = v"
  "quoted v \<noteq> []"
  by (simp_all add: quoted_def endsWith_def slice_1_m1_def)

lemma getDconfString_quoted:
  assumes "dconf w (dconfPath @ key) = Some (quoted v)" "\<not> failing w (DconfRead (dconfPath @ key))"
  shows "fst (getDconfString key d w) = Some v"
  using assms by (simp add: getDconfString_def spawn_read Let_def trim_quoted unquote_quoted)

lemma getDconfString_unset:
  assumes "dconf w (dconfPath @ key) = None"
  shows "fst (getDconfString key d w) = d"
  using assms by (simp add: getDconfString_def spawn_read Let_def trim_def)

lemma getDconfString_failing:
  assumes "failing w (DconfRead (dconfPath @ key))"
  shows "fst (getDconfString key d w) = d"
  using assms by (simp add: getDconfString_def spawn_read Let_def)

lemma getCurrentShellTheme_quoted:
  assumes "dconf w userThemeName = Some (quoted v)" "\<not> failing w (DconfRead userThemeName)"
  shows "fst (getCurrentShellTheme w) = v"
  using assms by (simp add: getCurrentShellTheme_def spawn_read Let_def trim_quoted unquote_quoted)

lemma getCurrentShellTheme_unset:
  assumes "dconf w userThemeName = None \<or> failing w (DconfRead userThemeName)"
  shows "fst (getCurrentShellTheme w) = []"
  using assms by (auto simp add: getCurrentShellTheme_def spawn_read Let_def trim_def)

lemma getDconfBoolean_unset:
  "dconf w (dconfPath @ key) = None \<or> failing w (DconfRead (dconfPath @ key))
   \<Longrightarrow> fst (getDconfBoolean key d w) = d"
  by (auto simp add: getDconfBoolean_def spawn_read Let_def trim_def)

lemma getDconfBoolean_true:
  "dconf w (dconfPath @ key) = Some ''true'' \<Longrightarrow> \<not> failing w (DconfRead (dconfPath @ key))
   \<Longrightarrow> fst (getDconfBoolean key d w) = Some True"
  using trim_true by (simp add: getDconfBoolean_def spawn_read Let_def)

lemma getAutomaticMode_fields [simp]:
  "interface (snd (getAutomaticMode w)) = interface w"
  "background (snd (getAutomaticMode w)) = background w"
  "failing (snd (getAutomaticMode w)) = failing w"
  "gvariant (snd (getAutomaticMode w)) = gvariant w"
  "signals (snd (getAutomaticMode w)) = signals w"
  "handler_count (snd (getAutomaticMode w)) = handler_count w"
  "NightLightActive (snd (getAutomaticMode w)) = NightLightActive w"
  by (simp_all add: getAutomaticMode_def split_beta split: option.splits)

lemma getAutomaticMode_eq:
  "getAutomaticMode w =
     (case fst (getDconfBoolean ''automatic-mode'' None w) of
        None \<Rightarrow> (True, setDconfBoolean ''automatic-mode'' True (emit (SpawnSync (DconfRead (dconfPath @ ''automatic-mode''))) w))
      | Some b \<Rightarrow> (b, emit (SpawnSync (DconfRead (dconfPath @ ''automatic-mode''))) w))"
proof -
  obtain r w1 where g: "getDconfBoolean ''automatic-mode'' None w = (r, w1)" by fastforce
  then have "w1 = emit (SpawnSync (DconfRead (dconfPath @ ''automatic-mode''))) w"
    using getDconfBoolean_snd [of "''automatic-mode''" None w] by simp
  with g show ?thesis by (simp add: getAutomaticMode_def split: option.splits)
qed

lemma getAutomaticMode_default:
  assumes "dconf w (dconfPath @ ''automatic-mode'') = None \<or> dconf w (dconfPath @ ''automatic-mode'') = Some ''true''"
  shows "fst (getAutomaticMode w)"
    and "dconf (snd (getAutomaticMode w)) (dconfPath @ ''automatic-mode'') = None
         \<or> dconf (snd (getAutomaticMode w)) (dconfPath @ ''automatic-mode'') = Some ''true''"
proof -
  have r: "fst (getDconfBoolean ''automatic-mode'' None w) = None
           \<or> fst (getDconfBoolean ''automatic-mode'' None w) = Some True"
    using assms getDconfBoolean_unset [of w "''automatic-mode''" None]
      getDconfBoolean_true [of w "''automatic-mode''" None]
    by blast
  then show "fst (getAutomaticMode w)"
    by (auto simp: getAutomaticMode_eq)
  from r assms show "dconf (snd (getAutomaticMode w)) (dconfPath @ ''automatic-mode'') = None
         \<or> dconf (snd (getAutomaticMode w)) (dconfPath @ ''automatic-mode'') = Some ''true''"
    by (auto simp: getAutomaticMode_eq setDconfBoolean_dconf split: if_splits)
qed

lemma getAutomaticMode_again:
  assumes "dconf w (dconfPath @ ''automatic-mode'') = None \<or> dconf w (dconfPath @ ''automatic-mode'') = Some ''true''"
  shows "fst (getAutomaticMode (((\<lambda>w. snd (getAutomaticMode w)) ^^ n) w))"
proof -
  have "dconf (((\<lambda>w. snd (getAutomaticMode w)) ^^ n) w) (dconfPath @ ''automatic-mode'') = None
        \<or> dconf (((\<lambda>w. snd (getAutomaticMode w)) ^^ n) w) (dconfPath @ ''automatic-mode'') = Some ''true''"
  proof (induction n)
    case 0
    then show ?case using assms by simp
  next
    case (Suc n)
    then show ?case using getAutomaticMode_default(2) by simp
  qed
  then show ?thesis by (rule getAutomaticMode_default(1))
qed

lemma saveCurrentThemeToLightKeys_closed:
  "interfaceSettings e = None \<Longrightarrow> saveCurrentThemeToLightKeys e w = w"
  by (simp add: saveCurrentThemeToLightKeys_def get_string_def)

lemma saveCurrentThemeToDarkKeys_closed:
  "interfaceSettings e = None \<Longrightarrow> saveCurrentThemeToDarkKeys e w = w"
  by (simp add: saveCurrentThemeToDarkKeys_def get_string_def)

lemma saveCurrentThemeToLightKeys_open:
  assumes "interfaceSettings e = Some s"
  shows "saveCurrentThemeToLightKeys e w =
     setDconfString ''light-shell-theme'' (shell_or_default w)
       (setDconfString ''light-accent-color'' (read_setting s w ''accent-color'')
         (setDconfString ''light-cursor-theme'' (read_setting s w ''cursor-theme'')
           (setDconfString ''light-icon-theme'' (read_setting s w ''icon-theme'')
             (setDconfString ''light-gtk-theme'' (read_setting s w ''gtk-theme'')
               (emit (SpawnSync (DconfRead userThemeName)) w)))))"
  using assms
  by (simp add: saveCurrentThemeToLightKeys_def get_string_def shell_or_default_def Let_def split_beta)

lemma saveCurrentThemeToDarkKeys_open:
  assumes "interfaceSettings e = Some s"
  shows "saveCurrentThemeToDarkKeys e w =
     setDconfString ''dark-shell-theme'' (shell_or_default w)
       (setDconfString ''dark-accent-color'' (read_setting s w ''accent-color'')
         (setDconfString ''dark-cursor-theme'' (read_setting s w ''cursor-theme'')
           (setDconfString ''dark-icon-theme'' (read_setting s w ''icon-theme'')
             (setDconfString ''dark-gtk-theme'' (read_setting s w ''gtk-theme'')
               (emit (SpawnSync (DconfRead userThemeName)) w)))))"
  using assms
  by (simp add: saveCurrentThemeToDarkKeys_def get_string_def shell_or_default_def Let_def split_beta)

lemma saveCurrentThemeToLightKeys_trace:
  "trace (saveCurrentThemeToLightKeys e w) =
     trace w @ (case interfaceSettings e of None \<Rightarrow> [] | Some s \<Rightarrow> snapshot_effects ''light'' s w)"
  by (cases "interfaceSettings e")
     (simp_all add: saveCurrentThemeToLightKeys_closed saveCurrentThemeToLightKeys_open snapshot_effects_def)

lemma saveCurrentThemeToDarkKeys_trace:
  "trace (saveCurrentThemeToDarkKeys e w) =
     trace w @ (case interfaceSettings e of None \<Rightarrow> [] | Some s \<Rightarrow> snapshot_effects ''dark'' s w)"
  by (cases "interfaceSettings e")
     (simp_all add: saveCurrentThemeToDarkKeys_closed saveCurrentThemeToDarkKeys_open snapshot_effects_def)

lemma save_fields [simp]:
  "interface (saveCurrentThemeToLightKeys e w) = interface w"
  "background (saveCurrentThemeToLightKeys e w) = background w"
  "failing (saveCurrentThemeToLightKeys e w) = failing w"
  "interface (saveCurrentThemeToDarkKeys e w) = interface w"
  "background (saveCurrentThemeToDarkKeys e w) = background w"
  "failing (saveCurrentThemeToDarkKeys e w) = failing w"
  by (cases "interfaceSettings e";
      simp add: saveCurrentThemeToLightKeys_closed saveCurrentThemeToLightKeys_open
        saveCurrentThemeToDarkKeys_closed saveCurrentThemeToDarkKeys_open)+

lemma shell_or_default_cases:
  "shell_or_default w \<noteq> []"
  "fst (getCurrentShellTheme w) \<noteq> [] \<longrightarrow> shell_or_default w = fst (getCurrentShellTheme w)"
  "fst (getCurrentShellTheme w) = [] \<longrightarrow> shell_or_default w = ''Default''"
  by (simp_all add: shell_or_default_def Let_def)

lemma shell_key_in_snapshot:
  "SpawnSync (DconfWrite (dconfPath @ mode @ ''-shell-theme'') t) \<in> set (snapshot_effects mode s w)
     \<longleftrightarrow> t = quoted (shell_or_default w)"
  by (auto simp add: snapshot_effects_def)

lemma setDconfString_other:
  "key' \<noteq> key \<Longrightarrow> dconf (setDconfString key' v w) (dconfPath @ key) = dconf w (dconfPath @ key)"
  by (simp add: setDconfString_dconf split: option.splits)

lemma written_setDconfString [simp]: "written (setDconfString key v w) t = written w t"
  by (rule written_cong) simp

lemma snapshot_value_cong:
  "dconf w' (dconfPath @ key) = dconf w (dconfPath @ key) \<Longrightarrow> failing w' = failing w
   \<Longrightarrow> snapshot_value w' key = snapshot_value w key"
  unfolding snapshot_value_def by (rule getDconfString_cong)

lemma getDconfString_emit [simp]:
  "fst (getDconfString key d (emit x w)) = fst (getDconfString key d w)"
  by (rule getDconfString_cong) simp_all

lemma set_string_open:
  "set_string (Some s) key (Some x) w = Inr (emit (SetString s key x) (write_setting s key x w))"
  by (simp add: set_string_def)

lemma set_if_truthy_open:
  "set_if_truthy (Some s) key v w = Inr (assign s key v w)"
  by (simp add: set_if_truthy_def truthy_def assign_def set_string_def split: option.splits)

lemma set_if_truthy_closed:
  "set_if_truthy None key v w = (if truthy v then Inl TypeError else Inr w)"
  by (simp add: set_if_truthy_def set_string_def)

lemma write_setting_fields [simp]:
  "trace (write_setting s key x w) = trace w"
  "dconf (write_setting s key x w) = dconf w"
  "failing (write_setting s key x w) = failing w"
  "gvariant (write_setting s key x w) = gvariant w"
  "signals (write_setting s key x w) = signals w"
  "handler_count (write_setting s key x w) = handler_count w"
  "NightLightActive (write_setting s key x w) = NightLightActive w"
  by (simp_all add: write_setting_def split: schema.splits)

lemma write_setting_live [simp]:
  "interface (write_setting Interface key x w) = (interface w)(key := x)"
  "background (write_setting Interface key x w) = background w"
  "background (write_setting Background key x w) = (background w)(key := x)"
  "interface (write_setting Background key x w) = interface w"
  by (simp_all add: write_setting_def)

lemma assign_fields [simp]:
  "trace (assign s key v w) = trace w @ set_effect s key v"
  "dconf (assign s key v w) = dconf w"
  "failing (assign s key v w) = failing w"
  "gvariant (assign s key v w) = gvariant w"
  "signals (assign s key v w) = signals w"
  "handler_count (assign s key v w) = handler_count w"
  "NightLightActive (assign s key v w) = NightLightActive w"
  by (simp_all add: assign_def set_effect_def split: option.splits)

lemma written_assign [simp]: "written (assign s key v w) t = written w t"
  by (rule written_cong) simp

lemma assign_interface [simp]:
  "interface (assign Interface key v w) = (interface w)(key := override v (interface w key))"
  "background (assign Interface key v w) = background w"
  by (auto simp add: assign_def override_def split: option.splits)

lemma executeCommand_fields [simp]:
  "trace (executeCommand c w) = trace w @ [Execute c] @ (if failing w c \<or> \<not> parses c then [] else [Await])"
  "interface (executeCommand c w) = interface w"
  "background (executeCommand c w) = background w"
  "failing (executeCommand c w) = failing w"
  "gvariant (executeCommand c w) = gvariant w"
  "signals (executeCommand c w) = signals w"
  "handler_count (executeCommand c w) = handler_count w"
  "NightLightActive (executeCommand c w) = NightLightActive w"
  by (simp_all add: executeCommand_def Let_def)

lemma executeCommand_dconf:
  "dconf (executeCommand c w) = (if failing w c then dconf w else dconf (snd (run_command c w)))"
  by (simp add: executeCommand_def Let_def run_command_emit run_command_unparsed)

lemma applyLightTheme_begin_open:
  assumes "interfaceSettings e = Some s"
  shows "applyLightTheme_begin e w =
     (Some (snapshot_value w ''light-icon-theme'', snapshot_value w ''light-cursor-theme'',
            snapshot_value w ''light-accent-color''),
      emit Await
        (executeCommand (shell_command (snapshot_value w ''light-shell-theme''))
          (assign s ''gtk-theme'' (snapshot_value w ''light-gtk-theme'')
            (emit (SpawnSync (DconfRead (dconfPath @ ''light-accent-color'')))
              (emit (SpawnSync (DconfRead (dconfPath @ ''light-cursor-theme'')))
                (emit (SpawnSync (DconfRead (dconfPath @ ''light-icon-theme'')))
                  (emit (SpawnSync (DconfRead (dconfPath @ ''light-shell-theme'')))
                    (emit (SpawnSync (DconfRead (dconfPath @ ''light-gtk-theme''))) w))))))))"
  using assms
  by (simp add: applyLightTheme_begin_def split_beta set_if_truthy_open snapshot_value_def)

lemma applyDarkTheme_begin_open:
  assumes "interfaceSettings e = Some s"
  shows "applyDarkTheme_begin e w =
     (Some (snapshot_value w ''dark-icon-theme'', snapshot_value w ''dark-cursor-theme'',
            snapshot_value w ''dark-accent-color''),
      emit Await
        (executeCommand (shell_command (snapshot_value w ''dark-shell-theme''))
          (assign s ''gtk-theme'' (snapshot_value w ''dark-gtk-theme'')
            (emit (SpawnSync (DconfRead (dconfPath @ ''dark-accent-color'')))
              (emit (SpawnSync (DconfRead (dconfPath @ ''dark-cursor-theme'')))
                (emit (SpawnSync (DconfRead (dconfPath @ ''dark-icon-theme'')))
                  (emit (SpawnSync (DconfRead (dconfPath @ ''dark-shell-theme'')))
                    (emit (SpawnSync (DconfRead (dconfPath @ ''dark-gtk-theme''))) w))))))))"
  using assms
  by (simp add: applyDarkTheme_begin_def split_beta set_if_truthy_open snapshot_value_def)

lemma applyLightTheme_resume_open:
  assumes "interfaceSettings e = Some s"
  shows "applyLightTheme_resume e (i, c, a) w =
           assign s ''accent-color'' a (assign s ''cursor-theme'' c (assign s ''icon-theme'' i w))"
  using assms by (simp add: applyLightTheme_resume_def set_if_truthy_open)

lemma applyDarkTheme_resume_open:
  assumes "interfaceSettings e = Some s"
  shows "applyDarkTheme_resume e (i, c, a) w =
           assign s ''accent-color'' a (assign s ''cursor-theme'' c (assign s ''icon-theme'' i w))"
  using assms by (simp add: applyDarkTheme_resume_def set_if_truthy_open)

lemma applyLightTheme_begin_trace:
  assumes "interfaceSettings e = Some s"
  shows "trace (snd (applyLightTheme_begin e w)) = trace w @ apply_begin_effects ''light'' s w"
  by (simp add: applyLightTheme_begin_open [OF assms] apply_begin_effects_def)

lemma applyDarkTheme_begin_trace:
  assumes "interfaceSettings e = Some s"
  shows "trace (snd (applyDarkTheme_begin e w)) = trace w @ apply_begin_effects ''dark'' s w"
  by (simp add: applyDarkTheme_begin_open [OF assms] apply_begin_effects_def)

lemma applyLightTheme_trace:
  assumes "interfaceSettings e = Some s"
  shows "trace (applyLightTheme e w) =
           trace w @ apply_begin_effects ''light'' s w @ apply_resume_effects ''light'' s w"
  by (simp add: applyLightTheme_def applyLightTheme_begin_open [OF assms]
      applyLightTheme_resume_open [OF assms] apply_begin_effects_def apply_resume_effects_def)

lemma applyDarkTheme_trace:
  assumes "interfaceSettings e = Some s"
  shows "trace (applyDarkTheme e w) =
           trace w @ apply_begin_effects ''dark'' s w @ apply_resume_effects ''dark'' s w"
  by (simp add: applyDarkTheme_def applyDarkTheme_begin_open [OF assms]
      applyDarkTheme_resume_open [OF assms] apply_begin_effects_def apply_resume_effects_def)

lemma applyLightTheme_resume_closed:
  "interfaceSettings e = None \<Longrightarrow> applyLightTheme_resume e k w = w"
  by (cases k) (simp add: applyLightTheme_resume_def set_if_truthy_closed)

lemma applyDarkTheme_resume_closed:
  "interfaceSettings e = None \<Longrightarrow> applyDarkTheme_resume e k w = w"
  by (cases k) (simp add: applyDarkTheme_resume_def set_if_truthy_closed)

lemma Execute_in_set_effect [simp]: "Execute c \<notin> set (set_effect s key v)"
  by (simp add: set_effect_def split: option.splits)

lemma Await_in_set_effect [simp]: "Await \<notin> set (set_effect s key v)"
  by (simp add: set_effect_def split: option.splits)






lemma quoted_inject [simp]: "quoted a = quoted b \<longleftrightarrow> a = b"
  by (simp add: quoted_def)

lemma quoted_not_Default [simp]: "quoted a \<noteq> ''Default''"
  by (simp add: quoted_def)


lemma snapshot_value_unset:
  "dconf w (dconfPath @ key) = None \<or> failing w (DconfRead (dconfPath @ key)) \<Longrightarrow> snapshot_value w key = None"
  unfolding snapshot_value_def using getDconfString_unset getDconfString_failing by blast

lemma snapshot_value_quoted:
  "dconf w (dconfPath @ key) = Some (quoted x) \<Longrightarrow> \<not> failing w (DconfRead (dconfPath @ key))
   \<Longrightarrow> snapshot_value w key = Some x"
  unfolding snapshot_value_def by (rule getDconfString_quoted)

lemma save_light_keeps_dark:
  assumes "startsWith key ''dark-''"
  shows "snapshot_value (saveCurrentThemeToLightKeys e w) key = snapshot_value w key"
proof (rule snapshot_value_cong)
  from assms obtain r where k: "key = ''dark-'' @ r" unfolding startsWith_iff ..
  show "dconf (saveCurrentThemeToLightKeys e w) (dconfPath @ key) = dconf w (dconfPath @ key)"
    by (cases "interfaceSettings e")
       (simp_all add: saveCurrentThemeToLightKeys_closed saveCurrentThemeToLightKeys_open
          setDconfString_other k)
  show "failing (saveCurrentThemeToLightKeys e w) = failing w" by simp
qed

lemma save_dark_keeps_light:
  assumes "startsWith key ''light-''"
  shows "snapshot_value (saveCurrentThemeToDarkKeys e w) key = snapshot_value w key"
proof (rule snapshot_value_cong)
  from assms obtain r where k: "key = ''light-'' @ r" unfolding startsWith_iff ..
  show "dconf (saveCurrentThemeToDarkKeys e w) (dconfPath @ key) = dconf w (dconfPath @ key)"
    by (cases "interfaceSettings e")
       (simp_all add: saveCurrentThemeToDarkKeys_closed saveCurrentThemeToDarkKeys_open
          setDconfString_other k)
  show "failing (saveCurrentThemeToDarkKeys e w) = failing w" by simp
qed

lemma apply_effects_after_save:
  "apply_begin_effects ''dark'' s (saveCurrentThemeToLightKeys e w) = apply_begin_effects ''dark'' s w"
  "apply_resume_effects ''dark'' s (saveCurrentThemeToLightKeys e w) = apply_resume_effects ''dark'' s w"
  "apply_begin_effects ''light'' s (saveCurrentThemeToDarkKeys e w) = apply_begin_effects ''light'' s w"
  "apply_resume_effects ''light'' s (saveCurrentThemeToDarkKeys e w) = apply_resume_effects ''light'' s w"
  by (simp_all add: apply_begin_effects_def apply_resume_effects_def save_light_keeps_dark
      save_dark_keeps_light)

lemma switch_scheme_fields [simp]:
  "dconf (switch_scheme c w) = dconf w"
  "failing (switch_scheme c w) = failing w"
  "gvariant (switch_scheme c w) = gvariant w"
  "trace (switch_scheme c w) = trace w"
  "background (switch_scheme c w) = background w"
  "interface (switch_scheme c w) = (interface w)(''color-scheme'' := c)"
  by (simp_all add: switch_scheme_def)

lemma not_user_theme: "dconfPath @ key \<noteq> userThemeName" "userThemeName \<noteq> dconfPath @ key"
  by (simp_all add: dconfPath_def userThemeName_def)

lemma setDconfString_user_theme [simp]:
  "dconf (setDconfString key v w) userThemeName = dconf w userThemeName"
  by (simp add: setDconfString_dconf not_user_theme split: option.splits)

lemma applyLightTheme_open:
  assumes "interfaceSettings e = Some s"
  shows "applyLightTheme e w =
     assign s ''accent-color'' (snapshot_value w ''light-accent-color'')
       (assign s ''cursor-theme'' (snapshot_value w ''light-cursor-theme'')
         (assign s ''icon-theme'' (snapshot_value w ''light-icon-theme'')
           (snd (applyLightTheme_begin e w))))"
  by (simp add: applyLightTheme_def applyLightTheme_begin_open [OF assms]
      applyLightTheme_resume_open [OF assms])

lemma applyDarkTheme_open:
  assumes "interfaceSettings e = Some s"
  shows "applyDarkTheme e w =
     assign s ''accent-color'' (snapshot_value w ''dark-accent-color'')
       (assign s ''cursor-theme'' (snapshot_value w ''dark-cursor-theme'')
         (assign s ''icon-theme'' (snapshot_value w ''dark-icon-theme'')
           (snd (applyDarkTheme_begin e w))))"
  by (simp add: applyDarkTheme_def applyDarkTheme_begin_open [OF assms]
      applyDarkTheme_resume_open [OF assms])

lemma apply_failing [simp]:
  "failing (applyLightTheme e w) = failing w"
  "failing (applyDarkTheme e w) = failing w"
proof -
  show "failing (applyLightTheme e w) = failing w"
  proof (cases "interfaceSettings e")
    case None
    then show ?thesis
      by (simp add: applyLightTheme_def applyLightTheme_begin_def split_beta set_if_truthy_closed
          applyLightTheme_resume_closed)
  next
    case (Some s)
    then show ?thesis
      by (simp add: applyLightTheme_open applyLightTheme_begin_open)
  qed
  show "failing (applyDarkTheme e w) = failing w"
  proof (cases "interfaceSettings e")
    case None
    then show ?thesis
      by (simp add: applyDarkTheme_def applyDarkTheme_begin_def split_beta set_if_truthy_closed
          applyDarkTheme_resume_closed)
  next
    case (Some s)
    then show ?thesis
      by (simp add: applyDarkTheme_open applyDarkTheme_begin_open)
  qed
qed

lemma shell_command_other:
  "p \<noteq> userThemeName \<Longrightarrow> dconf (snd (run_command (shell_command v) w)) p = dconf w p"
  by (simp add: shell_command_def run_command_dconf split: option.splits)

lemma shell_command_dconf:
  assumes "\<And>x. v = Some x \<Longrightarrow> plain x"
  shows "dconf (snd (run_command (shell_command v) w)) p =
     (if p = userThemeName
      then (case v of None \<Rightarrow> None
                    | Some x \<Rightarrow> if x \<noteq> [] \<and> x \<noteq> ''Default'' then Some (quoted x) else None)
      else dconf w p)"
  using assms by (simp add: shell_command_def run_command_dconf written_plain split: option.splits)

lemma apply_interface:
  assumes "interfaceSettings e = Some Interface"
  shows "interface (applyLightTheme e w) ''gtk-theme'' = override (snapshot_value w ''light-gtk-theme'') (interface w ''gtk-theme'')"
    and "interface (applyLightTheme e w) ''icon-theme'' = override (snapshot_value w ''light-icon-theme'') (interface w ''icon-theme'')"
    and "interface (applyLightTheme e w) ''cursor-theme'' = override (snapshot_value w ''light-cursor-theme'') (interface w ''cursor-theme'')"
    and "interface (applyLightTheme e w) ''accent-color'' = override (snapshot_value w ''light-accent-color'') (interface w ''accent-color'')"
    and "interface (applyDarkTheme e w) ''gtk-theme'' = override (snapshot_value w ''dark-gtk-theme'') (interface w ''gtk-theme'')"
    and "interface (applyDarkTheme e w) ''icon-theme'' = override (snapshot_value w ''dark-icon-theme'') (interface w ''icon-theme'')"
    and "interface (applyDarkTheme e w) ''cursor-theme'' = override (snapshot_value w ''dark-cursor-theme'') (interface w ''cursor-theme'')"
    and "interface (applyDarkTheme e w) ''accent-color'' = override (snapshot_value w ''dark-accent-color'') (interface w ''accent-color'')"
  by (simp_all add: applyLightTheme_open [OF assms] applyLightTheme_begin_open [OF assms]
      applyDarkTheme_open [OF assms] applyDarkTheme_begin_open [OF assms])

lemma apply_dconf:
  assumes "interfaceSettings e = Some s"
  shows "dconf (applyLightTheme e w) p =
           (if failing w (shell_command (snapshot_value w ''light-shell-theme'')) then dconf w p
            else dconf (snd (run_command (shell_command (snapshot_value w ''light-shell-theme'')) w)) p)"
    and "dconf (applyDarkTheme e w) p =
           (if failing w (shell_command (snapshot_value w ''dark-shell-theme'')) then dconf w p
            else dconf (snd (run_command (shell_command (snapshot_value w ''dark-shell-theme'')) w)) p)"
  by (simp_all add: applyLightTheme_open [OF assms] applyLightTheme_begin_open [OF assms]
      applyDarkTheme_open [OF assms] applyDarkTheme_begin_open [OF assms]
      executeCommand_dconf run_command_dconf split: command.splits option.splits)

lemma apply_keeps_snapshot:
  assumes "interfaceSettings e = Some s"
  shows "snapshot_value (applyLightTheme e w) key = snapshot_value w key"
    and "snapshot_value (applyDarkTheme e w) key = snapshot_value w key"
  by (rule snapshot_value_cong; simp add: apply_dconf [OF assms] shell_command_other not_user_theme)+

lemma save_gvariant [simp]:
  "gvariant (saveCurrentThemeToLightKeys e w) = gvariant w"
  "gvariant (saveCurrentThemeToDarkKeys e w) = gvariant w"
  by (cases "interfaceSettings e";
      simp add: saveCurrentThemeToLightKeys_closed saveCurrentThemeToLightKeys_open
        saveCurrentThemeToDarkKeys_closed saveCurrentThemeToDarkKeys_open)+

lemma apply_begin_fields:
  assumes "interfaceSettings e = Some Interface"
  shows "fst (applyLightTheme_begin e w) =
           Some (snapshot_value w ''light-icon-theme'', snapshot_value w ''light-cursor-theme'',
                 snapshot_value w ''light-accent-color'')"
    and "fst (applyDarkTheme_begin e w) =
           Some (snapshot_value w ''dark-icon-theme'', snapshot_value w ''dark-cursor-theme'',
                 snapshot_value w ''dark-accent-color'')"
    and "interface (snd (applyLightTheme_begin e w)) =
           (interface w)(''gtk-theme'' := override (snapshot_value w ''light-gtk-theme'') (interface w ''gtk-theme''))"
    and "interface (snd (applyDarkTheme_begin e w)) =
           (interface w)(''gtk-theme'' := override (snapshot_value w ''dark-gtk-theme'') (interface w ''gtk-theme''))"
    and "failing (snd (applyLightTheme_begin e w)) = failing w"
    and "failing (snd (applyDarkTheme_begin e w)) = failing w"
    and "gvariant (snd (applyLightTheme_begin e w)) = gvariant w"
    and "gvariant (snd (applyDarkTheme_begin e w)) = gvariant w"
    and "dconf (snd (applyLightTheme_begin e w)) = dconf (applyLightTheme e w)"
    and "dconf (snd (applyDarkTheme_begin e w)) = dconf (applyDarkTheme e w)"
  by (simp_all add: applyLightTheme_begin_open [OF assms] applyDarkTheme_begin_open [OF assms]
      applyLightTheme_open [OF assms] applyDarkTheme_open [OF assms])

lemma apply_begin_keeps_snapshot:
  assumes "interfaceSettings e = Some Interface"
  shows "snapshot_value (snd (applyLightTheme_begin e w)) key = snapshot_value w key"
    and "snapshot_value (snd (applyDarkTheme_begin e w)) key = snapshot_value w key"
  using apply_keeps_snapshot [OF assms, of w key]
  by (simp_all add: snapshot_value_cong [of "snd (applyLightTheme_begin e w)" key "applyLightTheme e w"]
      snapshot_value_cong [of "snd (applyDarkTheme_begin e w)" key "applyDarkTheme e w"]
      apply_begin_fields [OF assms])

lemma apply_resume_interface:
  assumes "interfaceSettings e = Some Interface"
  shows "interface (applyLightTheme_resume e (i, c, a) w) =
           (interface w)(''icon-theme'' := override i (interface w ''icon-theme''),
                         ''cursor-theme'' := override c (interface w ''cursor-theme''),
                         ''accent-color'' := override a (interface w ''accent-color''))"
    and "interface (applyDarkTheme_resume e (i, c, a) w) =
           (interface w)(''icon-theme'' := override i (interface w ''icon-theme''),
                         ''cursor-theme'' := override c (interface w ''cursor-theme''),
                         ''accent-color'' := override a (interface w ''accent-color''))"
    and "dconf (applyLightTheme_resume e (i, c, a) w) = dconf w"
    and "dconf (applyDarkTheme_resume e (i, c, a) w) = dconf w"
    and "failing (applyLightTheme_resume e (i, c, a) w) = failing w"
    and "failing (applyDarkTheme_resume e (i, c, a) w) = failing w"
  by (simp_all add: applyLightTheme_resume_open [OF assms] applyDarkTheme_resume_open [OF assms])

lemma persisted_eq:
  "persisted w key v =
     (if failing w (DconfWrite (dconfPath @ key) (quoted v)) then dconf w (dconfPath @ key)
      else (case written w (quoted v) of None \<Rightarrow> dconf w (dconfPath @ key) | Some text \<Rightarrow> Some text))"
  by (simp add: persisted_def setDconfString_at)

lemma persisted_plain:
  "plain v \<Longrightarrow> \<not> failing w (DconfWrite (dconfPath @ key) (quoted v)) \<Longrightarrow> persisted w key v = Some (quoted v)"
  by (simp add: persisted_eq written_plain)

lemma persisted_cases:
  "plain v \<Longrightarrow> persisted w key v = dconf w (dconfPath @ key) \<or> persisted w key v = Some (quoted v)"
  by (simp add: persisted_eq written_plain)

lemma persisted_cong:
  "dconf w' (dconfPath @ key) = dconf w (dconfPath @ key) \<Longrightarrow> failing w' = failing w
   \<Longrightarrow> gvariant w' = gvariant w \<Longrightarrow> persisted w' key v = persisted w key v"
  by (simp add: persisted_eq written_cong [of w' w] split: option.splits)

lemma save_light_at:
  assumes "interfaceSettings e = Some Interface"
  shows "dconf (saveCurrentThemeToLightKeys e w) (dconfPath @ ''light-gtk-theme'') = persisted w ''light-gtk-theme'' (interface w ''gtk-theme'')"
    and "dconf (saveCurrentThemeToLightKeys e w) (dconfPath @ ''light-icon-theme'') = persisted w ''light-icon-theme'' (interface w ''icon-theme'')"
    and "dconf (saveCurrentThemeToLightKeys e w) (dconfPath @ ''light-cursor-theme'') = persisted w ''light-cursor-theme'' (interface w ''cursor-theme'')"
    and "dconf (saveCurrentThemeToLightKeys e w) (dconfPath @ ''light-accent-color'') = persisted w ''light-accent-color'' (interface w ''accent-color'')"
    and "dconf (saveCurrentThemeToLightKeys e w) (dconfPath @ ''light-shell-theme'') = persisted w ''light-shell-theme'' (shell_or_default w)"
  by (simp_all add: saveCurrentThemeToLightKeys_open [OF assms] setDconfString_other setDconfString_at
      persisted_eq read_setting_def split: option.splits)

lemma save_dark_at:
  assumes "interfaceSettings e = Some Interface"
  shows "dconf (saveCurrentThemeToDarkKeys e w) (dconfPath @ ''dark-gtk-theme'') = persisted w ''dark-gtk-theme'' (interface w ''gtk-theme'')"
    and "dconf (saveCurrentThemeToDarkKeys e w) (dconfPath @ ''dark-icon-theme'') = persisted w ''dark-icon-theme'' (interface w ''icon-theme'')"
    and "dconf (saveCurrentThemeToDarkKeys e w) (dconfPath @ ''dark-cursor-theme'') = persisted w ''dark-cursor-theme'' (interface w ''cursor-theme'')"
    and "dconf (saveCurrentThemeToDarkKeys e w) (dconfPath @ ''dark-accent-color'') = persisted w ''dark-accent-color'' (interface w ''accent-color'')"
    and "dconf (saveCurrentThemeToDarkKeys e w) (dconfPath @ ''dark-shell-theme'') = persisted w ''dark-shell-theme'' (shell_or_default w)"
  by (simp_all add: saveCurrentThemeToDarkKeys_open [OF assms] setDconfString_other setDconfString_at
      persisted_eq read_setting_def split: option.splits)

lemma save_shell_dconf:
  assumes "plain (shell_or_default w)"
  shows "dconf (saveCurrentThemeToLightKeys e w) (dconfPath @ ''light-shell-theme'') = dconf w (dconfPath @ ''light-shell-theme'')
         \<or> dconf (saveCurrentThemeToLightKeys e w) (dconfPath @ ''light-shell-theme'') = Some (quoted (shell_or_default w))"
    and "dconf (saveCurrentThemeToDarkKeys e w) (dconfPath @ ''dark-shell-theme'') = dconf w (dconfPath @ ''dark-shell-theme'')
         \<or> dconf (saveCurrentThemeToDarkKeys e w) (dconfPath @ ''dark-shell-theme'') = Some (quoted (shell_or_default w))"
proof -
  show "dconf (saveCurrentThemeToLightKeys e w) (dconfPath @ ''light-shell-theme'') = dconf w (dconfPath @ ''light-shell-theme'')
         \<or> dconf (saveCurrentThemeToLightKeys e w) (dconfPath @ ''light-shell-theme'') = Some (quoted (shell_or_default w))"
  proof (cases "interfaceSettings e")
    case None
    then show ?thesis by (simp add: saveCurrentThemeToLightKeys_closed)
  next
    case (Some s)
    then show ?thesis
      using persisted_cases [OF assms, of w "''light-shell-theme''"]
      by (simp add: saveCurrentThemeToLightKeys_open setDconfString_other setDconfString_at persisted_eq
          written_plain [OF assms])
  qed
  show "dconf (saveCurrentThemeToDarkKeys e w) (dconfPath @ ''dark-shell-theme'') = dconf w (dconfPath @ ''dark-shell-theme'')
         \<or> dconf (saveCurrentThemeToDarkKeys e w) (dconfPath @ ''dark-shell-theme'') = Some (quoted (shell_or_default w))"
  proof (cases "interfaceSettings e")
    case None
    then show ?thesis by (simp add: saveCurrentThemeToDarkKeys_closed)
  next
    case (Some s)
    then show ?thesis
      using persisted_cases [OF assms, of w "''dark-shell-theme''"]
      by (simp add: saveCurrentThemeToDarkKeys_open setDconfString_other setDconfString_at persisted_eq
          written_plain [OF assms])
  qed
qed

lemma saved_value:
  assumes "dconf w' (dconfPath @ key) = persisted w key v" "failing w' = failing w"
    and "plain v" "\<not> failing w (DconfWrite (dconfPath @ key) (quoted v))"
    and "\<not> failing w (DconfRead (dconfPath @ key))"
  shows "snapshot_value w' key = Some v"
  using assms by (simp add: snapshot_value_quoted persisted_plain)

lemma save_light_values:
  assumes "interfaceSettings e = Some Interface" "\<forall>c. \<not> failing w c"
  shows "plain (interface w ''gtk-theme'') \<Longrightarrow> snapshot_value (saveCurrentThemeToLightKeys e w) ''light-gtk-theme'' = Some (interface w ''gtk-theme'')"
    and "plain (interface w ''icon-theme'') \<Longrightarrow> snapshot_value (saveCurrentThemeToLightKeys e w) ''light-icon-theme'' = Some (interface w ''icon-theme'')"
    and "plain (interface w ''cursor-theme'') \<Longrightarrow> snapshot_value (saveCurrentThemeToLightKeys e w) ''light-cursor-theme'' = Some (interface w ''cursor-theme'')"
    and "plain (interface w ''accent-color'') \<Longrightarrow> snapshot_value (saveCurrentThemeToLightKeys e w) ''light-accent-color'' = Some (interface w ''accent-color'')"
    and "plain (shell_or_default w) \<Longrightarrow> snapshot_value (saveCurrentThemeToLightKeys e w) ''light-shell-theme'' = Some (shell_or_default w)"
  using assms(2) by (simp_all add: saved_value save_light_at [OF assms(1)])

lemma save_user_theme [simp]:
  "dconf (saveCurrentThemeToLightKeys e w) userThemeName = dconf w userThemeName"
  "dconf (saveCurrentThemeToDarkKeys e w) userThemeName = dconf w userThemeName"
proof -
  show "dconf (saveCurrentThemeToLightKeys e w) userThemeName = dconf w userThemeName"
  proof (cases "interfaceSettings e")
    case None
    then show ?thesis by (simp add: saveCurrentThemeToLightKeys_closed)
  next
    case (Some s)
    then show ?thesis by (simp add: saveCurrentThemeToLightKeys_open)
  qed
  show "dconf (saveCurrentThemeToDarkKeys e w) userThemeName = dconf w userThemeName"
  proof (cases "interfaceSettings e")
    case None
    then show ?thesis by (simp add: saveCurrentThemeToDarkKeys_closed)
  next
    case (Some s)
    then show ?thesis by (simp add: saveCurrentThemeToDarkKeys_open)
  qed
qed

lemma shell_after_command:
  assumes "\<not> failing w (DconfRead userThemeName)"
    and "dconf w userThemeName =
           (case v of None \<Rightarrow> None
                    | Some x \<Rightarrow> if x \<noteq> [] \<and> x \<noteq> ''Default'' then Some (quoted x) else None)"
  shows "fst (getCurrentShellTheme w) =
           (case v of None \<Rightarrow> [] | Some x \<Rightarrow> if x \<noteq> ''Default'' then x else [])"
  using assms
  by (auto simp add: getCurrentShellTheme_unset getCurrentShellTheme_quoted split: option.splits if_splits)

lemma save_dark_values_kept:
  assumes "interfaceSettings e = Some Interface"
  shows "snapshot_value (saveCurrentThemeToLightKeys e (switch_scheme c w)) ''dark-gtk-theme'' = snapshot_value w ''dark-gtk-theme''"
    and "snapshot_value (saveCurrentThemeToLightKeys e (switch_scheme c w)) ''dark-icon-theme'' = snapshot_value w ''dark-icon-theme''"
    and "snapshot_value (saveCurrentThemeToLightKeys e (switch_scheme c w)) ''dark-cursor-theme'' = snapshot_value w ''dark-cursor-theme''"
    and "snapshot_value (saveCurrentThemeToLightKeys e (switch_scheme c w)) ''dark-accent-color'' = snapshot_value w ''dark-accent-color''"
  by (simp_all add: save_light_keeps_dark snapshot_value_cong [of "switch_scheme c w" _ w])

lemma round_trip_live:
  assumes "interfaceSettings e = Some Interface"
    and "includes_str darkScheme ''dark''"
    and "\<not> includes_str lightScheme ''dark''"
  shows "\<exists>w4. round_trip e darkScheme lightScheme w = Inr w4
     \<and> interface w4 ''gtk-theme'' =
          override (snapshot_value (saveCurrentThemeToLightKeys e (switch_scheme darkScheme w)) ''light-gtk-theme'')
            (override (snapshot_value w ''dark-gtk-theme'') (interface w ''gtk-theme''))
     \<and> interface w4 ''icon-theme'' =
          override (snapshot_value (saveCurrentThemeToLightKeys e (switch_scheme darkScheme w)) ''light-icon-theme'')
            (override (snapshot_value w ''dark-icon-theme'') (interface w ''icon-theme''))
     \<and> interface w4 ''cursor-theme'' =
          override (snapshot_value (saveCurrentThemeToLightKeys e (switch_scheme darkScheme w)) ''light-cursor-theme'')
            (override (snapshot_value w ''dark-cursor-theme'') (interface w ''cursor-theme''))
     \<and> interface w4 ''accent-color'' =
          override (snapshot_value (saveCurrentThemeToLightKeys e (switch_scheme darkScheme w)) ''light-accent-color'')
            (override (snapshot_value w ''dark-accent-color'') (interface w ''accent-color''))
     \<and> failing w4 = failing w
     \<and> (\<not> failing w (shell_command (snapshot_value (saveCurrentThemeToLightKeys e (switch_scheme darkScheme w)) ''light-shell-theme''))
          \<and> (\<forall>x. snapshot_value (saveCurrentThemeToLightKeys e (switch_scheme darkScheme w)) ''light-shell-theme'' = Some x \<longrightarrow> plain x)
        \<longrightarrow> dconf w4 userThemeName =
          (case snapshot_value (saveCurrentThemeToLightKeys e (switch_scheme darkScheme w)) ''light-shell-theme'' of
             None \<Rightarrow> None
           | Some x \<Rightarrow> if x \<noteq> [] \<and> x \<noteq> ''Default'' then Some (quoted x) else None))"
proof -
  define w1 where "w1 = switch_scheme darkScheme w"
  define w2 where "w2 = applyDarkTheme e (saveCurrentThemeToLightKeys e w1)"
  define w3 where "w3 = switch_scheme lightScheme w2"
  define w4 where "w4 = applyLightTheme e (saveCurrentThemeToDarkKeys e w3)"
  define L where "L = snapshot_value (saveCurrentThemeToLightKeys e w1)"
  have h1: "handleStyleChange e w1 = Inr w2"
    using assms(1,2) by (simp add: handleStyleChange_def get_string_def read_setting_def w1_def w2_def)
  have h2: "handleStyleChange e w3 = Inr w4"
    using assms(1,3) by (simp add: handleStyleChange_def get_string_def read_setting_def w3_def w4_def)
  have rt: "round_trip e darkScheme lightScheme w = Inr w4"
    using h1 h2 by (simp add: round_trip_def w1_def w3_def)
  have f3: "failing w3 = failing w"
    by (simp add: w3_def w2_def w1_def)
  have f4: "failing w4 = failing w"
    by (simp add: w4_def f3)
  have sv: "snapshot_value (saveCurrentThemeToDarkKeys e w3) key = L key"
    if "startsWith key ''light-''" for key
    using that by (simp add: L_def save_dark_keeps_light w3_def w2_def apply_keeps_snapshot [OF assms(1)]
        snapshot_value_cong [of "switch_scheme lightScheme _"])
  have i1: "interface w1 ''gtk-theme'' = interface w ''gtk-theme''"
    "interface w1 ''icon-theme'' = interface w ''icon-theme''"
    "interface w1 ''cursor-theme'' = interface w ''cursor-theme''"
    "interface w1 ''accent-color'' = interface w ''accent-color''"
    by (simp_all add: w1_def)
  have i3: "interface w3 ''gtk-theme'' = override (snapshot_value w ''dark-gtk-theme'') (interface w ''gtk-theme'')"
    "interface w3 ''icon-theme'' = override (snapshot_value w ''dark-icon-theme'') (interface w ''icon-theme'')"
    "interface w3 ''cursor-theme'' = override (snapshot_value w ''dark-cursor-theme'') (interface w ''cursor-theme'')"
    "interface w3 ''accent-color'' = override (snapshot_value w ''dark-accent-color'') (interface w ''accent-color'')"
    by (simp_all add: w3_def w2_def apply_interface [OF assms(1)] i1)
       (simp_all add: w1_def save_dark_values_kept [OF assms(1)])
  have gtk: "interface w4 ''gtk-theme'' =
      override (L ''light-gtk-theme'') (override (snapshot_value w ''dark-gtk-theme'') (interface w ''gtk-theme''))"
    by (simp add: w4_def apply_interface [OF assms(1)] sv i3)
  have icon: "interface w4 ''icon-theme'' =
      override (L ''light-icon-theme'') (override (snapshot_value w ''dark-icon-theme'') (interface w ''icon-theme''))"
    by (simp add: w4_def apply_interface [OF assms(1)] sv i3)
  have cursor: "interface w4 ''cursor-theme'' =
      override (L ''light-cursor-theme'') (override (snapshot_value w ''dark-cursor-theme'') (interface w ''cursor-theme''))"
    by (simp add: w4_def apply_interface [OF assms(1)] sv i3)
  have accent: "interface w4 ''accent-color'' =
      override (L ''light-accent-color'') (override (snapshot_value w ''dark-accent-color'') (interface w ''accent-color''))"
    by (simp add: w4_def apply_interface [OF assms(1)] sv i3)
  have shell: "dconf w4 userThemeName =
      (case L ''light-shell-theme'' of None \<Rightarrow> None
        | Some x \<Rightarrow> if x \<noteq> [] \<and> x \<noteq> ''Default'' then Some (quoted x) else None)"
    if "\<not> failing w (shell_command (L ''light-shell-theme''))"
      and "\<forall>x. L ''light-shell-theme'' = Some x \<longrightarrow> plain x"
  proof -
    have "\<And>x. L ''light-shell-theme'' = Some x \<Longrightarrow> plain x" using that(2) by blast
    then show ?thesis
      using that(1) by (simp add: w4_def apply_dconf [OF assms(1)] sv f3 shell_command_dconf)
  qed
  from rt gtk icon cursor accent f4 shell show ?thesis
    unfolding L_def w1_def by blast
qed

lemma live_shell:
  assumes "\<not> failing w (DconfRead userThemeName)"
    and "dconf w userThemeName =
           (case v of None \<Rightarrow> None
                    | Some x \<Rightarrow> if x \<noteq> [] \<and> x \<noteq> ''Default'' then Some (quoted x) else None)"
  shows "fst (getCurrentShellTheme w) =
           (case v of None \<Rightarrow> [] | Some x \<Rightarrow> if x \<noteq> ''Default'' then x else [])"
  using assms by (rule shell_after_command)

lemma round_trip_theme:
  assumes "interfaceSettings e = Some Interface"
    and "includes_str darkScheme ''dark''"
    and "\<not> includes_str lightScheme ''dark''"
    and "snapshot_value (saveCurrentThemeToLightKeys e (switch_scheme darkScheme w)) ''light-gtk-theme'' = lg"
    and "snapshot_value (saveCurrentThemeToLightKeys e (switch_scheme darkScheme w)) ''light-icon-theme'' = li"
    and "snapshot_value (saveCurrentThemeToLightKeys e (switch_scheme darkScheme w)) ''light-cursor-theme'' = lc"
    and "snapshot_value (saveCurrentThemeToLightKeys e (switch_scheme darkScheme w)) ''light-accent-color'' = la"
    and "snapshot_value (saveCurrentThemeToLightKeys e (switch_scheme darkScheme w)) ''light-shell-theme'' = ls"
    and "\<not> failing w (DconfRead userThemeName)"
    and "\<not> failing w (shell_command ls)"
    and "\<forall>x. ls = Some x \<longrightarrow> plain x"
  shows "map_sum id live_theme (round_trip e darkScheme lightScheme w) =
     Inr (override lg (override (snapshot_value w ''dark-gtk-theme'') (interface w ''gtk-theme'')),
          override li (override (snapshot_value w ''dark-icon-theme'') (interface w ''icon-theme'')),
          override lc (override (snapshot_value w ''dark-cursor-theme'') (interface w ''cursor-theme'')),
          override la (override (snapshot_value w ''dark-accent-color'') (interface w ''accent-color'')),
          (case ls of None \<Rightarrow> [] | Some x \<Rightarrow> if x \<noteq> ''Default'' then x else []))"
proof -
  from round_trip_live [OF assms(1-3), of w] obtain w4
    where rt: "round_trip e darkScheme lightScheme w = Inr w4"
      and a: "interface w4 ''gtk-theme'' = override lg (override (snapshot_value w ''dark-gtk-theme'') (interface w ''gtk-theme''))"
        "interface w4 ''icon-theme'' = override li (override (snapshot_value w ''dark-icon-theme'') (interface w ''icon-theme''))"
        "interface w4 ''cursor-theme'' = override lc (override (snapshot_value w ''dark-cursor-theme'') (interface w ''cursor-theme''))"
        "interface w4 ''accent-color'' = override la (override (snapshot_value w ''dark-accent-color'') (interface w ''accent-color''))"
      and f: "failing w4 = failing w"
      and d: "\<not> failing w (shell_command ls) \<and> (\<forall>x. ls = Some x \<longrightarrow> plain x)
        \<longrightarrow> dconf w4 userThemeName =
          (case ls of None \<Rightarrow> None | Some x \<Rightarrow> if x \<noteq> [] \<and> x \<noteq> ''Default'' then Some (quoted x) else None)"
    unfolding assms(4-8) by blast
  have "dconf w4 userThemeName =
          (case ls of None \<Rightarrow> None | Some x \<Rightarrow> if x \<noteq> [] \<and> x \<noteq> ''Default'' then Some (quoted x) else None)"
    using d assms(10,11) by blast
  moreover have "\<not> failing w4 (DconfRead userThemeName)" using assms(9) f by simp
  ultimately have "fst (getCurrentShellTheme w4) = (case ls of None \<Rightarrow> [] | Some x \<Rightarrow> if x \<noteq> ''Default'' then x else [])"
    by (rule live_shell [rotated])
  with rt a show ?thesis by (simp add: live_theme_def)
qed

lemma round_trip_overlapped_theme:
  assumes "interfaceSettings e = Some Interface"
    and "includes_str darkScheme ''dark''"
    and "\<not> includes_str lightScheme ''dark''"
    and "snapshot_value (saveCurrentThemeToLightKeys e (switch_scheme darkScheme w)) ''light-gtk-theme'' = lg"
    and "snapshot_value (saveCurrentThemeToLightKeys e (switch_scheme darkScheme w)) ''light-icon-theme'' = li"
    and "snapshot_value (saveCurrentThemeToLightKeys e (switch_scheme darkScheme w)) ''light-cursor-theme'' = lc"
    and "snapshot_value (saveCurrentThemeToLightKeys e (switch_scheme darkScheme w)) ''light-accent-color'' = la"
    and "snapshot_value (saveCurrentThemeToLightKeys e (switch_scheme darkScheme w)) ''light-shell-theme'' = ls"
    and "\<not> failing w (DconfRead userThemeName)"
    and "\<not> failing w (shell_command ls)"
    and "\<forall>x. ls = Some x \<longrightarrow> plain x"
  shows "map_sum id live_theme (round_trip_overlapped e darkScheme lightScheme w) =
     Inr (override lg (override (snapshot_value w ''dark-gtk-theme'') (interface w ''gtk-theme'')),
          override (snapshot_value w ''dark-icon-theme'') (override li (interface w ''icon-theme'')),
          override (snapshot_value w ''dark-cursor-theme'') (override lc (interface w ''cursor-theme'')),
          override (snapshot_value w ''dark-accent-color'') (override la (interface w ''accent-color'')),
          (case ls of None \<Rightarrow> [] | Some x \<Rightarrow> if x \<noteq> ''Default'' then x else []))"
proof -
  define w1 where "w1 = switch_scheme darkScheme w"
  define s1 where "s1 = saveCurrentThemeToLightKeys e w1"
  define w2 where "w2 = snd (applyDarkTheme_begin e s1)"
  define k1 where "k1 = (snapshot_value w ''dark-icon-theme'', snapshot_value w ''dark-cursor-theme'',
                 snapshot_value w ''dark-accent-color'')"
  define w3 where "w3 = switch_scheme lightScheme w2"
  define s3 where "s3 = saveCurrentThemeToDarkKeys e w3"
  define w4 where "w4 = snd (applyLightTheme_begin e s3)"
  define k2 where "k2 = (li, lc, la)"
  define w5 where "w5 = applyLightTheme_resume e k2 w4"
  define w6 where "w6 = applyDarkTheme_resume e k1 w5"
  have L: "snapshot_value s1 ''light-gtk-theme'' = lg" "snapshot_value s1 ''light-icon-theme'' = li"
    "snapshot_value s1 ''light-cursor-theme'' = lc" "snapshot_value s1 ''light-accent-color'' = la"
    "snapshot_value s1 ''light-shell-theme'' = ls"
    using assms(4-8) by (simp_all add: s1_def w1_def)
  have D: "snapshot_value s1 ''dark-gtk-theme'' = snapshot_value w ''dark-gtk-theme''"
    "snapshot_value s1 ''dark-icon-theme'' = snapshot_value w ''dark-icon-theme''"
    "snapshot_value s1 ''dark-cursor-theme'' = snapshot_value w ''dark-cursor-theme''"
    "snapshot_value s1 ''dark-accent-color'' = snapshot_value w ''dark-accent-color''"
    by (simp_all add: s1_def w1_def save_dark_values_kept [OF assms(1)])
  have b1: "applyDarkTheme_begin e s1 = (Some k1, w2)"
    using apply_begin_fields(2) [OF assms(1), of s1]
    by (simp add: w2_def k1_def D prod_eq_iff)
  have h1: "handleStyleChange_begin e w1 = Inr (Some k1, w2)"
    using assms(1,2) b1 by (simp add: handleStyleChange_begin_def get_string_def read_setting_def w1_def s1_def)
  have sv: "snapshot_value s3 key = snapshot_value s1 key" if "startsWith key ''light-''" for key
    using that by (simp add: s3_def save_dark_keeps_light w3_def w2_def apply_begin_keeps_snapshot [OF assms(1)]
        snapshot_value_cong [of "switch_scheme lightScheme _"])
  have b2: "applyLightTheme_begin e s3 = (Some k2, w4)"
    using apply_begin_fields(1) [OF assms(1), of s3]
    by (simp add: w4_def k2_def sv L prod_eq_iff)
  have h2: "handleStyleChange_begin e w3 = Inr (Some k2, w4)"
    using assms(1,3) b2 by (simp add: handleStyleChange_begin_def get_string_def read_setting_def w3_def s3_def)
  have rt: "round_trip_overlapped e darkScheme lightScheme w = Inr w6"
    using h1 h2 by (simp add: round_trip_overlapped_def w1_def w3_def w6_def w5_def)
  have i2: "interface w2 = (interface w1)(''gtk-theme'' := override (snapshot_value w ''dark-gtk-theme'') (interface w ''gtk-theme''))"
    unfolding w2_def apply_begin_fields(4) [OF assms(1)] D by (simp add: s1_def w1_def)
  have "interface s3 = interface w3" by (simp add: s3_def)
  then have i4: "interface w4 = (interface w3)(''gtk-theme'' := override lg (interface w3 ''gtk-theme''))"
    by (simp add: w4_def apply_begin_fields(3) [OF assms(1)] sv L)
  have i4': "interface w4 ''gtk-theme'' = override lg (override (snapshot_value w ''dark-gtk-theme'') (interface w ''gtk-theme''))"
    "interface w4 ''icon-theme'' = interface w ''icon-theme''"
    "interface w4 ''cursor-theme'' = interface w ''cursor-theme''"
    "interface w4 ''accent-color'' = interface w ''accent-color''"
    by (simp_all add: i4 w3_def i2 w1_def)
  have i6: "interface w6 ''gtk-theme'' = override lg (override (snapshot_value w ''dark-gtk-theme'') (interface w ''gtk-theme''))"
    "interface w6 ''icon-theme'' = override (snapshot_value w ''dark-icon-theme'') (override li (interface w ''icon-theme''))"
    "interface w6 ''cursor-theme'' = override (snapshot_value w ''dark-cursor-theme'') (override lc (interface w ''cursor-theme''))"
    "interface w6 ''accent-color'' = override (snapshot_value w ''dark-accent-color'') (override la (interface w ''accent-color''))"
    by (simp_all add: w6_def w5_def k1_def k2_def apply_resume_interface [OF assms(1)] i4')
  have f3: "failing s3 = failing w"
    by (simp add: s3_def w3_def w2_def apply_begin_fields [OF assms(1)] s1_def w1_def)
  have f6: "failing w6 = failing w"
    by (simp add: w6_def w5_def k1_def k2_def apply_resume_interface [OF assms(1)] w4_def
        apply_begin_fields [OF assms(1)] f3)
  have p: "\<And>x. snapshot_value s3 ''light-shell-theme'' = Some x \<Longrightarrow> plain x"
    using assms(11) by (simp add: sv L)
  have "dconf w6 userThemeName = dconf (applyLightTheme e s3) userThemeName"
    by (simp add: w6_def w5_def k1_def k2_def apply_resume_interface [OF assms(1)] w4_def
        apply_begin_fields [OF assms(1)])
  also have "\<dots> = (case ls of None \<Rightarrow> None | Some x \<Rightarrow> if x \<noteq> [] \<and> x \<noteq> ''Default'' then Some (quoted x) else None)"
    using assms(10) p by (simp add: apply_dconf [OF assms(1)] f3 shell_command_dconf sv L)
  finally have d6: "dconf w6 userThemeName =
      (case ls of None \<Rightarrow> None | Some x \<Rightarrow> if x \<noteq> [] \<and> x \<noteq> ''Default'' then Some (quoted x) else None)" .
  have "\<not> failing w6 (DconfRead userThemeName)" using assms(9) f6 by simp
  then have "fst (getCurrentShellTheme w6) = (case ls of None \<Rightarrow> [] | Some x \<Rightarrow> if x \<noteq> ''Default'' then x else [])"
    using d6 by (rule live_shell)
  with rt i6 show ?thesis by (simp add: live_theme_def)
qed

lemma override_Some: "x \<noteq> [] \<Longrightarrow> override (Some x) old = x"
  by (simp add: override_def)

lemma extension1_fields [simp]:
  "interfaceSettings extension1 = Some Interface"
  "settings extension1 = Some Background"
  "storedWallpapers extension1 = \<lparr>light = Some ''file:///home/u/day.jpg'', dark = Some ''file:///home/u/night.jpg''\<rparr>"
  by (simp_all add: extension1_def constructor_def)

lemma desktop1_fields:
  "failing desktop1 c = False"
  "interface desktop1 ''gtk-theme'' = ''Adwaita''"
  "interface desktop1 ''icon-theme'' = ''Adwaita''"
  "interface desktop1 ''cursor-theme'' = ''Adwaita''"
  "interface desktop1 ''accent-color'' = ''blue''"
  "interface desktop1 ''color-scheme'' = ''default''"
  "dconf desktop1 userThemeName = None"
  "trace desktop1 = []"
  "background desktop1 ''picture-uri'' = ''file:///home/u/day.jpg''"
  "background desktop1 ''picture-uri-dark'' = ''file:///home/u/night.jpg''"
  by (simp_all add: desktop1_def desktop0_def dconfPath_def userThemeName_def)

lemma desktop1_snapshot:
  "snapshot_value desktop1 ''dark-gtk-theme'' = Some ''Adwaita-dark''"
  "snapshot_value desktop1 ''dark-icon-theme'' = None"
  "snapshot_value desktop1 ''dark-cursor-theme'' = None"
  "snapshot_value desktop1 ''dark-accent-color'' = None"
  "snapshot_value desktop1 ''dark-shell-theme'' = None"
  "snapshot_value desktop1 ''light-gtk-theme'' = None"
  "snapshot_value desktop1 ''light-icon-theme'' = Some ''Papirus''"
  "snapshot_value desktop1 ''light-cursor-theme'' = None"
  "snapshot_value desktop1 ''light-accent-color'' = None"
  "snapshot_value desktop1 ''light-shell-theme'' = None"
  by (simp_all add: snapshot_value_quoted snapshot_value_unset desktop1_def desktop0_def dconfPath_def)

lemma desktop2_fields:
  "failing desktop2 c = False"
  "interface desktop2 ''gtk-theme'' = []"
  "interface desktop2 ''icon-theme'' = ''Adwaita''"
  "interface desktop2 ''cursor-theme'' = ''Adwaita''"
  "interface desktop2 ''accent-color'' = ''blue''"
  "interface desktop2 ''color-scheme'' = ''default''"
  "dconf desktop2 userThemeName = None"
  by (simp_all add: desktop2_def desktop1_fields)

lemma desktop2_snapshot:
  "snapshot_value desktop2 key = snapshot_value desktop1 key"
  by (rule snapshot_value_cong) (simp_all add: desktop2_def)

lemma set_effect_keys:
  "x \<in> set (set_effect s key v) \<Longrightarrow> \<exists>y. x = SetString s key y"
  by (auto simp add: set_effect_def split: option.splits if_splits)

lemma apply_begin_effects_writes:
  "x \<in> set (apply_begin_effects mode s w) \<Longrightarrow> is_live_write x \<Longrightarrow> \<exists>y. x = SetString s ''gtk-theme'' y"
  by (auto simp add: apply_begin_effects_def is_live_write_def dest: set_effect_keys split: if_splits)

lemma apply_begin_effects_last: "last (apply_begin_effects mode s w) = Await"
  by (simp add: apply_begin_effects_def)

lemma apply_resume_effects_writes:
  "x \<in> set (apply_resume_effects mode s w) \<Longrightarrow>
     \<exists>y. x = SetString s ''icon-theme'' y \<or> x = SetString s ''cursor-theme'' y \<or> x = SetString s ''accent-color'' y"
proof -
  assume "x \<in> set (apply_resume_effects mode s w)"
  then consider
      "x \<in> set (set_effect s ''icon-theme'' (snapshot_value w (mode @ ''-icon-theme'')))"
    | "x \<in> set (set_effect s ''cursor-theme'' (snapshot_value w (mode @ ''-cursor-theme'')))"
    | "x \<in> set (set_effect s ''accent-color'' (snapshot_value w (mode @ ''-accent-color'')))"
    by (auto simp add: apply_resume_effects_def)
  then show ?thesis
  proof cases
    case 1
    then obtain y where "x = SetString s ''icon-theme'' y" using set_effect_keys by blast
    then show ?thesis by blast
  next
    case 2
    then obtain y where "x = SetString s ''cursor-theme'' y" using set_effect_keys by blast
    then show ?thesis by blast
  next
    case 3
    then obtain y where "x = SetString s ''accent-color'' y" using set_effect_keys by blast
    then show ?thesis by blast
  qed
qed

lemma Await_not_snapshot: "Await \<notin> set (snapshot_effects mode s w)"
  by (simp add: snapshot_effects_def)

lemma handleWallpaperChange_open:
  assumes "settings e = Some s" "interfaceSettings e = Some i"
  shows "handleWallpaperChange key e w =
     (if isPairedWallpaper (Some (read_setting s w key)) then Inr (remember key (read_setting s w key) e, w)
      else if key = ''picture-uri'' \<and> includes_str (read_setting i w ''color-scheme'') ''dark'' then
        (case light (storedWallpapers e) of
           None \<Rightarrow> Inl TypeError
         | Some m \<Rightarrow> Inr (e, emit (SetString s ''picture-uri'' m) (write_setting s ''picture-uri'' m w)))
      else if key = ''picture-uri-dark'' \<and> \<not> includes_str (read_setting i w ''color-scheme'') ''dark'' then
        (case dark (storedWallpapers e) of
           None \<Rightarrow> Inl TypeError
         | Some m \<Rightarrow> Inr (e, emit (SetString s ''picture-uri-dark'' m) (write_setting s ''picture-uri-dark'' m w)))
      else Inr (remember key (read_setting s w key) e, w))"
  using assms
  by (simp add: handleWallpaperChange_def get_string_def set_string_def Let_def split: option.splits)

lemma handleWallpaperChange_closed:
  assumes "settings e = None \<or> interfaceSettings e = None"
  shows "handleWallpaperChange key e w = Inl TypeError"
  using assms
  by (auto simp add: handleWallpaperChange_def get_string_def split: option.splits)

lemma handleWallpaperChange_trace:
  assumes "handleWallpaperChange key e w = Inr (e', w')"
  shows "\<exists>new. trace w' = trace w @ new \<and> Await \<notin> set new"
proof (cases "settings e = None \<or> interfaceSettings e = None")
  case True
  then show ?thesis using assms by (simp add: handleWallpaperChange_closed)
next
  case False
  then obtain s i where o: "settings e = Some s" "interfaceSettings e = Some i" by auto
  have "trace w' = trace w \<or> (\<exists>k m. trace w' = trace w @ [SetString s k m])"
    using assms unfolding handleWallpaperChange_open [OF o]
    by (auto split: if_splits option.splits)
  then show ?thesis by auto
qed

lemma getAutomaticMode_trace:
  "\<exists>new. trace (snd (getAutomaticMode w)) = trace w @ new \<and> (\<forall>x \<in> set new. \<exists>c. x = SpawnSync c)"
  by (simp add: getAutomaticMode_eq split: option.splits)

lemma set_string_trace:
  "set_string obj key v w = Inr w' \<Longrightarrow> \<exists>s y. trace w' = trace w @ [SetString s key y]"
  by (auto simp add: set_string_def split: option.splits)

lemma set_string_cases:
  "set_string obj key v w = Inl TypeError \<or>
   (\<exists>s y. obj = Some s \<and> v = Some y \<and> set_string obj key v w = Inr (emit (SetString s key y) (write_setting s key y w)))"
  by (simp add: set_string_def split: option.splits)

lemma repair_trace:
  assumes "(if Some cur \<noteq> m then set_string obj key m w2 else Inr w2) = Inr w3"
  shows "\<exists>new. trace w3 = trace w2 @ new \<and> Await \<notin> set new"
proof (cases "Some cur \<noteq> m")
  case True
  with assms have "set_string obj key m w2 = Inr w3" by simp
  then obtain s y where "trace w3 = trace w2 @ [SetString s key y]"
    using set_string_trace by blast
  then show ?thesis by simp
next
  case False
  with assms show ?thesis by simp
qed

lemma handleNightLightChange_eq:
  "handleNightLightChange b e w =
     (let w1 = snd (getAutomaticMode w) in
      if \<not> fst (getAutomaticMode w) then Inr w1
      else
        (let scheme = (if b then ''prefer-dark'' else ''default'');
             key = (if b then ''picture-uri-dark'' else ''picture-uri'');
             m = (if b then dark (storedWallpapers e) else light (storedWallpapers e))
         in case set_string (interfaceSettings e) ''color-scheme'' (Some scheme) w1 of
              Inl err \<Rightarrow> Inl (err, w1)
            | Inr w2 \<Rightarrow>
                (case get_string (settings e) key w2 of
                   Inl err \<Rightarrow> Inl (err, w2)
                 | Inr cur \<Rightarrow>
                     if Some cur \<noteq> m then
                       (case set_string (settings e) key m w2 of
                          Inl err \<Rightarrow> Inl (err, w2)
                        | Inr w3 \<Rightarrow> Inr w3)
                     else Inr w2)))"
  by (simp add: handleNightLightChange_def split_beta Let_def)

lemma handleNightLightChange_steps:
  assumes "handleNightLightChange b e w = Inr w' \<or> handleNightLightChange b e w = Inl (err, w')"
  shows "\<exists>new. trace w' = trace (snd (getAutomaticMode w)) @ new \<and> Await \<notin> set new"
proof (cases "fst (getAutomaticMode w)")
  case False
  with assms have "w' = snd (getAutomaticMode w)"
    by (auto simp add: handleNightLightChange_eq Let_def)
  then show ?thesis by simp
next
  case True
  define w1 where "w1 = snd (getAutomaticMode w)"
  define scheme where "scheme = (if b then ''prefer-dark'' else ''default'')"
  define key where "key = (if b then ''picture-uri-dark'' else ''picture-uri'')"
  define m where "m = (if b then dark (storedWallpapers e) else light (storedWallpapers e))"
  have eq: "handleNightLightChange b e w =
     (case set_string (interfaceSettings e) ''color-scheme'' (Some scheme) w1 of
              Inl err \<Rightarrow> Inl (err, w1)
            | Inr w2 \<Rightarrow>
                (case get_string (settings e) key w2 of
                   Inl err \<Rightarrow> Inl (err, w2)
                 | Inr cur \<Rightarrow>
                     if Some cur \<noteq> m then
                       (case set_string (settings e) key m w2 of
                          Inl err \<Rightarrow> Inl (err, w2)
                        | Inr w3 \<Rightarrow> Inr w3)
                     else Inr w2))"
    unfolding w1_def scheme_def key_def m_def
    using True by (simp only: handleNightLightChange_eq Let_def not_True_eq_False if_False)
  show ?thesis
  proof (cases "set_string (interfaceSettings e) ''color-scheme'' (Some scheme) w1")
    case (Inl err1)
    with assms eq have "w' = w1" by auto
    then show ?thesis by (simp add: w1_def)
  next
    case (Inr w2)
    then obtain s y where t2: "trace w2 = trace w1 @ [SetString s ''color-scheme'' y]"
      using set_string_trace by blast
    show ?thesis
    proof (cases "get_string (settings e) key w2")
      case (Inl err2)
      with assms eq Inr have "w' = w2" by auto
      with t2 show ?thesis by (simp add: w1_def)
    next
      case cur: (Inr cur)
      show ?thesis
      proof (cases "Some cur \<noteq> m")
        case False
        with assms eq Inr cur have "w' = w2" by auto
        with t2 show ?thesis by (simp add: w1_def)
      next
        case ne: True
        show ?thesis
        proof (cases "set_string (settings e) key m w2")
          case (Inl err3)
          with assms eq Inr cur ne have "w' = w2" by auto
          with t2 show ?thesis by (simp add: w1_def)
        next
          case w3: (Inr w3)
          with assms eq Inr cur ne have "w' = w3" by auto
          moreover from w3 obtain s' y' where "trace w3 = trace w2 @ [SetString s' key y']"
            using set_string_trace by blast
          ultimately show ?thesis using t2 by (simp add: w1_def)
        qed
      qed
    qed
  qed
qed

lemma handleNightLightChange_trace:
  assumes "handleNightLightChange b e w = Inr w' \<or> handleNightLightChange b e w = Inl (err, w')"
  shows "\<exists>new. trace w' = trace w @ new \<and> Await \<notin> set new"
proof -
  obtain new0 where n0: "trace (snd (getAutomaticMode w)) = trace w @ new0" "\<forall>x \<in> set new0. \<exists>c. x = SpawnSync c"
    using getAutomaticMode_trace by blast
  then have a0: "Await \<notin> set new0" by auto
  obtain new1 where "trace w' = trace (snd (getAutomaticMode w)) @ new1" "Await \<notin> set new1"
    using handleNightLightChange_steps [OF assms] by blast
  with n0 a0 have "trace w' = trace w @ (new0 @ new1) \<and> Await \<notin> set (new0 @ new1)" by simp
  then show ?thesis by blast
qed

lemma remember_slots:
  "slot key (remember key v e) = Some v"
  "other_slot key (remember key v e) = other_slot key e"
  "settings (remember key v e) = settings e"
  "interfaceSettings (remember key v e) = interfaceSettings e"
  "lastNightLightState (remember key v e) = lastNightLightState e"
  by (simp_all add: slot_def other_slot_def remember_def)

lemma disconnect_if_fields [simp]:
  "background (disconnect_if s h w) = background w"
  "interface (disconnect_if s h w) = interface w"
  "dconf (disconnect_if s h w) = dconf w"
  "failing (disconnect_if s h w) = failing w"
  by (simp_all add: disconnect_if_def disconnect_def split: option.splits)

lemma disconnect_if_signals:
  "set (signals (disconnect_if s h w)) \<subseteq> set (signals w)"
  "h = Some n \<Longrightarrow> n \<noteq> 0 \<Longrightarrow> (s, n) \<notin> set (signals (disconnect_if s h w))"
  by (auto simp add: disconnect_if_def disconnect_def split: option.splits)

lemma disconnect_if_trace:
  "\<exists>new. trace (disconnect_if s h w) = trace w @ new"
  "h = Some n \<Longrightarrow> n \<noteq> 0 \<Longrightarrow> Disconnect s n \<in> set (trace (disconnect_if s h w))"
  by (auto simp add: disconnect_if_def disconnect_def split: option.splits)




lemma set_wallpaper_fields [simp]:
  "background (set_wallpaper key v w) = (background w)(key := v)"
  "interface (set_wallpaper key v w) = interface w"
  "dconf (set_wallpaper key v w) = dconf w"
  "trace (set_wallpaper key v w) = trace w"
  by (simp_all add: set_wallpaper_def)

lemma paired_concrete:
  "isPairedWallpaper (Some ''file:///home/u/sunset-l.jpg'')"
  "\<not> isPairedWallpaper (Some ''file:///home/u/random.jpg'')"
  by (simp_all add: isPairedWallpaper_def pop_def alnum_def)


lemma apply_effects_no_store_write:
  "SpawnSync (DconfWrite p t) \<notin> set (apply_begin_effects mode s w @ apply_resume_effects mode s w)"
  by (auto simp add: apply_begin_effects_def apply_resume_effects_def set_effect_def
      split: option.splits if_splits)


lemma desktop4_flag: "fst (getDconfBoolean ''automatic-mode'' None desktop4) = Some False"
  by (simp add: getDconfBoolean_def spawn_read Let_def desktop4_def desktop1_def desktop0_def
      trim_def isSpace_def)

lemma desktop1_shell: "shell_or_default desktop1 = ''Default''"
  by (simp add: shell_or_default_def getCurrentShellTheme_unset desktop1_fields)

lemma style_light_trace:
  "trace (applyLightTheme extension1 (saveCurrentThemeToDarkKeys extension1 desktop1)) =
     snapshot_effects ''dark'' Interface desktop1
     @ [SpawnSync (DconfRead (dconfPath @ ''light-gtk-theme'')),
        SpawnSync (DconfRead (dconfPath @ ''light-shell-theme'')),
        SpawnSync (DconfRead (dconfPath @ ''light-icon-theme'')),
        SpawnSync (DconfRead (dconfPath @ ''light-cursor-theme'')),
        SpawnSync (DconfRead (dconfPath @ ''light-accent-color'')),
        Execute (DconfReset userThemeName), Await, Await,
        SetString Interface ''icon-theme'' ''Papirus'']"
  by (simp add: applyLightTheme_trace [of extension1 Interface] saveCurrentThemeToDarkKeys_trace
      apply_effects_after_save desktop1_fields)
     (simp add: apply_begin_effects_def apply_resume_effects_def set_effect_def desktop1_snapshot
      shell_command_def desktop1_fields)


lemma handleStyleChange_closed:
  "interfaceSettings e = None \<Longrightarrow> handleStyleChange e w = Inl TypeError"
  by (simp add: handleStyleChange_def get_string_def)

lemma handleStyleChange_trace:
  assumes "interfaceSettings e = Some s"
  shows "\<exists>w'. handleStyleChange e w = Inr w'
     \<and> trace w' = trace w @ snapshot_effects (left s w) s w
          @ apply_begin_effects (entered s w) s w @ apply_resume_effects (entered s w) s w"
  using assms
  by (simp add: handleStyleChange_def get_string_def left_def entered_def
      applyDarkTheme_trace applyLightTheme_trace
      saveCurrentThemeToLightKeys_trace saveCurrentThemeToDarkKeys_trace apply_effects_after_save)


lemma handleStyleChange_shell_writes:
  assumes "handleStyleChange e w = Inr w'"
  shows "\<exists>new. trace w' = trace w @ new
     \<and> (\<forall>t. SpawnSync (DconfWrite (dconfPath @ ''light-shell-theme'') t) \<in> set new
              \<or> SpawnSync (DconfWrite (dconfPath @ ''dark-shell-theme'') t) \<in> set new
            \<longrightarrow> t = quoted (shell_or_default w))"
proof (cases "interfaceSettings e")
  case None
  with assms show ?thesis by (simp add: handleStyleChange_closed)
next
  case (Some s)
  from handleStyleChange_trace [OF Some, of w] assms
  have t: "trace w' = trace w @ (snapshot_effects (left s w) s w
          @ (apply_begin_effects (entered s w) s w @ apply_resume_effects (entered s w) s w))"
    by auto
  have a: "\<And>p t. SpawnSync (DconfWrite p t) \<notin> set (apply_begin_effects (entered s w) s w @ apply_resume_effects (entered s w) s w)"
    by (rule apply_effects_no_store_write)
  have b: "\<And>t. SpawnSync (DconfWrite (dconfPath @ ''light-shell-theme'') t) \<in> set (snapshot_effects (left s w) s w)
              \<or> SpawnSync (DconfWrite (dconfPath @ ''dark-shell-theme'') t) \<in> set (snapshot_effects (left s w) s w)
            \<Longrightarrow> t = quoted (shell_or_default w)"
    by (auto simp add: snapshot_effects_def left_def split: if_splits)
  have "\<forall>t. SpawnSync (DconfWrite (dconfPath @ ''light-shell-theme'') t)
               \<in> set (snapshot_effects (left s w) s w
                    @ (apply_begin_effects (entered s w) s w @ apply_resume_effects (entered s w) s w))
              \<or> SpawnSync (DconfWrite (dconfPath @ ''dark-shell-theme'') t)
               \<in> set (snapshot_effects (left s w) s w
                    @ (apply_begin_effects (entered s w) s w @ apply_resume_effects (entered s w) s w))
            \<longrightarrow> t = quoted (shell_or_default w)"
    using a b by (metis Un_iff set_append)
  with t show ?thesis by blast
qed

lemma desktop5_fields:
  "failing desktop5 c = False"
  "interface desktop5 ''gtk-theme'' = ''Adwaita''"
  "interface desktop5 ''icon-theme'' = ''Adwaita''"
  "interface desktop5 ''cursor-theme'' = ''Adwaita''"
  "interface desktop5 ''accent-color'' = ''blue''"
  "dconf desktop5 userThemeName = Some (quoted ''Default'')"
  by (simp_all add: desktop5_def desktop1_fields)

lemma desktop5_shell: "fst (getCurrentShellTheme desktop5) = ''Default''"
  by (simp add: getCurrentShellTheme_quoted desktop5_fields)

lemma desktop1_dconf:
  "dconf desktop1 (dconfPath @ ''dark-gtk-theme'') = Some (quoted ''Adwaita-dark'')"
  "dconf desktop1 (dconfPath @ ''dark-icon-theme'') = None"
  "dconf desktop1 (dconfPath @ ''dark-cursor-theme'') = None"
  "dconf desktop1 (dconfPath @ ''dark-accent-color'') = None"
  "dconf desktop1 (dconfPath @ ''light-gtk-theme'') = None"
  "dconf desktop1 (dconfPath @ ''automatic-mode'') = None"
  by (simp_all add: desktop1_def desktop0_def dconfPath_def)

lemma dark_values:
  assumes "\<And>key. dconf w (dconfPath @ key) = dconf desktop1 (dconfPath @ key)"
    and "\<And>p. \<not> failing w (DconfRead p)"
  shows "snapshot_value w ''dark-gtk-theme'' = Some ''Adwaita-dark''"
    and "snapshot_value w ''dark-icon-theme'' = None"
    and "snapshot_value w ''dark-cursor-theme'' = None"
    and "snapshot_value w ''dark-accent-color'' = None"
  by (simp_all add: snapshot_value_quoted snapshot_value_unset assms desktop1_dconf)

lemma shell_or_default_switch [simp]: "shell_or_default (switch_scheme c w) = shell_or_default w"
  unfolding shell_or_default_def
  by (simp add: getCurrentShellTheme_cong [of "switch_scheme c w" w])

lemma save_light_switch:
  assumes "interfaceSettings e = Some Interface"
  shows "dconf (saveCurrentThemeToLightKeys e (switch_scheme c w)) (dconfPath @ ''light-gtk-theme'') = persisted w ''light-gtk-theme'' (interface w ''gtk-theme'')"
    and "dconf (saveCurrentThemeToLightKeys e (switch_scheme c w)) (dconfPath @ ''light-icon-theme'') = persisted w ''light-icon-theme'' (interface w ''icon-theme'')"
    and "dconf (saveCurrentThemeToLightKeys e (switch_scheme c w)) (dconfPath @ ''light-cursor-theme'') = persisted w ''light-cursor-theme'' (interface w ''cursor-theme'')"
    and "dconf (saveCurrentThemeToLightKeys e (switch_scheme c w)) (dconfPath @ ''light-accent-color'') = persisted w ''light-accent-color'' (interface w ''accent-color'')"
    and "dconf (saveCurrentThemeToLightKeys e (switch_scheme c w)) (dconfPath @ ''light-shell-theme'') = persisted w ''light-shell-theme'' (shell_or_default w)"
  by (simp_all add: save_light_at [OF assms] persisted_cong [of "switch_scheme c w" _ w])

lemma light_slot:
  assumes "dconf w' (dconfPath @ key) = persisted w key v" "failing w' = failing w"
    and "plain v" "\<And>c. \<not> failing w c"
  shows "snapshot_value w' key = Some v"
  using assms by (simp add: saved_value)

lemma light_slots:
  assumes "interfaceSettings e = Some Interface" "\<And>c. \<not> failing w c"
  shows "plain (interface w ''gtk-theme'') \<Longrightarrow> snapshot_value (saveCurrentThemeToLightKeys e (switch_scheme c w)) ''light-gtk-theme'' = Some (interface w ''gtk-theme'')"
    and "plain (interface w ''icon-theme'') \<Longrightarrow> snapshot_value (saveCurrentThemeToLightKeys e (switch_scheme c w)) ''light-icon-theme'' = Some (interface w ''icon-theme'')"
    and "plain (interface w ''cursor-theme'') \<Longrightarrow> snapshot_value (saveCurrentThemeToLightKeys e (switch_scheme c w)) ''light-cursor-theme'' = Some (interface w ''cursor-theme'')"
    and "plain (interface w ''accent-color'') \<Longrightarrow> snapshot_value (saveCurrentThemeToLightKeys e (switch_scheme c w)) ''light-accent-color'' = Some (interface w ''accent-color'')"
    and "plain (shell_or_default w) \<Longrightarrow> snapshot_value (saveCurrentThemeToLightKeys e (switch_scheme c w)) ''light-shell-theme'' = Some (shell_or_default w)"
  using assms(2) by (simp_all add: light_slot save_light_switch [OF assms(1)])

lemma round_trip_empty_gtk:
  "live_theme desktop2 = ([], ''Adwaita'', ''Adwaita'', ''blue'', [])
   \<and> map_sum id live_theme (round_trip extension1 ''prefer-dark'' ''default'' desktop2)
        = Inr (''Adwaita-dark'', ''Adwaita'', ''Adwaita'', ''blue'', [])"
proof -
  have nf: "\<And>c. \<not> failing desktop2 c" by (simp add: desktop2_fields)
  have s: "fst (getCurrentShellTheme desktop2) = []"
    by (simp add: getCurrentShellTheme_unset desktop2_fields)
  have sd: "shell_or_default desktop2 = ''Default''"
    by (simp add: shell_or_default_def s)
  have "map_sum id live_theme (round_trip extension1 ''prefer-dark'' ''default'' desktop2)
        = Inr (''Adwaita-dark'', ''Adwaita'', ''Adwaita'', ''blue'', [])"
    using round_trip_theme [of extension1 "''prefer-dark''" "''default''" desktop2
        "Some []" "Some ''Adwaita''" "Some ''Adwaita''" "Some ''blue''" "Some ''Default''"]
    by (simp add: light_slots nf desktop2_fields sd shell_command_def desktop2_snapshot
        desktop1_snapshot override_def)
  moreover have "live_theme desktop2 = ([], ''Adwaita'', ''Adwaita'', ''blue'', [])"
    by (simp add: live_theme_def desktop2_fields s)
  ultimately show ?thesis by simp
qed

lemma round_trip_shell_Default:
  "live_theme desktop5 = (''Adwaita'', ''Adwaita'', ''Adwaita'', ''blue'', ''Default'')
   \<and> map_sum id live_theme (round_trip extension1 ''prefer-dark'' ''default'' desktop5)
        = Inr (''Adwaita'', ''Adwaita'', ''Adwaita'', ''blue'', [])"
proof -
  have nf: "\<And>c. \<not> failing desktop5 c" by (simp add: desktop5_fields)
  have sd: "shell_or_default desktop5 = ''Default''"
    by (simp add: shell_or_default_def desktop5_shell)
  have dv: "snapshot_value desktop5 ''dark-gtk-theme'' = Some ''Adwaita-dark''"
    "snapshot_value desktop5 ''dark-icon-theme'' = None"
    "snapshot_value desktop5 ''dark-cursor-theme'' = None"
    "snapshot_value desktop5 ''dark-accent-color'' = None"
    by (rule dark_values; simp add: desktop5_def not_user_theme desktop1_fields)+
  have "map_sum id live_theme (round_trip extension1 ''prefer-dark'' ''default'' desktop5)
        = Inr (''Adwaita'', ''Adwaita'', ''Adwaita'', ''blue'', [])"
    using round_trip_theme [of extension1 "''prefer-dark''" "''default''" desktop5
        "Some ''Adwaita''" "Some ''Adwaita''" "Some ''Adwaita''" "Some ''blue''" "Some ''Default''"]
    by (simp add: light_slots nf desktop5_fields sd shell_command_def dv override_def)
  moreover have "live_theme desktop5 = (''Adwaita'', ''Adwaita'', ''Adwaita'', ''blue'', ''Default'')"
    by (simp add: live_theme_def desktop5_fields desktop5_shell)
  ultimately show ?thesis by simp
qed

lemma variant_fields:
  "failing desktop6 c = False" "failing desktop7 c = False" "failing desktop9 c = False"
  "gvariant desktop6 args = None" "gvariant desktop7 args = None"
  "interface desktop6 ''gtk-theme'' = [CHR ''A'', CHR 0x22, CHR ''B'', CHR 0x22, CHR ''C'']"
  "interface desktop7 ''gtk-theme'' = [CHR ''i'', CHR ''t'', CHR 0x27, CHR ''s'']"
  "interface desktop8 ''gtk-theme'' = ''Adwaita''"
  "interface desktop9 ''gtk-theme'' = ''Adwaita''"
  "interface desktop6 ''icon-theme'' = ''Adwaita''" "interface desktop7 ''icon-theme'' = ''Adwaita''"
  "interface desktop8 ''icon-theme'' = ''Adwaita''" "interface desktop9 ''icon-theme'' = ''Adwaita''"
  "interface desktop6 ''cursor-theme'' = ''Adwaita''" "interface desktop7 ''cursor-theme'' = ''Adwaita''"
  "interface desktop8 ''cursor-theme'' = ''Adwaita''" "interface desktop9 ''cursor-theme'' = ''Adwaita''"
  "interface desktop6 ''accent-color'' = ''blue''" "interface desktop7 ''accent-color'' = ''blue''"
  "interface desktop8 ''accent-color'' = ''blue''" "interface desktop9 ''accent-color'' = ''blue''"
  "dconf desktop6 = dconf desktop1" "dconf desktop7 = dconf desktop1" "dconf desktop8 = dconf desktop1"
  "dconf desktop9 userThemeName = None"
  "failing desktop8 c = (c = DconfWrite (dconfPath @ ''light-gtk-theme'') (quoted ''Adwaita''))"
  by (simp_all add: desktop6_def desktop7_def desktop8_def desktop9_def desktop1_fields desktop1_def
      desktop0_def not_user_theme)

lemma variant_shell:
  "fst (getCurrentShellTheme desktop6) = []" "fst (getCurrentShellTheme desktop7) = []"
  "fst (getCurrentShellTheme desktop8) = []" "fst (getCurrentShellTheme desktop9) = []"
  "shell_or_default desktop6 = ''Default''" "shell_or_default desktop7 = ''Default''"
  "shell_or_default desktop8 = ''Default''" "shell_or_default desktop9 = ''Default''"
  by (simp_all add: shell_or_default_def getCurrentShellTheme_unset variant_fields desktop1_fields)

lemma written_double_quotes:
  "written w (quoted [CHR ''A'', CHR 0x22, CHR ''B'', CHR 0x22, CHR ''C'']) = Some (quoted ''ABC'')"
  "written w (quoted [CHR 0x22, CHR 0x22]) = Some (quoted [])"
  by (simp_all add: written_def spliced_def shell_parse_argv_def g_shell_unquote_def quoted_def
      printed_def string_literal_def literal_char_def)

lemma written_apostrophe:
  "written w (quoted [CHR ''i'', CHR ''t'', CHR 0x27, CHR ''s'']) = gvariant w [quoted [CHR ''i'', CHR ''t'', CHR 0x27, CHR ''s'']]"
  by (simp add: written_def spliced_def shell_parse_argv_def g_shell_unquote_def quoted_def
      printed_def string_literal_def literal_char_def)

lemma round_trip_double_quotes:
  "live_theme desktop6 = ([CHR ''A'', CHR 0x22, CHR ''B'', CHR 0x22, CHR ''C''], ''Adwaita'', ''Adwaita'', ''blue'', [])
   \<and> map_sum id live_theme (round_trip extension1 ''prefer-dark'' ''default'' desktop6)
        = Inr (''ABC'', ''Adwaita'', ''Adwaita'', ''blue'', [])"
proof -
  have nf: "\<And>c. \<not> failing desktop6 c" by (simp add: variant_fields)
  have dv: "snapshot_value desktop6 ''dark-gtk-theme'' = Some ''Adwaita-dark''"
    "snapshot_value desktop6 ''dark-icon-theme'' = None"
    "snapshot_value desktop6 ''dark-cursor-theme'' = None"
    "snapshot_value desktop6 ''dark-accent-color'' = None"
    by (rule dark_values; simp add: variant_fields)+
  have g: "snapshot_value (saveCurrentThemeToLightKeys extension1 (switch_scheme ''prefer-dark'' desktop6))
             ''light-gtk-theme'' = Some ''ABC''"
    by (rule snapshot_value_quoted)
       (simp_all add: save_light_switch persisted_eq variant_fields written_double_quotes)
  have "map_sum id live_theme (round_trip extension1 ''prefer-dark'' ''default'' desktop6)
        = Inr (''ABC'', ''Adwaita'', ''Adwaita'', ''blue'', [])"
    using round_trip_theme [of extension1 "''prefer-dark''" "''default''" desktop6
        "Some ''ABC''" "Some ''Adwaita''" "Some ''Adwaita''" "Some ''blue''" "Some ''Default''"]
    by (simp add: g light_slots nf variant_fields variant_shell shell_command_def dv override_def)
  moreover have "live_theme desktop6 = ([CHR ''A'', CHR 0x22, CHR ''B'', CHR 0x22, CHR ''C''], ''Adwaita'', ''Adwaita'', ''blue'', [])"
    by (simp add: live_theme_def variant_fields variant_shell)
  ultimately show ?thesis by simp
qed

lemma round_trip_apostrophe:
  "live_theme desktop7 = ([CHR ''i'', CHR ''t'', CHR 0x27, CHR ''s''], ''Adwaita'', ''Adwaita'', ''blue'', [])
   \<and> map_sum id live_theme (round_trip extension1 ''prefer-dark'' ''default'' desktop7)
        = Inr (''Adwaita-dark'', ''Adwaita'', ''Adwaita'', ''blue'', [])"
proof -
  have nf: "\<And>c. \<not> failing desktop7 c" by (simp add: variant_fields)
  have dv: "snapshot_value desktop7 ''dark-gtk-theme'' = Some ''Adwaita-dark''"
    "snapshot_value desktop7 ''dark-icon-theme'' = None"
    "snapshot_value desktop7 ''dark-cursor-theme'' = None"
    "snapshot_value desktop7 ''dark-accent-color'' = None"
    by (rule dark_values; simp add: variant_fields)+
  have g: "snapshot_value (saveCurrentThemeToLightKeys extension1 (switch_scheme ''prefer-dark'' desktop7))
             ''light-gtk-theme'' = None"
    by (rule snapshot_value_unset)
       (simp add: save_light_switch persisted_eq variant_fields written_apostrophe desktop1_dconf)
  have "map_sum id live_theme (round_trip extension1 ''prefer-dark'' ''default'' desktop7)
        = Inr (''Adwaita-dark'', ''Adwaita'', ''Adwaita'', ''blue'', [])"
    using round_trip_theme [of extension1 "''prefer-dark''" "''default''" desktop7
        None "Some ''Adwaita''" "Some ''Adwaita''" "Some ''blue''" "Some ''Default''"]
    by (simp add: g light_slots nf variant_fields variant_shell shell_command_def dv override_def)
  moreover have "live_theme desktop7 = ([CHR ''i'', CHR ''t'', CHR 0x27, CHR ''s''], ''Adwaita'', ''Adwaita'', ''blue'', [])"
    by (simp add: live_theme_def variant_fields variant_shell)
  ultimately show ?thesis by simp
qed

lemma round_trip_failing_write:
  "live_theme desktop8 = (''Adwaita'', ''Adwaita'', ''Adwaita'', ''blue'', [])
   \<and> map_sum id live_theme (round_trip extension1 ''prefer-dark'' ''default'' desktop8)
        = Inr (''Adwaita-dark'', ''Adwaita'', ''Adwaita'', ''blue'', [])"
proof -
  have dv: "snapshot_value desktop8 ''dark-gtk-theme'' = Some ''Adwaita-dark''"
    "snapshot_value desktop8 ''dark-icon-theme'' = None"
    "snapshot_value desktop8 ''dark-cursor-theme'' = None"
    "snapshot_value desktop8 ''dark-accent-color'' = None"
    by (rule dark_values; simp add: variant_fields)+
  have g: "snapshot_value (saveCurrentThemeToLightKeys extension1 (switch_scheme ''prefer-dark'' desktop8))
             ''light-gtk-theme'' = None"
    by (rule snapshot_value_unset)
       (simp add: save_light_switch persisted_eq variant_fields desktop1_dconf)
  have l: "snapshot_value (saveCurrentThemeToLightKeys extension1 (switch_scheme ''prefer-dark'' desktop8))
             ''light-icon-theme'' = Some ''Adwaita''"
    "snapshot_value (saveCurrentThemeToLightKeys extension1 (switch_scheme ''prefer-dark'' desktop8))
             ''light-cursor-theme'' = Some ''Adwaita''"
    "snapshot_value (saveCurrentThemeToLightKeys extension1 (switch_scheme ''prefer-dark'' desktop8))
             ''light-accent-color'' = Some ''blue''"
    "snapshot_value (saveCurrentThemeToLightKeys extension1 (switch_scheme ''prefer-dark'' desktop8))
             ''light-shell-theme'' = Some ''Default''"
    by (rule snapshot_value_quoted;
        simp add: save_light_switch persisted_eq variant_fields variant_shell written_plain)+
  have "map_sum id live_theme (round_trip extension1 ''prefer-dark'' ''default'' desktop8)
        = Inr (''Adwaita-dark'', ''Adwaita'', ''Adwaita'', ''blue'', [])"
    using round_trip_theme [of extension1 "''prefer-dark''" "''default''" desktop8
        None "Some ''Adwaita''" "Some ''Adwaita''" "Some ''blue''" "Some ''Default''"]
    by (simp add: g l variant_fields shell_command_def dv override_def)
  moreover have "live_theme desktop8 = (''Adwaita'', ''Adwaita'', ''Adwaita'', ''blue'', [])"
    by (simp add: live_theme_def variant_fields variant_shell)
  ultimately show ?thesis by simp
qed

lemma round_trip_overlapped_icon:
  "live_theme desktop9 = (''Adwaita'', ''Adwaita'', ''Adwaita'', ''blue'', [])
   \<and> map_sum id live_theme (round_trip_overlapped extension1 ''prefer-dark'' ''default'' desktop9)
        = Inr (''Adwaita'', ''Papirus-Dark'', ''Adwaita'', ''blue'', [])"
proof -
  have nf: "\<And>c. \<not> failing desktop9 c" by (simp add: variant_fields)
  have dv: "snapshot_value desktop9 ''dark-gtk-theme'' = Some ''Adwaita-dark''"
    "snapshot_value desktop9 ''dark-icon-theme'' = Some ''Papirus-Dark''"
    "snapshot_value desktop9 ''dark-cursor-theme'' = None"
    "snapshot_value desktop9 ''dark-accent-color'' = None"
    by (simp_all add: snapshot_value_quoted snapshot_value_unset desktop9_def desktop1_def desktop0_def
        dconfPath_def)
  have "map_sum id live_theme (round_trip_overlapped extension1 ''prefer-dark'' ''default'' desktop9)
        = Inr (''Adwaita'', ''Papirus-Dark'', ''Adwaita'', ''blue'', [])"
    using round_trip_overlapped_theme [of extension1 "''prefer-dark''" "''default''" desktop9
        "Some ''Adwaita''" "Some ''Adwaita''" "Some ''Adwaita''" "Some ''blue''" "Some ''Default''"]
    by (simp add: light_slots nf variant_fields variant_shell shell_command_def dv override_def)
  moreover have "live_theme desktop9 = (''Adwaita'', ''Adwaita'', ''Adwaita'', ''blue'', [])"
    by (simp add: live_theme_def variant_fields variant_shell)
  ultimately show ?thesis by simp
qed

lemma connect_fields:
  "fst (connect obj w) = Suc (handler_count w)"
  "signals (snd (connect obj w)) = signals w @ [(obj, Suc (handler_count w))]"
  "handler_count (snd (connect obj w)) = Suc (handler_count w)"
  "background (snd (connect obj w)) = background w"
  "interface (snd (connect obj w)) = interface w"
  "dconf (snd (connect obj w)) = dconf w"
  "failing (snd (connect obj w)) = failing w"
  "trace (snd (connect obj w)) = trace w"
  by (simp_all add: connect_def Let_def)
















lemma desktop10_shell:
  "fst (getCurrentShellTheme desktop10) = [CHR 0x22, CHR 0x22]"
  "shell_or_default desktop10 = [CHR 0x22, CHR 0x22]"
  by (simp_all add: shell_or_default_def getCurrentShellTheme_quoted desktop10_def desktop1_fields
      desktop1_def desktop0_def)

section \<open>The claims\<close>

subsection \<open>C1: wallpaper changes\<close>

text \<open>
  Claim C1. A wallpaper-change event on one of the two wallpaper keys is
  handled as follows, the two settings objects existing and the slot of Mode
  Memory for the changed key holding \<open>m\<close> (after \<open>enable\<close> both slots hold a
  string). If the new value is a paired wallpaper, the slot for the changed key
  becomes the new value, the other slot is kept and the desktop is returned as
  it is, so no live setting is written. If the new value is not paired and the
  change is an unwanted overwrite (light key under a dark color-scheme, dark key
  under a light one), the changed key is rewritten to \<open>m\<close> by one
  \<open>set_string\<close> call and Mode Memory is returned unchanged. Otherwise the new
  value is accepted into the slot for the changed key.
\<close>

theorem handleWallpaperChange_policy:
  assumes "settings e = Some Background" and "interfaceSettings e = Some Interface"
    and "key = ''picture-uri'' \<or> key = ''picture-uri-dark''"
    and "slot key e = Some m"
  shows "on_background_changed key e w = handleWallpaperChange key e w
       \<and> (isPairedWallpaper (Some (background w key)) \<longrightarrow>
            (\<exists>e'. handleWallpaperChange key e w = Inr (e', w)
               \<and> slot key e' = Some (background w key) \<and> other_slot key e' = other_slot key e))
       \<and> (\<not> isPairedWallpaper (Some (background w key)) \<and> unwanted key w \<longrightarrow>
            (\<exists>w'. handleWallpaperChange key e w = Inr (e, w')
               \<and> background w' = (background w)(key := m)
               \<and> interface w' = interface w \<and> dconf w' = dconf w
               \<and> trace w' = trace w @ [SetString Background key m]))
       \<and> (\<not> isPairedWallpaper (Some (background w key)) \<and> \<not> unwanted key w \<longrightarrow>
            (\<exists>e'. handleWallpaperChange key e w = Inr (e', w)
               \<and> slot key e' = Some (background w key) \<and> other_slot key e' = other_slot key e))"
proof -
  have eq: "handleWallpaperChange key e w =
     (if isPairedWallpaper (Some (background w key)) then Inr (remember key (background w key) e, w)
      else if unwanted key w then
        Inr (e, emit (SetString Background key m) (write_setting Background key m w))
      else Inr (remember key (background w key) e, w))"
    using assms(3,4)
    by (auto simp add: handleWallpaperChange_open [OF assms(1,2)] read_setting_def unwanted_def
        slot_def Let_def)
  have cb: "on_background_changed key e w = handleWallpaperChange key e w"
    using assms(3) by (auto simp add: on_background_changed_def)
  show ?thesis
    unfolding cb eq by (simp add: remember_slots)
qed

theorem handleWallpaperChange_policy_witness:
  "settings extension1 = Some Background \<and> interfaceSettings extension1 = Some Interface
   \<and> slot ''picture-uri'' extension1 = Some ''file:///home/u/day.jpg''
   \<and> isPairedWallpaper (Some (background (set_wallpaper ''picture-uri'' ''file:///home/u/sunset-l.jpg'' desktop1) ''picture-uri''))
   \<and> (\<exists>e'. handleWallpaperChange ''picture-uri'' extension1
               (set_wallpaper ''picture-uri'' ''file:///home/u/sunset-l.jpg'' desktop1)
             = Inr (e', set_wallpaper ''picture-uri'' ''file:///home/u/sunset-l.jpg'' desktop1)
           \<and> slot ''picture-uri'' e' = Some ''file:///home/u/sunset-l.jpg'')
   \<and> \<not> isPairedWallpaper (Some (background (set_wallpaper ''picture-uri'' ''file:///home/u/random.jpg'' (switch_scheme ''prefer-dark'' desktop1)) ''picture-uri''))
   \<and> unwanted ''picture-uri'' (set_wallpaper ''picture-uri'' ''file:///home/u/random.jpg'' (switch_scheme ''prefer-dark'' desktop1))
   \<and> (\<exists>w'. handleWallpaperChange ''picture-uri'' extension1
               (set_wallpaper ''picture-uri'' ''file:///home/u/random.jpg'' (switch_scheme ''prefer-dark'' desktop1))
             = Inr (extension1, w')
           \<and> background w' ''picture-uri'' = ''file:///home/u/day.jpg'')
   \<and> \<not> unwanted ''picture-uri'' (set_wallpaper ''picture-uri'' ''file:///home/u/random.jpg'' desktop1)
   \<and> (\<exists>e'. handleWallpaperChange ''picture-uri'' extension1
               (set_wallpaper ''picture-uri'' ''file:///home/u/random.jpg'' desktop1)
             = Inr (e', set_wallpaper ''picture-uri'' ''file:///home/u/random.jpg'' desktop1)
           \<and> slot ''picture-uri'' e' = Some ''file:///home/u/random.jpg'')"
proof -
  have 1: "settings extension1 = Some Background" by simp
  have 2: "interfaceSettings extension1 = Some Interface" by simp
  have 3: "''picture-uri'' = ''picture-uri'' \<or> ''picture-uri'' = ''picture-uri-dark''" by simp
  have 4: "slot ''picture-uri'' extension1 = Some ''file:///home/u/day.jpg''"
    by (simp add: slot_def)
  have u1: "unwanted ''picture-uri'' (set_wallpaper ''picture-uri'' ''file:///home/u/random.jpg'' (switch_scheme ''prefer-dark'' desktop1))"
    by (simp add: unwanted_def)
  have u2: "\<not> unwanted ''picture-uri'' (set_wallpaper ''picture-uri'' ''file:///home/u/random.jpg'' desktop1)"
    by (simp add: unwanted_def desktop1_fields)
  show ?thesis
    using 1 2 4 u1 u2 paired_concrete
      handleWallpaperChange_policy [OF 1 2 3 4,
        of "set_wallpaper ''picture-uri'' ''file:///home/u/sunset-l.jpg'' desktop1"]
      handleWallpaperChange_policy [OF 1 2 3 4,
        of "set_wallpaper ''picture-uri'' ''file:///home/u/random.jpg'' (switch_scheme ''prefer-dark'' desktop1)"]
      handleWallpaperChange_policy [OF 1 2 3 4,
        of "set_wallpaper ''picture-uri'' ''file:///home/u/random.jpg'' desktop1"]
    by auto
qed

subsection \<open>C2: style changes\<close>



subsection \<open>C3: mode-switch round trip\<close>

text \<open>
  Claim C3, amended. Let the settings object exist and no command fail, and let
  each handler run to its end before the next notification. If the live GTK,
  icon and cursor themes and the accent color are non-empty and plain, and the
  live shell theme is plain and not the text \<open>Default\<close>, then a style change to
  dark followed by a style change back to light restores the five live
  attributes. A value is plain when it is made of printable ASCII characters
  other than the two quotes and the backslash.
\<close>

theorem style_round_trip:
  assumes "interfaceSettings e = Some Interface"
    and "\<forall>c. \<not> failing w c"
    and "includes_str darkScheme ''dark''"
    and "\<not> includes_str lightScheme ''dark''"
    and "interface w ''gtk-theme'' \<noteq> []" and "plain (interface w ''gtk-theme'')"
    and "interface w ''icon-theme'' \<noteq> []" and "plain (interface w ''icon-theme'')"
    and "interface w ''cursor-theme'' \<noteq> []" and "plain (interface w ''cursor-theme'')"
    and "interface w ''accent-color'' \<noteq> []" and "plain (interface w ''accent-color'')"
    and "fst (getCurrentShellTheme w) \<noteq> ''Default''" and "plain (fst (getCurrentShellTheme w))"
  shows "\<exists>w4. round_trip e darkScheme lightScheme w = Inr w4 \<and> live_theme w4 = live_theme w"
proof -
  have nf: "\<And>c. \<not> failing w c" using assms(2) by blast
  have ps: "plain (shell_or_default w)"
    using assms(14) by (simp add: shell_or_default_def Let_def)
  have "map_sum id live_theme (round_trip e darkScheme lightScheme w) =
     Inr (override (Some (interface w ''gtk-theme'')) (override (snapshot_value w ''dark-gtk-theme'') (interface w ''gtk-theme'')),
          override (Some (interface w ''icon-theme'')) (override (snapshot_value w ''dark-icon-theme'') (interface w ''icon-theme'')),
          override (Some (interface w ''cursor-theme'')) (override (snapshot_value w ''dark-cursor-theme'') (interface w ''cursor-theme'')),
          override (Some (interface w ''accent-color'')) (override (snapshot_value w ''dark-accent-color'') (interface w ''accent-color'')),
          (case Some (shell_or_default w) of None \<Rightarrow> [] | Some x \<Rightarrow> if x \<noteq> ''Default'' then x else []))"
    using assms(1,3,4)
  proof (rule round_trip_theme)
    show "snapshot_value (saveCurrentThemeToLightKeys e (switch_scheme darkScheme w)) ''light-gtk-theme'' = Some (interface w ''gtk-theme'')"
      using assms(1) nf assms(6) by (rule light_slots(1))
    show "snapshot_value (saveCurrentThemeToLightKeys e (switch_scheme darkScheme w)) ''light-icon-theme'' = Some (interface w ''icon-theme'')"
      using assms(1) nf assms(8) by (rule light_slots(2))
    show "snapshot_value (saveCurrentThemeToLightKeys e (switch_scheme darkScheme w)) ''light-cursor-theme'' = Some (interface w ''cursor-theme'')"
      using assms(1) nf assms(10) by (rule light_slots(3))
    show "snapshot_value (saveCurrentThemeToLightKeys e (switch_scheme darkScheme w)) ''light-accent-color'' = Some (interface w ''accent-color'')"
      using assms(1) nf assms(12) by (rule light_slots(4))
    show "snapshot_value (saveCurrentThemeToLightKeys e (switch_scheme darkScheme w)) ''light-shell-theme'' = Some (shell_or_default w)"
      using assms(1) nf ps by (rule light_slots(5))
    show "\<not> failing w (DconfRead userThemeName)" by (rule nf)
    show "\<not> failing w (shell_command (Some (shell_or_default w)))" by (rule nf)
    show "\<forall>x. Some (shell_or_default w) = Some x \<longrightarrow> plain x" using ps by simp
  qed
  also have "\<dots> = Inr (live_theme w)"
    using assms(5,7,9,11,13) by (simp add: live_theme_def override_Some shell_or_default_def Let_def)
  finally have "map_sum id live_theme (round_trip e darkScheme lightScheme w) = Inr (live_theme w)" .
  then show ?thesis by (cases "round_trip e darkScheme lightScheme w") auto
qed

theorem style_round_trip_witness:
  "interfaceSettings extension1 = Some Interface
   \<and> (\<forall>c. \<not> failing desktop1 c)
   \<and> includes_str ''prefer-dark'' ''dark'' \<and> \<not> includes_str ''default'' ''dark''
   \<and> interface desktop1 ''gtk-theme'' \<noteq> [] \<and> plain (interface desktop1 ''gtk-theme'')
   \<and> interface desktop1 ''icon-theme'' \<noteq> [] \<and> plain (interface desktop1 ''icon-theme'')
   \<and> interface desktop1 ''cursor-theme'' \<noteq> [] \<and> plain (interface desktop1 ''cursor-theme'')
   \<and> interface desktop1 ''accent-color'' \<noteq> [] \<and> plain (interface desktop1 ''accent-color'')
   \<and> fst (getCurrentShellTheme desktop1) \<noteq> ''Default'' \<and> plain (fst (getCurrentShellTheme desktop1))
   \<and> (\<exists>w4. round_trip extension1 ''prefer-dark'' ''default'' desktop1 = Inr w4
          \<and> live_theme w4 = live_theme desktop1)"
proof -
  have 1: "interfaceSettings extension1 = Some Interface" by simp
  have 2: "\<forall>c. \<not> failing desktop1 c" by (simp add: desktop1_fields)
  have 3: "includes_str ''prefer-dark'' ''dark''" by simp
  have 4: "\<not> includes_str ''default'' ''dark''" by simp
  have 5: "interface desktop1 ''gtk-theme'' \<noteq> []" "plain (interface desktop1 ''gtk-theme'')"
    "interface desktop1 ''icon-theme'' \<noteq> []" "plain (interface desktop1 ''icon-theme'')"
    "interface desktop1 ''cursor-theme'' \<noteq> []" "plain (interface desktop1 ''cursor-theme'')"
    "interface desktop1 ''accent-color'' \<noteq> []" "plain (interface desktop1 ''accent-color'')"
    by (simp_all add: desktop1_fields)
  have 6: "fst (getCurrentShellTheme desktop1) \<noteq> ''Default''" "plain (fst (getCurrentShellTheme desktop1))"
    by (simp_all add: getCurrentShellTheme_unset desktop1_fields)
  show ?thesis
    using 1 2 3 4 5 6 style_round_trip [OF 1 2 3 4 5 6] by blast
qed

text \<open>
  Claim C3, as stated, fails, and each condition of the amended claim is
  needed. On \<open>desktop2\<close> the live GTK theme is empty and a dark GTK theme is
  stored: the switch to dark sets it, and the switch back does not apply the
  empty light value, so the dark theme stays. On \<open>desktop5\<close> the live shell
  theme is named \<open>Default\<close>: it is stored as the sentinel, and the switch back
  resets the shell theme instead of restoring it. On \<open>desktop6\<close> the live GTK
  theme is \<open>A"B"C\<close>: the command line of the write closes and reopens its
  double quotes at those of the value, the database receives \<open>'ABC'\<close>, and
  \<open>ABC\<close> is what comes back. On \<open>desktop7\<close> the live GTK theme is \<open>it's\<close>:
  \<open>dconf write\<close> rejects \<open>'it's'\<close>, nothing is stored, and the dark theme
  stays. On \<open>desktop8\<close> the write of the light GTK key fails, with the same
  result. On \<open>desktop9\<close> a dark icon theme is stored and the second
  notification arrives while the first handler is suspended: the first handler
  resumes last and sets the dark icon theme.
\<close>

theorem style_round_trip_counterexample:
  "live_theme desktop2 = ([], ''Adwaita'', ''Adwaita'', ''blue'', [])
   \<and> map_sum id live_theme (round_trip extension1 ''prefer-dark'' ''default'' desktop2)
        = Inr (''Adwaita-dark'', ''Adwaita'', ''Adwaita'', ''blue'', [])
   \<and> live_theme desktop5 = (''Adwaita'', ''Adwaita'', ''Adwaita'', ''blue'', ''Default'')
   \<and> map_sum id live_theme (round_trip extension1 ''prefer-dark'' ''default'' desktop5)
        = Inr (''Adwaita'', ''Adwaita'', ''Adwaita'', ''blue'', [])
   \<and> live_theme desktop6 = ([CHR ''A'', CHR 0x22, CHR ''B'', CHR 0x22, CHR ''C''], ''Adwaita'', ''Adwaita'', ''blue'', [])
   \<and> map_sum id live_theme (round_trip extension1 ''prefer-dark'' ''default'' desktop6)
        = Inr (''ABC'', ''Adwaita'', ''Adwaita'', ''blue'', [])
   \<and> live_theme desktop7 = ([CHR ''i'', CHR ''t'', CHR 0x27, CHR ''s''], ''Adwaita'', ''Adwaita'', ''blue'', [])
   \<and> map_sum id live_theme (round_trip extension1 ''prefer-dark'' ''default'' desktop7)
        = Inr (''Adwaita-dark'', ''Adwaita'', ''Adwaita'', ''blue'', [])
   \<and> live_theme desktop8 = (''Adwaita'', ''Adwaita'', ''Adwaita'', ''blue'', [])
   \<and> map_sum id live_theme (round_trip extension1 ''prefer-dark'' ''default'' desktop8)
        = Inr (''Adwaita-dark'', ''Adwaita'', ''Adwaita'', ''blue'', [])
   \<and> live_theme desktop9 = (''Adwaita'', ''Adwaita'', ''Adwaita'', ''blue'', [])
   \<and> map_sum id live_theme (round_trip_overlapped extension1 ''prefer-dark'' ''default'' desktop9)
        = Inr (''Adwaita'', ''Papirus-Dark'', ''Adwaita'', ''blue'', [])"
  using round_trip_empty_gtk round_trip_shell_Default round_trip_double_quotes round_trip_apostrophe
    round_trip_failing_write round_trip_overlapped_icon
  by (intro conjI) simp_all

subsection \<open>C4: pairing classification\<close>

text \<open>
  Claim C4, amended to what the code does. \<open>_isPairedWallpaper(uri)\<close> is true
  exactly when \<open>uri\<close> is a string and the part after the last slash of \<open>uri\<close>
  without its first occurrence of \<open>file://\<close> ends with \<open>-l.ext\<close> or
  \<open>-d.ext\<close> for a non-empty alphanumeric \<open>ext\<close>. When \<open>uri\<close> starts with
  \<open>file://\<close>, or does not contain it, this is the classification of the
  specification, which drops a leading file-scheme prefix. Every value that ends
  with \<open>/sunset-l.jpg\<close> or \<open>/sunset-d.png\<close> is paired; no value that ends with
  \<open>/random.jpg\<close> is, and \<open>null\<close> is not.
\<close>

theorem isPairedWallpaper_classification:
  "(isPairedWallpaper uri \<longleftrightarrow>
      (\<exists>u. uri = Some u \<and> has_pair_suffix (final_segment (replace u ''file://'' []))))
   \<and> (startsWith v ''file://'' \<or> \<not> includes_str v ''file://''
        \<longrightarrow> isPairedWallpaper (Some v) = paired_spec (Some v))
   \<and> isPairedWallpaper (Some (a @ ''/sunset-l.jpg''))
   \<and> isPairedWallpaper (Some (b @ ''/sunset-d.png''))
   \<and> \<not> isPairedWallpaper (Some (c @ ''/random.jpg''))
   \<and> \<not> isPairedWallpaper None"
proof -
  have "isPairedWallpaper uri \<longleftrightarrow>
      (\<exists>u. uri = Some u \<and> has_pair_suffix (final_segment (replace u ''file://'' [])))"
  proof (cases uri)
    case None
    then show ?thesis by (simp add: isPairedWallpaper_def)
  next
    case (Some u)
    then show ?thesis by (simp add: isPairedWallpaper_Some)
  qed
  moreover have "startsWith v ''file://'' \<or> \<not> includes_str v ''file://''
        \<longrightarrow> isPairedWallpaper (Some v) = paired_spec (Some v)"
    using isPairedWallpaper_prefix_reading by blast
  moreover have "\<not> isPairedWallpaper None"
    by (simp add: isPairedWallpaper_def)
  ultimately show ?thesis
    using paired_examples(1) [of a] paired_examples(2) [of b] paired_examples(3) [of c]
    by blast
qed

theorem isPairedWallpaper_classification_witness:
  "isPairedWallpaper (Some ''file:///home/u/Pictures/sunset-l.jpg'')
   \<and> has_pair_suffix (final_segment (replace ''file:///home/u/Pictures/sunset-l.jpg'' ''file://'' []))
   \<and> startsWith ''file:///home/u/Pictures/sunset-l.jpg'' ''file://''
   \<and> paired_spec (Some ''file:///home/u/Pictures/sunset-l.jpg'')
   \<and> isPairedWallpaper (Some (''file:///home/u/Pictures'' @ ''/sunset-d.png''))
   \<and> \<not> isPairedWallpaper (Some (''/usr/share/backgrounds'' @ ''/random.jpg''))"
  using isPairedWallpaper_classification
          [of "Some ''file:///home/u/Pictures/sunset-l.jpg''"
              "''file:///home/u/Pictures/sunset-l.jpg''"
              "''file:///home/u/Pictures''" "''file:///home/u/Pictures''"
              "''/usr/share/backgrounds''"]
  by auto

text \<open>
  Claim C4, as stated, fails: the value \<open>a-l.file://jpg\<close> has no file-scheme
  prefix and its last path segment is \<open>jpg\<close>, yet the code removes the
  \<open>file://\<close> in the middle, finds the name \<open>a-l.jpg\<close> and answers true.
\<close>

theorem isPairedWallpaper_prefix_counterexample:
  "isPairedWallpaper (Some ''a-l.file://jpg'') \<and> \<not> paired_spec (Some ''a-l.file://jpg'')"
  by (simp add: isPairedWallpaper_def pop_def alnum_def paired_spec_def has_pair_suffix_def
      final_segment_def ignore_file_scheme_def endsWith_def)

subsection \<open>C5: shell-theme sentinel\<close>



subsection \<open>C6: automatic-mode gating\<close>

text \<open>
  Claim C6. When the persisted automatic-mode flag reads false, the Night Light
  handler returns after that one read: the wallpaper keys, the interface keys
  and the dconf database are as before, and the only call made is the read of
  the flag. The same holds for the callback of the proxy, which calls the
  handler or does nothing: its calls contain no live-setting write.
\<close>

theorem automatic_mode_gating:
  assumes "fst (getDconfBoolean ''automatic-mode'' None w) = Some False"
  shows "(\<exists>w'. handleNightLightChange b e w = Inr w'
            \<and> background w' = background w \<and> interface w' = interface w \<and> dconf w' = dconf w
            \<and> trace w' = trace w @ [SpawnSync (DconfRead (dconfPath @ ''automatic-mode''))])
       \<and> (\<exists>e' w'. on_properties_changed nightLight e w = Inr (e', w')
            \<and> background w' = background w \<and> interface w' = interface w \<and> dconf w' = dconf w
            \<and> (\<exists>new. trace w' = trace w @ new \<and> list_all (\<lambda>x. \<not> is_live_write x) new))
       \<and> (\<exists>e' w'. initNightLightMonitoring_resume e w = (e', w')
            \<and> background w' = background w \<and> interface w' = interface w \<and> dconf w' = dconf w
            \<and> (\<exists>new. trace w' = trace w @ new \<and> list_all (\<lambda>x. \<not> is_live_write x) new))"
proof -
  have g: "getAutomaticMode w = (False, emit (SpawnSync (DconfRead (dconfPath @ ''automatic-mode''))) w)"
    using assms by (simp add: getAutomaticMode_eq)
  have h: "handleNightLightChange b' e' w = Inr (emit (SpawnSync (DconfRead (dconfPath @ ''automatic-mode''))) w)"
    for b' e'
    by (simp add: handleNightLightChange_eq g)
  have 1: "\<exists>w'. handleNightLightChange b e w = Inr w'
            \<and> background w' = background w \<and> interface w' = interface w \<and> dconf w' = dconf w
            \<and> trace w' = trace w @ [SpawnSync (DconfRead (dconfPath @ ''automatic-mode''))]"
    by (simp add: h)
  have 2: "\<exists>e' w'. on_properties_changed nightLight e w = Inr (e', w')
            \<and> background w' = background w \<and> interface w' = interface w \<and> dconf w' = dconf w
            \<and> (\<exists>new. trace w' = trace w @ new \<and> list_all (\<lambda>x. \<not> is_live_write x) new)"
  proof (cases "\<exists>s. nightLight = Some s \<and> lastNightLightState e \<noteq> Some s")
    case True
    then obtain s where "nightLight = Some s" "lastNightLightState e \<noteq> Some s" by blast
    then have "on_properties_changed nightLight e w =
        Inr (e\<lparr>lastNightLightState := Some s\<rparr>, emit (SpawnSync (DconfRead (dconfPath @ ''automatic-mode''))) w)"
      by (simp add: on_properties_changed_def h)
    moreover have "list_all (\<lambda>x. \<not> is_live_write x) [SpawnSync (DconfRead (dconfPath @ ''automatic-mode''))]"
      by (simp add: is_live_write_def)
    ultimately show ?thesis by simp
  next
    case False
    then have "on_properties_changed nightLight e w = Inr (e, w)"
      by (auto simp add: on_properties_changed_def split: option.splits)
    then show ?thesis by simp
  qed
  have 3: "\<exists>e' w'. initNightLightMonitoring_resume e w = (e', w')
            \<and> background w' = background w \<and> interface w' = interface w \<and> dconf w' = dconf w
            \<and> (\<exists>new. trace w' = trace w @ new \<and> list_all (\<lambda>x. \<not> is_live_write x) new)"
  proof (cases "nightLightProxy e")
    case None
    then have "initNightLightMonitoring_resume e w = (e, w)"
      by (simp add: initNightLightMonitoring_resume_def)
    then show ?thesis by simp
  next
    case (Some proxy)
    then have "initNightLightMonitoring_resume e w =
        (e\<lparr>lastNightLightState := Some (NightLightActive w)\<rparr>,
         snd (connect ColorProxy (emit (SpawnSync (DconfRead (dconfPath @ ''automatic-mode''))) w)))"
      by (simp add: initNightLightMonitoring_resume_def h Let_def)
    moreover have "list_all (\<lambda>x. \<not> is_live_write x) [SpawnSync (DconfRead (dconfPath @ ''automatic-mode''))]"
      by (simp add: is_live_write_def)
    ultimately show ?thesis by (simp add: connect_fields)
  qed
  show ?thesis
    by (intro conjI; fact)
qed

theorem automatic_mode_gating_witness:
  "fst (getDconfBoolean ''automatic-mode'' None desktop4) = Some False
   \<and> (\<exists>w'. handleNightLightChange True extension1 desktop4 = Inr w'
         \<and> background w' = background desktop4 \<and> interface w' = interface desktop4
         \<and> trace w' = trace desktop4 @ [SpawnSync (DconfRead (dconfPath @ ''automatic-mode''))])
   \<and> (\<exists>e' w'. on_properties_changed (Some True) extension1 desktop4 = Inr (e', w')
         \<and> background w' = background desktop4 \<and> interface w' = interface desktop4)"
  using desktop4_flag automatic_mode_gating [OF desktop4_flag, of True extension1 "Some True"]
  by auto

subsection \<open>C7: first-read default\<close>

text \<open>
  Claim C7. When the automatic-mode key is unset, \<open>_getAutomaticMode\<close> returns
  true and issues the command that writes \<open>true\<close> under the key; unless that
  command fails, the key holds \<open>true\<close> afterwards. Every later call of
  \<open>_getAutomaticMode\<close> returns true as well, whether or not commands fail.
\<close>

theorem getAutomaticMode_first_read:
  assumes "dconf w (dconfPath @ ''automatic-mode'') = None"
  shows "fst (getAutomaticMode w)
     \<and> SpawnSync (DconfWrite (dconfPath @ ''automatic-mode'') ''true'') \<in> set (trace (snd (getAutomaticMode w)))
     \<and> (\<not> failing w (DconfWrite (dconfPath @ ''automatic-mode'') ''true'')
          \<longrightarrow> dconf (snd (getAutomaticMode w)) (dconfPath @ ''automatic-mode'') = Some ''true'')
     \<and> fst (getAutomaticMode (((\<lambda>w. snd (getAutomaticMode w)) ^^ n) (snd (getAutomaticMode w))))"
proof -
  have r: "fst (getDconfBoolean ''automatic-mode'' None w) = None"
    using assms by (simp add: getDconfBoolean_unset)
  have 1: "fst (getAutomaticMode w)"
    using assms by (simp add: getAutomaticMode_default(1))
  have 2: "SpawnSync (DconfWrite (dconfPath @ ''automatic-mode'') ''true'') \<in> set (trace (snd (getAutomaticMode w)))"
    using r by (simp add: getAutomaticMode_eq)
  have 3: "\<not> failing w (DconfWrite (dconfPath @ ''automatic-mode'') ''true'')
          \<longrightarrow> dconf (snd (getAutomaticMode w)) (dconfPath @ ''automatic-mode'') = Some ''true''"
    using r by (simp add: getAutomaticMode_eq setDconfBoolean_dconf)
  have "dconf (snd (getAutomaticMode w)) (dconfPath @ ''automatic-mode'') = None
         \<or> dconf (snd (getAutomaticMode w)) (dconfPath @ ''automatic-mode'') = Some ''true''"
    using assms by (simp add: getAutomaticMode_default(2))
  then have 4: "fst (getAutomaticMode (((\<lambda>w. snd (getAutomaticMode w)) ^^ n) (snd (getAutomaticMode w))))"
    by (rule getAutomaticMode_again)
  from 1 2 3 4 show ?thesis by blast
qed

theorem getAutomaticMode_first_read_witness:
  "dconf desktop0 (dconfPath @ ''automatic-mode'') = None
   \<and> fst (getAutomaticMode desktop0)
   \<and> \<not> failing desktop0 (DconfWrite (dconfPath @ ''automatic-mode'') ''true'')
   \<and> dconf (snd (getAutomaticMode desktop0)) (dconfPath @ ''automatic-mode'') = Some ''true''
   \<and> fst (getAutomaticMode (snd (getAutomaticMode desktop0)))"
proof -
  have h: "dconf desktop0 (dconfPath @ ''automatic-mode'') = None"
    by (simp add: desktop0_def)
  have f: "\<not> failing desktop0 (DconfWrite (dconfPath @ ''automatic-mode'') ''true'')"
    by (simp add: desktop0_def)
  show ?thesis
    using h f getAutomaticMode_first_read [OF h, of 0] by simp
qed

subsection \<open>C8: live-setting writes and suspension\<close>

text \<open>
  Claim C8, amended. The wallpaper handler, the Night Light handler and the
  snapshot step never suspend, so all their live-setting writes are made
  synchronously. In \<open>apply(mode)\<close> the GTK theme is the only live setting
  written before the handler suspends at the shell-theme command; the icon
  theme, the cursor theme and the accent color are written after the handler
  has resumed.
\<close>

theorem live_writes_and_suspension:
  assumes "interfaceSettings e = Some s"
  shows "trace (snd (applyLightTheme_begin e w)) = trace w @ apply_begin_effects ''light'' s w
     \<and> trace (applyLightTheme e w) = trace (snd (applyLightTheme_begin e w)) @ apply_resume_effects ''light'' s w
     \<and> trace (snd (applyDarkTheme_begin e w)) = trace w @ apply_begin_effects ''dark'' s w
     \<and> trace (applyDarkTheme e w) = trace (snd (applyDarkTheme_begin e w)) @ apply_resume_effects ''dark'' s w
     \<and> last (apply_begin_effects mode s w) = Await
     \<and> (\<forall>x \<in> set (apply_begin_effects mode s w). is_live_write x \<longrightarrow> (\<exists>y. x = SetString s ''gtk-theme'' y))
     \<and> (\<forall>x \<in> set (apply_resume_effects mode s w).
           \<exists>y. x = SetString s ''icon-theme'' y \<or> x = SetString s ''cursor-theme'' y \<or> x = SetString s ''accent-color'' y)
     \<and> Await \<notin> set (snapshot_effects mode s w)
     \<and> (\<forall>e' w'. handleWallpaperChange key e w = Inr (e', w')
           \<longrightarrow> (\<exists>new. trace w' = trace w @ new \<and> Await \<notin> set new))
     \<and> (\<forall>err w'. handleNightLightChange b e w = Inr w' \<or> handleNightLightChange b e w = Inl (err, w')
           \<longrightarrow> (\<exists>new. trace w' = trace w @ new \<and> Await \<notin> set new))"
proof -
  have c1: "trace (snd (applyLightTheme_begin e w)) = trace w @ apply_begin_effects ''light'' s w"
    by (rule applyLightTheme_begin_trace [OF assms])
  have c2: "trace (applyLightTheme e w) = trace (snd (applyLightTheme_begin e w)) @ apply_resume_effects ''light'' s w"
    by (simp add: c1 applyLightTheme_trace [OF assms])
  have c3: "trace (snd (applyDarkTheme_begin e w)) = trace w @ apply_begin_effects ''dark'' s w"
    by (rule applyDarkTheme_begin_trace [OF assms])
  have c4: "trace (applyDarkTheme e w) = trace (snd (applyDarkTheme_begin e w)) @ apply_resume_effects ''dark'' s w"
    by (simp add: c3 applyDarkTheme_trace [OF assms])
  have c5: "last (apply_begin_effects mode s w) = Await"
    by (rule apply_begin_effects_last)
  have c6: "\<forall>x \<in> set (apply_begin_effects mode s w). is_live_write x \<longrightarrow> (\<exists>y. x = SetString s ''gtk-theme'' y)"
    using apply_begin_effects_writes by blast
  have c7: "\<forall>x \<in> set (apply_resume_effects mode s w).
           \<exists>y. x = SetString s ''icon-theme'' y \<or> x = SetString s ''cursor-theme'' y \<or> x = SetString s ''accent-color'' y"
    using apply_resume_effects_writes by blast
  have c8: "Await \<notin> set (snapshot_effects mode s w)"
    by (rule Await_not_snapshot)
  have c9: "\<forall>e' w'. handleWallpaperChange key e w = Inr (e', w')
           \<longrightarrow> (\<exists>new. trace w' = trace w @ new \<and> Await \<notin> set new)"
    using handleWallpaperChange_trace by blast
  have c10: "\<forall>err w'. handleNightLightChange b e w = Inr w' \<or> handleNightLightChange b e w = Inl (err, w')
           \<longrightarrow> (\<exists>new. trace w' = trace w @ new \<and> Await \<notin> set new)"
    using handleNightLightChange_trace by blast
  show ?thesis
    by (intro conjI; fact)
qed

theorem live_writes_and_suspension_witness:
  "interfaceSettings extension1 = Some Interface
   \<and> trace (snd (applyLightTheme_begin extension1 desktop1)) = apply_begin_effects ''light'' Interface desktop1
   \<and> trace (applyLightTheme extension1 desktop1)
        = apply_begin_effects ''light'' Interface desktop1 @ apply_resume_effects ''light'' Interface desktop1
   \<and> last (apply_begin_effects ''light'' Interface desktop1) = Await
   \<and> apply_resume_effects ''light'' Interface desktop1 = [SetString Interface ''icon-theme'' ''Papirus'']"
proof -
  have 1: "interfaceSettings extension1 = Some Interface" by simp
  have 2: "apply_resume_effects ''light'' Interface desktop1 = [SetString Interface ''icon-theme'' ''Papirus'']"
    by (simp add: apply_resume_effects_def set_effect_def desktop1_snapshot)
  show ?thesis
    using 1 2 live_writes_and_suspension [OF 1, of desktop1 "''light''" "''picture-uri''" True]
    by (simp add: desktop1_fields)
qed

text \<open>
  Claim C8, as stated, fails. On \<open>desktop1\<close> a light icon theme is stored. The
  style handler returns when the applier suspends, the icon theme still being
  the old one; the write of the stored icon theme follows the suspension in the
  trace.
\<close>

theorem eager_writes_counterexample:
  "handleStyleChange_begin extension1 desktop1
     = Inr (applyLightTheme_begin extension1 (saveCurrentThemeToDarkKeys extension1 desktop1))
   \<and> handleStyleChange extension1 desktop1
     = Inr (applyLightTheme extension1 (saveCurrentThemeToDarkKeys extension1 desktop1))
   \<and> \<not> eager (trace (applyLightTheme extension1 (saveCurrentThemeToDarkKeys extension1 desktop1)))
   \<and> interface (snd (applyLightTheme_begin extension1 (saveCurrentThemeToDarkKeys extension1 desktop1)))
        ''icon-theme'' = ''Adwaita''
   \<and> interface (applyLightTheme extension1 (saveCurrentThemeToDarkKeys extension1 desktop1))
        ''icon-theme'' = ''Papirus''"
proof -
  have 0: "handleStyleChange_begin extension1 desktop1
     = Inr (applyLightTheme_begin extension1 (saveCurrentThemeToDarkKeys extension1 desktop1))"
    by (simp add: handleStyleChange_begin_def get_string_def read_setting_def desktop1_fields)
  have 1: "handleStyleChange extension1 desktop1
     = Inr (applyLightTheme extension1 (saveCurrentThemeToDarkKeys extension1 desktop1))"
    by (simp add: handleStyleChange_def get_string_def read_setting_def desktop1_fields)
  have 2: "\<not> eager (trace (applyLightTheme extension1 (saveCurrentThemeToDarkKeys extension1 desktop1)))"
    unfolding style_light_trace
    by (simp add: eager_def snapshot_effects_def is_live_write_def)
  have 3: "interface (snd (applyLightTheme_begin extension1 (saveCurrentThemeToDarkKeys extension1 desktop1)))
        ''icon-theme'' = ''Adwaita''"
    by (simp add: applyLightTheme_begin_open [of extension1 Interface] desktop1_fields)
  have 4: "interface (applyLightTheme extension1 (saveCurrentThemeToDarkKeys extension1 desktop1))
        ''icon-theme'' = ''Papirus''"
    by (simp add: apply_interface save_dark_keeps_light desktop1_snapshot override_def)
  from 0 1 2 3 4 show ?thesis by simp
qed

subsection \<open>C9: teardown\<close>




subsection \<open>C10: the shell theme of a snapshot\<close>

text \<open>
  Claim C10, amended. Each snapshot function issues the write of its
  shell-theme key at most once, with the value \<open>currentShell || 'Default'\<close>
  between single quotes, and issues it whenever the settings object exists. The
  same holds for every write of the two keys that the style handler issues.
  That value is never empty: it is the live shell theme when that is non-empty
  and the sentinel \<open>Default\<close> when the live shell theme reads as empty, which it
  does when the key is unset or the read fails. When the value is plain, the
  stored text changes to the quoted value or not at all, and the key then reads
  as that non-empty value.
\<close>

theorem shell_snapshot_never_empty:
  "(\<exists>new. trace (saveCurrentThemeToLightKeys e w) = trace w @ new
      \<and> (\<forall>t. SpawnSync (DconfWrite (dconfPath @ ''light-shell-theme'') t) \<in> set new
              \<longrightarrow> t = quoted (shell_or_default w))
      \<and> (interfaceSettings e \<noteq> None
              \<longrightarrow> SpawnSync (DconfWrite (dconfPath @ ''light-shell-theme'') (quoted (shell_or_default w))) \<in> set new))
   \<and> (\<exists>new. trace (saveCurrentThemeToDarkKeys e w) = trace w @ new
      \<and> (\<forall>t. SpawnSync (DconfWrite (dconfPath @ ''dark-shell-theme'') t) \<in> set new
              \<longrightarrow> t = quoted (shell_or_default w))
      \<and> (interfaceSettings e \<noteq> None
              \<longrightarrow> SpawnSync (DconfWrite (dconfPath @ ''dark-shell-theme'') (quoted (shell_or_default w))) \<in> set new))
   \<and> (\<forall>w'. handleStyleChange e w = Inr w' \<longrightarrow>
         (\<exists>new. trace w' = trace w @ new
            \<and> (\<forall>t. SpawnSync (DconfWrite (dconfPath @ ''light-shell-theme'') t) \<in> set new
                     \<or> SpawnSync (DconfWrite (dconfPath @ ''dark-shell-theme'') t) \<in> set new
                   \<longrightarrow> t = quoted (shell_or_default w))))
   \<and> (plain (shell_or_default w) \<longrightarrow>
        dconf (saveCurrentThemeToLightKeys e w) (dconfPath @ ''light-shell-theme'') = dconf w (dconfPath @ ''light-shell-theme'')
        \<or> dconf (saveCurrentThemeToLightKeys e w) (dconfPath @ ''light-shell-theme'') = Some (quoted (shell_or_default w)))
   \<and> (plain (shell_or_default w) \<longrightarrow>
        dconf (saveCurrentThemeToDarkKeys e w) (dconfPath @ ''dark-shell-theme'') = dconf w (dconfPath @ ''dark-shell-theme'')
        \<or> dconf (saveCurrentThemeToDarkKeys e w) (dconfPath @ ''dark-shell-theme'') = Some (quoted (shell_or_default w)))
   \<and> (plain (shell_or_default w) \<and> interfaceSettings e = Some Interface \<and> (\<forall>c. \<not> failing w c) \<longrightarrow>
        snapshot_value (saveCurrentThemeToLightKeys e w) ''light-shell-theme'' = Some (shell_or_default w)
        \<and> snapshot_value (saveCurrentThemeToDarkKeys e w) ''dark-shell-theme'' = Some (shell_or_default w))
   \<and> shell_or_default w \<noteq> []
   \<and> (fst (getCurrentShellTheme w) \<noteq> [] \<longrightarrow> shell_or_default w = fst (getCurrentShellTheme w))
   \<and> (fst (getCurrentShellTheme w) = [] \<longrightarrow> shell_or_default w = ''Default'')
   \<and> (dconf w userThemeName = None \<or> failing w (DconfRead userThemeName)
        \<longrightarrow> fst (getCurrentShellTheme w) = [])"
proof -
  have c1: "\<exists>new. trace (saveCurrentThemeToLightKeys e w) = trace w @ new
      \<and> (\<forall>t. SpawnSync (DconfWrite (dconfPath @ ''light-shell-theme'') t) \<in> set new
              \<longrightarrow> t = quoted (shell_or_default w))
      \<and> (interfaceSettings e \<noteq> None
              \<longrightarrow> SpawnSync (DconfWrite (dconfPath @ ''light-shell-theme'') (quoted (shell_or_default w))) \<in> set new)"
    using shell_key_in_snapshot [of "''light''"]
    by (cases "interfaceSettings e") (auto simp add: saveCurrentThemeToLightKeys_trace)
  have c2: "\<exists>new. trace (saveCurrentThemeToDarkKeys e w) = trace w @ new
      \<and> (\<forall>t. SpawnSync (DconfWrite (dconfPath @ ''dark-shell-theme'') t) \<in> set new
              \<longrightarrow> t = quoted (shell_or_default w))
      \<and> (interfaceSettings e \<noteq> None
              \<longrightarrow> SpawnSync (DconfWrite (dconfPath @ ''dark-shell-theme'') (quoted (shell_or_default w))) \<in> set new)"
    using shell_key_in_snapshot [of "''dark''"]
    by (cases "interfaceSettings e") (auto simp add: saveCurrentThemeToDarkKeys_trace)
  have c3: "\<forall>w'. handleStyleChange e w = Inr w' \<longrightarrow>
         (\<exists>new. trace w' = trace w @ new
            \<and> (\<forall>t. SpawnSync (DconfWrite (dconfPath @ ''light-shell-theme'') t) \<in> set new
                     \<or> SpawnSync (DconfWrite (dconfPath @ ''dark-shell-theme'') t) \<in> set new
                   \<longrightarrow> t = quoted (shell_or_default w)))"
    using handleStyleChange_shell_writes by blast
  have c4: "plain (shell_or_default w) \<longrightarrow>
        dconf (saveCurrentThemeToLightKeys e w) (dconfPath @ ''light-shell-theme'') = dconf w (dconfPath @ ''light-shell-theme'')
        \<or> dconf (saveCurrentThemeToLightKeys e w) (dconfPath @ ''light-shell-theme'') = Some (quoted (shell_or_default w))"
    using save_shell_dconf(1) by blast
  have c5: "plain (shell_or_default w) \<longrightarrow>
        dconf (saveCurrentThemeToDarkKeys e w) (dconfPath @ ''dark-shell-theme'') = dconf w (dconfPath @ ''dark-shell-theme'')
        \<or> dconf (saveCurrentThemeToDarkKeys e w) (dconfPath @ ''dark-shell-theme'') = Some (quoted (shell_or_default w))"
    using save_shell_dconf(2) by blast
  have c6: "plain (shell_or_default w) \<and> interfaceSettings e = Some Interface \<and> (\<forall>c. \<not> failing w c) \<longrightarrow>
        snapshot_value (saveCurrentThemeToLightKeys e w) ''light-shell-theme'' = Some (shell_or_default w)
        \<and> snapshot_value (saveCurrentThemeToDarkKeys e w) ''dark-shell-theme'' = Some (shell_or_default w)"
    by (simp add: saved_value save_light_at save_dark_at)
  have c7: "shell_or_default w \<noteq> []"
    by (rule shell_or_default_cases(1))
  have c8: "fst (getCurrentShellTheme w) \<noteq> [] \<longrightarrow> shell_or_default w = fst (getCurrentShellTheme w)"
    by (rule shell_or_default_cases(2))
  have c9: "fst (getCurrentShellTheme w) = [] \<longrightarrow> shell_or_default w = ''Default''"
    by (rule shell_or_default_cases(3))
  have c10: "dconf w userThemeName = None \<or> failing w (DconfRead userThemeName)
        \<longrightarrow> fst (getCurrentShellTheme w) = []"
    using getCurrentShellTheme_unset by blast
  show ?thesis
    by (intro conjI; fact)
qed

theorem shell_snapshot_never_empty_witness:
  "interfaceSettings extension1 \<noteq> None \<and> interfaceSettings extension1 = Some Interface
   \<and> (\<forall>c. \<not> failing desktop1 c)
   \<and> dconf desktop1 userThemeName = None
   \<and> fst (getCurrentShellTheme desktop1) = []
   \<and> shell_or_default desktop1 = ''Default''
   \<and> plain (shell_or_default desktop1)
   \<and> SpawnSync (DconfWrite (dconfPath @ ''light-shell-theme'') (quoted ''Default''))
        \<in> set (trace (saveCurrentThemeToLightKeys extension1 desktop1))
   \<and> SpawnSync (DconfWrite (dconfPath @ ''dark-shell-theme'') (quoted ''Default''))
        \<in> set (trace (saveCurrentThemeToDarkKeys extension1 desktop1))
   \<and> snapshot_value (saveCurrentThemeToLightKeys extension1 desktop1) ''light-shell-theme'' = Some ''Default''
   \<and> snapshot_value (saveCurrentThemeToDarkKeys extension1 desktop1) ''dark-shell-theme'' = Some ''Default''"
proof -
  have 1: "interfaceSettings extension1 \<noteq> None" "interfaceSettings extension1 = Some Interface" by simp_all
  have 2: "dconf desktop1 userThemeName = None" "\<forall>c. \<not> failing desktop1 c" by (simp_all add: desktop1_fields)
  have 3: "fst (getCurrentShellTheme desktop1) = []"
    by (simp add: getCurrentShellTheme_unset desktop1_fields)
  from shell_snapshot_never_empty [of extension1 desktop1]
  obtain newL newD where
    L: "trace (saveCurrentThemeToLightKeys extension1 desktop1) = trace desktop1 @ newL"
       "interfaceSettings extension1 \<noteq> None
          \<longrightarrow> SpawnSync (DconfWrite (dconfPath @ ''light-shell-theme'') (quoted (shell_or_default desktop1))) \<in> set newL"
    and D: "trace (saveCurrentThemeToDarkKeys extension1 desktop1) = trace desktop1 @ newD"
       "interfaceSettings extension1 \<noteq> None
          \<longrightarrow> SpawnSync (DconfWrite (dconfPath @ ''dark-shell-theme'') (quoted (shell_or_default desktop1))) \<in> set newD"
    and S: "fst (getCurrentShellTheme desktop1) = [] \<longrightarrow> shell_or_default desktop1 = ''Default''"
    and V: "plain (shell_or_default desktop1) \<and> interfaceSettings extension1 = Some Interface \<and> (\<forall>c. \<not> failing desktop1 c) \<longrightarrow>
        snapshot_value (saveCurrentThemeToLightKeys extension1 desktop1) ''light-shell-theme'' = Some (shell_or_default desktop1)
        \<and> snapshot_value (saveCurrentThemeToDarkKeys extension1 desktop1) ''dark-shell-theme'' = Some (shell_or_default desktop1)"
    by blast
  have s: "shell_or_default desktop1 = ''Default''" using S 3 by simp
  have p: "plain (shell_or_default desktop1)" by (simp add: s)
  have a: "SpawnSync (DconfWrite (dconfPath @ ''light-shell-theme'') (quoted ''Default''))
        \<in> set (trace (saveCurrentThemeToLightKeys extension1 desktop1))"
    using L 1 by (simp add: s)
  have b: "SpawnSync (DconfWrite (dconfPath @ ''dark-shell-theme'') (quoted ''Default''))
        \<in> set (trace (saveCurrentThemeToDarkKeys extension1 desktop1))"
    using D 1 by (simp add: s)
  have v: "snapshot_value (saveCurrentThemeToLightKeys extension1 desktop1) ''light-shell-theme'' = Some ''Default''"
    "snapshot_value (saveCurrentThemeToDarkKeys extension1 desktop1) ''dark-shell-theme'' = Some ''Default''"
    using V p 1 2 by (simp_all add: s)
  from 1 2 3 s p a b v show ?thesis by blast
qed

text \<open>
  Claim C10, as stated, fails. On \<open>desktop10\<close> the live shell theme is the
  name \<open>""\<close>, two double quotes. The value of the snapshot is that name, which
  is not empty, and the write is issued with \<open>'""'\<close> between the double quotes
  of the command line. The double quotes of the name close and reopen those of
  the line, the command receives \<open>''\<close>, and the string persisted under the
  light shell-theme key is the empty one.
\<close>

theorem shell_snapshot_empty_counterexample:
  "fst (getCurrentShellTheme desktop10) = [CHR 0x22, CHR 0x22]
   \<and> shell_or_default desktop10 = [CHR 0x22, CHR 0x22]
   \<and> SpawnSync (DconfWrite (dconfPath @ ''light-shell-theme'') (quoted [CHR 0x22, CHR 0x22]))
        \<in> set (trace (saveCurrentThemeToLightKeys extension1 desktop10))
   \<and> spliced (quoted [CHR 0x22, CHR 0x22]) = Some [quoted []]
   \<and> dconf (saveCurrentThemeToLightKeys extension1 desktop10) (dconfPath @ ''light-shell-theme'')
        = Some (quoted [])
   \<and> snapshot_value (saveCurrentThemeToLightKeys extension1 desktop10) ''light-shell-theme'' = Some []"
proof -
  have nf: "\<And>c. \<not> failing desktop10 c" by (simp add: desktop10_def desktop1_fields)
  have 1: "SpawnSync (DconfWrite (dconfPath @ ''light-shell-theme'') (quoted [CHR 0x22, CHR 0x22]))
        \<in> set (trace (saveCurrentThemeToLightKeys extension1 desktop10))"
    by (simp add: saveCurrentThemeToLightKeys_trace snapshot_effects_def desktop10_shell)
  have 2: "spliced (quoted [CHR 0x22, CHR 0x22]) = Some [quoted []]"
    by (simp add: spliced_def shell_parse_argv_def g_shell_unquote_def quoted_def)
  have 3: "dconf (saveCurrentThemeToLightKeys extension1 desktop10) (dconfPath @ ''light-shell-theme'')
        = Some (quoted [])"
    by (simp add: save_light_at persisted_eq nf desktop10_shell written_double_quotes)
  have 4: "snapshot_value (saveCurrentThemeToLightKeys extension1 desktop10) ''light-shell-theme'' = Some []"
    using 3 by (rule snapshot_value_quoted) (simp add: nf)
  from desktop10_shell 1 2 3 4 show ?thesis by blast
qed

end
